theory Spec2Isabelle
  imports Complex_Main "HOL-Library.Word"
begin

section \<open>JavaScript strings, bytes and errors\<close>

text \<open>
  A JavaScript string is a sequence of 16-bit code units; the binary string that
  \<open>atob\<close> returns holds one byte per code unit. Source literals are written
  through \<open>str\<close>.
\<close>

type_synonym jschar = "16 word"
type_synonym jsstring = "jschar list"
type_synonym byte = "8 word"

definition ch :: "char \<Rightarrow> jschar" where
  "ch c = of_char c"

definition str :: "string \<Rightarrow> jsstring" where
  "str s = map ch s"

text \<open>The exceptions the page can meet, by kind; their message text is the platform's.\<close>

datatype js_error = URIError | InvalidCharacterError | SyntaxError | TypeError | InvalidChild

subsection \<open>UTF-8 and UTF-16\<close>

definition is_high_surrogate :: "jschar \<Rightarrow> bool" where
  "is_high_surrogate c = (0xD800 \<le> c \<and> c \<le> 0xDBFF)"

definition is_low_surrogate :: "jschar \<Rightarrow> bool" where
  "is_low_surrogate c = (0xDC00 \<le> c \<and> c \<le> 0xDFFF)"

definition scalar_of_unit :: "jschar \<Rightarrow> nat" where
  "scalar_of_unit c = (if is_high_surrogate c \<or> is_low_surrogate c then 0xFFFD else unat c)"

text \<open>Code units to scalar values: a surrogate pair is one code point, a lone
  surrogate becomes U+FFFD.\<close>

fun code_points :: "jsstring \<Rightarrow> nat list" where
  "code_points [] = []"
| "code_points [c] = [scalar_of_unit c]"
| "code_points (c # d # cs) =
     (if is_high_surrogate c \<and> is_low_surrogate d
      then (0x10000 + (unat c - 0xD800) * 0x400 + (unat d - 0xDC00)) # code_points cs
      else scalar_of_unit c # code_points (d # cs))"

definition utf8_of_cp :: "nat \<Rightarrow> byte list" where
  "utf8_of_cp n =
     (if n < 0x80 then [of_nat n]
      else if n < 0x800 then [of_nat (0xC0 + n div 64), of_nat (0x80 + n mod 64)]
      else if n < 0x10000 then
        [of_nat (0xE0 + n div 4096), of_nat (0x80 + n div 64 mod 64), of_nat (0x80 + n mod 64)]
      else
        [of_nat (0xF0 + n div 262144), of_nat (0x80 + n div 4096 mod 64),
         of_nat (0x80 + n div 64 mod 64), of_nat (0x80 + n mod 64)])"

definition utf8_encode :: "jsstring \<Rightarrow> byte list" where
  "utf8_encode s = concat (map utf8_of_cp (code_points s))"

definition utf16_of_cp :: "nat \<Rightarrow> jsstring" where
  "utf16_of_cp n =
     (if n < 0x10000 then [of_nat n]
      else [of_nat (0xD800 + (n - 0x10000) div 0x400), of_nat (0xDC00 + (n - 0x10000) mod 0x400)])"

text \<open>
  The UTF-8 decoder of the Encoding standard, with replacement: \<open>need\<close> is the number
  of continuation bytes still expected, \<open>cp\<close> the code point so far, \<open>lo\<close> and
  \<open>hi\<close> the range allowed for the next byte. A byte outside the range ends the
  sequence with U+FFFD and is read again as a first byte.
\<close>

fun utf8_decode_from :: "nat \<Rightarrow> nat \<Rightarrow> nat \<Rightarrow> nat \<Rightarrow> byte list \<Rightarrow> nat list" where
  "utf8_decode_from need cp lo hi [] = (if need \<noteq> 0 then [0xFFFD] else [])"
| "utf8_decode_from need cp lo hi (b # bs) =
     (if need = 0 then
        (if unat b \<le> 0x7F then unat b # utf8_decode_from 0 0 0x80 0xBF bs
         else if 0xC2 \<le> unat b \<and> unat b \<le> 0xDF
           then utf8_decode_from 1 (unat b mod 32) 0x80 0xBF bs
         else if 0xE0 \<le> unat b \<and> unat b \<le> 0xEF
           then utf8_decode_from 2 (unat b mod 16)
                  (if unat b = 0xE0 then 0xA0 else 0x80) (if unat b = 0xED then 0x9F else 0xBF) bs
         else if 0xF0 \<le> unat b \<and> unat b \<le> 0xF4
           then utf8_decode_from 3 (unat b mod 8)
                  (if unat b = 0xF0 then 0x90 else 0x80) (if unat b = 0xF4 then 0x8F else 0xBF) bs
         else 0xFFFD # utf8_decode_from 0 0 0x80 0xBF bs)
      else if unat b < lo \<or> hi < unat b then 0xFFFD # utf8_decode_from 0 0 0x80 0xBF (b # bs)
      else if need = 1 then (cp * 64 + unat b mod 64) # utf8_decode_from 0 0 0x80 0xBF bs
      else utf8_decode_from (need - 1) (cp * 64 + unat b mod 64) 0x80 0xBF bs)"

definition utf8_decode :: "byte list \<Rightarrow> jsstring" where
  "utf8_decode bs = concat (map utf16_of_cp (utf8_decode_from 0 0 0x80 0xBF bs))"

subsection \<open>Percent-decoding and the query string\<close>

definition hex_val :: "nat \<Rightarrow> nat option" where
  "hex_val c =
     (if 0x30 \<le> c \<and> c \<le> 0x39 then Some (c - 0x30)
      else if 0x41 \<le> c \<and> c \<le> 0x46 then Some (c - 0x41 + 10)
      else if 0x61 \<le> c \<and> c \<le> 0x66 then Some (c - 0x61 + 10)
      else None)"

definition hex2 :: "nat \<Rightarrow> nat \<Rightarrow> nat option" where
  "hex2 h l =
     (case hex_val h of None \<Rightarrow> None
      | Some x \<Rightarrow> (case hex_val l of None \<Rightarrow> None | Some y \<Rightarrow> Some (16 * x + y)))"

text \<open>Percent-decoding of a byte sequence (URL standard): a \<open>%\<close> not followed by two
  hexadecimal digits stays as it is.\<close>

fun percent_decode :: "byte list \<Rightarrow> byte list" where
  "percent_decode (p # h # l # bs) =
     (if p = 0x25 then
        (case hex2 (unat h) (unat l) of
           Some v \<Rightarrow> of_nat v # percent_decode bs
         | None \<Rightarrow> p # percent_decode (h # l # bs))
      else p # percent_decode (h # l # bs))"
| "percent_decode (p # bs) = p # percent_decode bs"
| "percent_decode [] = []"

fun split_on :: "'a \<Rightarrow> 'a list \<Rightarrow> 'a list list" where
  "split_on d [] = [[]]"
| "split_on d (x # xs) =
     (if x = d then [] # split_on d xs
      else (case split_on d xs of p # ps \<Rightarrow> (x # p) # ps | [] \<Rightarrow> [[x]]))"

definition plus_to_space :: "byte list \<Rightarrow> byte list" where
  "plus_to_space bs = map (\<lambda>b. if b = 0x2B then 0x20 else b) bs"

definition form_component :: "byte list \<Rightarrow> jsstring" where
  "form_component bs = utf8_decode (percent_decode (plus_to_space bs))"

definition parse_pair :: "byte list \<Rightarrow> jsstring \<times> jsstring" where
  "parse_pair q =
     (form_component (takeWhile (\<lambda>b. b \<noteq> 0x3D) q),
      form_component (drop 1 (dropWhile (\<lambda>b. b \<noteq> 0x3D) q)))"

text \<open>
  \<open>new URLSearchParams(window.location.search)\<close>: a leading \<open>?\<close> is dropped, the
  string is split at \<open>&\<close>, empty pieces are skipped, and each piece is split at its
  first \<open>=\<close>; \<open>+\<close> becomes a space, then name and value are percent-decoded and
  read as UTF-8. \<open>get\<close> returns the value of the first pair with the name, or null.
\<close>

definition URLSearchParams :: "jsstring \<Rightarrow> (jsstring \<times> jsstring) list" where
  "URLSearchParams init =
     map parse_pair
       (filter (\<lambda>q. q \<noteq> [])
          (split_on 0x26 (utf8_encode (case init of [] \<Rightarrow> [] | c # cs \<Rightarrow> if c = 0x3F then cs else init))))"

definition params_get :: "(jsstring \<times> jsstring) list \<Rightarrow> jsstring \<Rightarrow> jsstring option" where
  "params_get params name = map_of params name"

subsection \<open>decodeURIComponent\<close>

text \<open>\<open>pct_octets n s\<close> reads \<open>n\<close> escapes \<open>%XX\<close> from the front of \<open>s\<close>.\<close>

fun pct_octets :: "nat \<Rightarrow> jsstring \<Rightarrow> nat list option" where
  "pct_octets 0 s = Some []"
| "pct_octets (Suc n) (p # h # l # s) =
     (if p = 0x25 then
        (case hex2 (unat h) (unat l) of
           None \<Rightarrow> None
         | Some b \<Rightarrow> (case pct_octets n s of None \<Rightarrow> None | Some bs \<Rightarrow> Some (b # bs)))
      else None)"
| "pct_octets (Suc n) s = None"

definition leading_ones :: "nat \<Rightarrow> nat" where
  "leading_ones b =
     (if b < 0x80 then 0 else if b < 0xC0 then 1 else if b < 0xE0 then 2
      else if b < 0xF0 then 3 else if b < 0xF8 then 4 else 5)"

definition is_continuation :: "nat \<Rightarrow> bool" where
  "is_continuation b = (0x80 \<le> b \<and> b \<le> 0xBF)"

text \<open>The code point of a UTF-8 sequence of a lead byte and its continuation bytes,
  or None when the sequence is not well-formed UTF-8 (a byte that is no continuation,
  an overlong form, a surrogate, a value above U+10FFFF).\<close>

definition utf8_value :: "nat \<Rightarrow> nat list \<Rightarrow> nat option" where
  "utf8_value b bs =
     (if \<not> list_all is_continuation bs then None
      else (case bs of
          [c1] \<Rightarrow>
            (let v = (b mod 32) * 64 + c1 mod 64 in if 0x80 \<le> v then Some v else None)
        | [c1, c2] \<Rightarrow>
            (let v = (b mod 16) * 4096 + (c1 mod 64) * 64 + c2 mod 64
             in if 0x800 \<le> v \<and> \<not> (0xD800 \<le> v \<and> v \<le> 0xDFFF) then Some v else None)
        | [c1, c2, c3] \<Rightarrow>
            (let v = (b mod 8) * 262144 + (c1 mod 64) * 4096 + (c2 mod 64) * 64 + c3 mod 64
             in if 0x10000 \<le> v \<and> v \<le> 0x10FFFF then Some v else None)
        | _ \<Rightarrow> None))"

text \<open>
  \<open>decodeURIComponent\<close> (ECMAScript Decode with an empty reserved set): every escape
  must be \<open>%\<close> and two hexadecimal digits, and the escaped bytes must be well-formed
  UTF-8; anything else throws URIError.
\<close>

fun decodeURIComponent :: "jsstring \<Rightarrow> js_error + jsstring" where
  "decodeURIComponent [] = Inr []"
| "decodeURIComponent (c # cs) =
     (if c \<noteq> 0x25 then
        (case decodeURIComponent cs of Inl e \<Rightarrow> Inl e | Inr r \<Rightarrow> Inr (c # r))
      else if length cs < 2 then Inl URIError
      else (case hex2 (unat (cs ! 0)) (unat (cs ! 1)) of
          None \<Rightarrow> Inl URIError
        | Some b \<Rightarrow>
            (if leading_ones b = 0 then
               (case decodeURIComponent (drop 2 cs) of
                  Inl e \<Rightarrow> Inl e | Inr r \<Rightarrow> Inr (of_nat b # r))
             else if leading_ones b = 1 \<or> 4 < leading_ones b then Inl URIError
             else (case pct_octets (leading_ones b - 1) (drop 2 cs) of
                 None \<Rightarrow> Inl URIError
               | Some bs \<Rightarrow>
                   (case utf8_value b bs of
                      None \<Rightarrow> Inl URIError
                    | Some v \<Rightarrow>
                        (case decodeURIComponent (drop (2 + 3 * (leading_ones b - 1)) cs) of
                           Inl e \<Rightarrow> Inl e | Inr r \<Rightarrow> Inr (utf16_of_cp v @ r)))))))"

subsection \<open>atob\<close>

definition is_ascii_whitespace :: "jschar \<Rightarrow> bool" where
  "is_ascii_whitespace c = (c = 0x09 \<or> c = 0x0A \<or> c = 0x0C \<or> c = 0x0D \<or> c = 0x20)"

text \<open>The position of a code unit in the standard Base64 alphabet
  \<open>A-Z a-z 0-9 + /\<close>.\<close>

definition b64_index :: "jschar \<Rightarrow> nat option" where
  "b64_index c =
     (if 0x41 \<le> c \<and> c \<le> 0x5A then Some (unat c - 0x41)
      else if 0x61 \<le> c \<and> c \<le> 0x7A then Some (unat c - 0x61 + 26)
      else if 0x30 \<le> c \<and> c \<le> 0x39 then Some (unat c - 0x30 + 52)
      else if c = 0x2B then Some 62
      else if c = 0x2F then Some 63
      else None)"

fun b64_indices :: "jsstring \<Rightarrow> nat list option" where
  "b64_indices [] = Some []"
| "b64_indices (c # cs) =
     (case b64_index c of
        None \<Rightarrow> None
      | Some i \<Rightarrow> (case b64_indices cs of None \<Rightarrow> None | Some is \<Rightarrow> Some (i # is)))"

text \<open>Four sextets give three bytes; a final group of two sextets gives one byte and
  of three sextets two bytes, the spare low bits being dropped.\<close>

fun b64_bytes :: "nat list \<Rightarrow> byte list" where
  "b64_bytes (a # b # c # d # rest) =
     of_nat (a * 4 + b div 16) # of_nat ((b mod 16) * 16 + c div 4) # of_nat ((c mod 4) * 64 + d)
       # b64_bytes rest"
| "b64_bytes [a, b, c] = [of_nat (a * 4 + b div 16), of_nat ((b mod 16) * 16 + c div 4)]"
| "b64_bytes [a, b] = [of_nat (a * 4 + b div 16)]"
| "b64_bytes _ = []"

definition strip_padding :: "jsstring \<Rightarrow> jsstring" where
  "strip_padding d =
     (if length d mod 4 = 0 then
        (if 2 \<le> length d \<and> drop (length d - 2) d = [0x3D, 0x3D] then take (length d - 2) d
         else if 1 \<le> length d \<and> drop (length d - 1) d = [0x3D] then take (length d - 1) d
         else d)
      else d)"

text \<open>
  \<open>atob\<close> (forgiving-base64 decode of the HTML standard): ASCII whitespace is
  removed, one or two trailing \<open>=\<close> are removed when the length is a multiple of
  four, a length of 1 modulo 4 or a code unit outside the alphabet throws
  InvalidCharacterError, and the result holds one code unit per decoded byte.
\<close>

definition atob :: "jsstring \<Rightarrow> js_error + jsstring" where
  "atob data =
     (let d = strip_padding (filter (\<lambda>c. \<not> is_ascii_whitespace c) data) in
      if length d mod 4 = 1 then Inl InvalidCharacterError
      else (case b64_indices d of
          None \<Rightarrow> Inl InvalidCharacterError
        | Some is \<Rightarrow> Inr (map ucast (b64_bytes is))))"

subsection \<open>decodeBase64UrlSafe\<close>

definition replace_all :: "jschar \<Rightarrow> jschar \<Rightarrow> jsstring \<Rightarrow> jsstring" where
  "replace_all a b s = map (\<lambda>c. if c = a then b else c) s"

text \<open>
  The body of the outer \<open>try\<close>: \<open>decodeURIComponent\<close>, the two \<open>replace\<close> calls
  (\<open>-\<close> to \<open>+\<close>, \<open>_\<close> to \<open>/\<close>), \<open>atob\<close>.
\<close>

definition decode_fixed :: "jsstring \<Rightarrow> js_error + jsstring" where
  "decode_fixed s =
     (case decodeURIComponent s of
        Inl e \<Rightarrow> Inl e
      | Inr decoded \<Rightarrow> atob (replace_all 0x5F 0x2F (replace_all 0x2D 0x2B decoded)))"

text \<open>
  When the outer \<open>try\<close> throws \<open>e\<close>, the handler tries \<open>atob(s)\<close> on the raw input
  and rethrows the first error \<open>e\<close> when that throws too.
\<close>

definition decodeBase64UrlSafe :: "jsstring \<Rightarrow> js_error + jsstring" where
  "decodeBase64UrlSafe s =
     (case decode_fixed s of
        Inr r \<Rightarrow> Inr r
      | Inl e \<Rightarrow> (case atob s of Inr r \<Rightarrow> Inr r | Inl e2 \<Rightarrow> Inl e))"

section \<open>JSON values and JSON.parse\<close>

subsection \<open>Numbers\<close>

text \<open>
  A Number that \<open>JSON.parse\<close> can return: a finite binary64 value, given by the
  rational it stands for, or an infinity. The two zeros are one value here: the page
  tests a number for truth, compares it with 0, shows its text and makes a date of
  it, and none of these tells \<open>-0\<close> from \<open>0\<close>.
\<close>

datatype number = Finite rat | PlusInfinity | MinusInfinity

text \<open>The number of binary digits of a natural number, counted from \<open>k\<close>.\<close>

fun bit_length_from :: "int \<Rightarrow> nat \<Rightarrow> int" where
  "bit_length_from k n = (if n = 0 then k else bit_length_from (k + 1) (n div 2))"

declare bit_length_from.simps [simp del]

definition bit_length :: "nat \<Rightarrow> int" where
  "bit_length n = bit_length_from 0 n"

text \<open>\<open>floor_log2 a b\<close> is the exponent \<open>e\<close> with \<open>2^e \<le> a / b < 2^(e+1)\<close>, for positive
  \<open>a\<close> and \<open>b\<close>: the difference of the bit lengths, or one less.\<close>

definition floor_log2 :: "nat \<Rightarrow> nat \<Rightarrow> int" where
  "floor_log2 a b =
     (let k = bit_length a - bit_length b
      in if (if 0 \<le> k then b * 2 ^ nat k \<le> a else b \<le> a * 2 ^ nat (- k)) then k else k - 1)"

text \<open>The integer nearest to \<open>n / d\<close>, the even one of two that are equally near.\<close>

definition nearest_even :: "nat \<Rightarrow> nat \<Rightarrow> nat" where
  "nearest_even n d =
     (if 2 * (n mod d) < d \<or> (2 * (n mod d) = d \<and> even (n div d)) then n div d
      else n div d + 1)"

text \<open>
  The Number value for the mathematical value \<open>a / b\<close> (ECMAScript, round to nearest,
  ties to even): \<open>u\<close> is the exponent of the last binary place, 52 places below the
  leading one and never below \<open>2^-1074\<close>, \<open>m\<close> the significand as an integer. A
  result of \<open>2^1024\<close> or more is \<open>Infinity\<close>; a value below half of \<open>2^-1074\<close> is 0.
\<close>

definition binary64 :: "nat \<Rightarrow> nat \<Rightarrow> number" where
  "binary64 a b =
     (if a = 0 then Finite 0
      else
        (let u = max (floor_log2 a b - 52) (- 1074);
             m = (if 0 \<le> u then nearest_even a (b * 2 ^ nat u)
                  else nearest_even (a * 2 ^ nat (- u)) b)
         in if 0 \<le> u then
              (if 2 ^ 1024 \<le> m * 2 ^ nat u then PlusInfinity else Finite (of_nat (m * 2 ^ nat u)))
            else Finite (of_nat m / 2 ^ nat (- u))))"

definition negate :: "number \<Rightarrow> number" where
  "negate n = (case n of Finite q \<Rightarrow> Finite (- q) | PlusInfinity \<Rightarrow> MinusInfinity
               | MinusInfinity \<Rightarrow> PlusInfinity)"

subsection \<open>Values\<close>

text \<open>
  The values \<open>JSON.parse\<close> can return. An object is the list of its own properties
  with distinct names, and only lookup by name is used on it.
\<close>

datatype json =
    JNull
  | JBool bool
  | JNum number
  | JStr jsstring
  | JArr "json list"
  | JObj "(jsstring \<times> json) list"

definition is_json_ws :: "jschar \<Rightarrow> bool" where
  "is_json_ws c = (c = 0x09 \<or> c = 0x0A \<or> c = 0x0D \<or> c = 0x20)"

definition skip_ws :: "jsstring \<Rightarrow> jsstring" where
  "skip_ws s = dropWhile is_json_ws s"

definition is_digit :: "jschar \<Rightarrow> bool" where
  "is_digit c = (0x30 \<le> c \<and> c \<le> 0x39)"

definition digits_val :: "jsstring \<Rightarrow> nat" where
  "digits_val ds = foldl (\<lambda>a c. 10 * a + (unat c - 0x30)) 0 ds"

definition hex4 :: "jsstring \<Rightarrow> jschar option" where
  "hex4 hs =
     (case map (hex_val \<circ> unat) hs of
        [Some a, Some b, Some c, Some d] \<Rightarrow> Some (of_nat (((a * 16 + b) * 16 + c) * 16 + d))
      | _ \<Rightarrow> None)"

text \<open>The single-character escapes \<open>\" \\ \/ \b \f \n \r \t\<close>.\<close>

definition escape_char :: "jschar \<Rightarrow> jschar option" where
  "escape_char e =
     (if e = 0x22 then Some 0x22 else if e = 0x5C then Some 0x5C else if e = 0x2F then Some 0x2F
      else if e = 0x62 then Some 0x08 else if e = 0x66 then Some 0x0C
      else if e = 0x6E then Some 0x0A else if e = 0x72 then Some 0x0D
      else if e = 0x74 then Some 0x09 else None)"

text \<open>\<open>parse_string\<close> reads a string after its opening quote and returns its value
  and the text after the closing quote.\<close>

fun parse_string :: "jsstring \<Rightarrow> (jsstring \<times> jsstring) option" where
  "parse_string [] = None"
| "parse_string (c # cs) =
     (if c = 0x22 then Some ([], cs)
      else if c = 0x5C then
        (case cs of
           [] \<Rightarrow> None
         | e # r \<Rightarrow>
             (if e = 0x75 then
                (case hex4 (take 4 r) of
                   None \<Rightarrow> None
                 | Some u \<Rightarrow>
                     (case parse_string (drop 4 r) of
                        None \<Rightarrow> None | Some (t, rest) \<Rightarrow> Some (u # t, rest)))
              else
                (case escape_char e of
                   None \<Rightarrow> None
                 | Some u \<Rightarrow>
                     (case parse_string r of
                        None \<Rightarrow> None | Some (t, rest) \<Rightarrow> Some (u # t, rest)))))
      else if c < 0x20 then None
      else (case parse_string cs of None \<Rightarrow> None | Some (t, rest) \<Rightarrow> Some (c # t, rest)))"

text \<open>The optional fraction \<open>.digits\<close>: its digits and the rest, None when the dot is
  not followed by a digit.\<close>

definition parse_fraction :: "jsstring \<Rightarrow> (jsstring \<times> jsstring) option" where
  "parse_fraction s =
     (case s of
        [] \<Rightarrow> Some ([], s)
      | c # cs \<Rightarrow>
          (if c = 0x2E then
             (if takeWhile is_digit cs = [] then None
              else Some (takeWhile is_digit cs, dropWhile is_digit cs))
           else Some ([], s)))"

text \<open>The optional exponent \<open>e\<close> or \<open>E\<close>, sign, digits.\<close>

definition parse_exponent :: "jsstring \<Rightarrow> (int \<times> jsstring) option" where
  "parse_exponent s =
     (case s of
        [] \<Rightarrow> Some (0, s)
      | c # cs \<Rightarrow>
          (if c = 0x65 \<or> c = 0x45 then
             (let neg = (case cs of [] \<Rightarrow> False | d # ds \<Rightarrow> d = 0x2D);
                  body = (case cs of [] \<Rightarrow> [] | d # ds \<Rightarrow> if d = 0x2D \<or> d = 0x2B then ds else cs)
              in if takeWhile is_digit body = [] then None
                 else Some ((if neg then - 1 else 1) * int (digits_val (takeWhile is_digit body)),
                            dropWhile is_digit body))
           else Some (0, s)))"

text \<open>The value \<open>m * 10^e\<close> of a decimal literal, rounded to binary64.\<close>

definition decimal_value :: "nat \<Rightarrow> int \<Rightarrow> number" where
  "decimal_value m e = (if 0 \<le> e then binary64 (m * 10 ^ nat e) 1 else binary64 m (10 ^ nat (- e)))"

text \<open>The integer part: \<open>0\<close>, or a digit sequence that does not start with \<open>0\<close>.\<close>

definition parse_int_part :: "jsstring \<Rightarrow> (jsstring \<times> jsstring) option" where
  "parse_int_part s =
     (case s of
        [] \<Rightarrow> None
      | d # ds \<Rightarrow>
          (if \<not> is_digit d then None
           else if d = 0x30 then Some ([d], ds)
           else Some (takeWhile is_digit s, dropWhile is_digit s)))"

text \<open>A JSON number: optional \<open>-\<close>, the integer part, then the optional fraction and
  exponent; its value is the binary64 number nearest to the literal.\<close>

definition parse_number :: "jsstring \<Rightarrow> (number \<times> jsstring) option" where
  "parse_number s =
     (let neg = (case s of [] \<Rightarrow> False | c # cs \<Rightarrow> c = 0x2D)
      in (case parse_int_part (if neg then drop 1 s else s) of
            None \<Rightarrow> None
          | Some (ip, s2) \<Rightarrow>
              (case parse_fraction s2 of
                 None \<Rightarrow> None
               | Some (fp, s3) \<Rightarrow>
                   (case parse_exponent s3 of
                      None \<Rightarrow> None
                    | Some (e, s4) \<Rightarrow>
                        Some ((if neg then negate else id)
                                (decimal_value (digits_val (ip @ fp)) (e - int (length fp))),
                              s4)))))"

text \<open>Defining a property that exists replaces its value; a new one is added.\<close>

fun obj_put :: "(jsstring \<times> json) list \<Rightarrow> jsstring \<Rightarrow> json \<Rightarrow> (jsstring \<times> json) list" where
  "obj_put [] k v = [(k, v)]"
| "obj_put ((k', v') # kvs) k v = (if k' = k then (k, v) # kvs else (k', v') # obj_put kvs k v)"

definition obj_of_members :: "(jsstring \<times> json) list \<Rightarrow> (jsstring \<times> json) list" where
  "obj_of_members ms = foldl (\<lambda>obj (k, v). obj_put obj k v) [] ms"

text \<open>
  The recursive-descent parser, with a bound on its calls that \<open>JSON_parse\<close> sets
  from the length of the text. \<open>parse_elements\<close> reads the elements of an array
  after \<open>[\<close> or a comma up to the closing bracket, \<open>parse_members\<close> the members of
  an object after \<open>{\<close> or a comma up to the closing brace.
\<close>

fun parse_value :: "nat \<Rightarrow> jsstring \<Rightarrow> (json \<times> jsstring) option"
  and parse_elements :: "nat \<Rightarrow> jsstring \<Rightarrow> (json list \<times> jsstring) option"
  and parse_members :: "nat \<Rightarrow> jsstring \<Rightarrow> ((jsstring \<times> json) list \<times> jsstring) option"
where
  "parse_value 0 s = None"
| "parse_value (Suc n) s =
     (case skip_ws s of
        [] \<Rightarrow> None
      | c # cs \<Rightarrow>
          (if c = 0x22 then
             (case parse_string cs of None \<Rightarrow> None | Some (t, r) \<Rightarrow> Some (JStr t, r))
           else if c = 0x5B then
             (case skip_ws cs of
                [] \<Rightarrow> None
              | d # ds \<Rightarrow>
                  (if d = 0x5D then Some (JArr [], ds)
                   else (case parse_elements n cs of
                           None \<Rightarrow> None | Some (vs, r) \<Rightarrow> Some (JArr vs, r))))
           else if c = 0x7B then
             (case skip_ws cs of
                [] \<Rightarrow> None
              | d # ds \<Rightarrow>
                  (if d = 0x7D then Some (JObj [], ds)
                   else (case parse_members n cs of
                           None \<Rightarrow> None | Some (ms, r) \<Rightarrow> Some (JObj (obj_of_members ms), r))))
           else if take 4 (c # cs) = str ''null'' then Some (JNull, drop 4 (c # cs))
           else if take 4 (c # cs) = str ''true'' then Some (JBool True, drop 4 (c # cs))
           else if take 5 (c # cs) = str ''false'' then Some (JBool False, drop 5 (c # cs))
           else (case parse_number (c # cs) of
                   None \<Rightarrow> None | Some (q, r) \<Rightarrow> Some (JNum q, r))))"
| "parse_elements 0 s = None"
| "parse_elements (Suc n) s =
     (case parse_value n s of
        None \<Rightarrow> None
      | Some (v, r) \<Rightarrow>
          (case skip_ws r of
             [] \<Rightarrow> None
           | c # r' \<Rightarrow>
               (if c = 0x2C then
                  (case parse_elements n r' of
                     None \<Rightarrow> None | Some (vs, r'') \<Rightarrow> Some (v # vs, r''))
                else if c = 0x5D then Some ([v], r')
                else None)))"
| "parse_members 0 s = None"
| "parse_members (Suc n) s =
     (case skip_ws s of
        [] \<Rightarrow> None
      | q # s1 \<Rightarrow>
          (if q \<noteq> 0x22 then None
           else (case parse_string s1 of
               None \<Rightarrow> None
             | Some (k, s2) \<Rightarrow>
                 (case skip_ws s2 of
                    [] \<Rightarrow> None
                  | c # s3 \<Rightarrow>
                      (if c \<noteq> 0x3A then None
                       else (case parse_value n s3 of
                           None \<Rightarrow> None
                         | Some (v, r) \<Rightarrow>
                             (case skip_ws r of
                                [] \<Rightarrow> None
                              | d # r' \<Rightarrow>
                                  (if d = 0x2C then
                                     (case parse_members n r' of
                                        None \<Rightarrow> None
                                      | Some (ms, r'') \<Rightarrow> Some ((k, v) # ms, r''))
                                   else if d = 0x7D then Some ([(k, v)], r')
                                   else None))))))))"

text \<open>\<open>JSON.parse\<close>: one value between optional whitespace, nothing after it; any
  other text throws SyntaxError.\<close>

definition JSON_parse :: "jsstring \<Rightarrow> js_error + json" where
  "JSON_parse text =
     (case parse_value (2 * length text + 1) text of
        None \<Rightarrow> Inl SyntaxError
      | Some (v, r) \<Rightarrow> if skip_ws r = [] then Inr v else Inl SyntaxError)"

section \<open>The platform\<close>

text \<open>
  What the browser decides and the page only calls: the message text of an exception,
  \<open>Date.parse\<close> (None is NaN), the \<open>en-IN\<close> formatting of a time value in the local
  time zone, the text of a finite number, and whether a string converted to a number
  is greater than zero.
\<close>

record platform =
  error_message :: "js_error \<Rightarrow> jsstring"
  date_parse :: "jsstring \<Rightarrow> int option"
  date_to_locale_string :: "int \<Rightarrow> jsstring"
  number_to_string :: "rat \<Rightarrow> jsstring"
  string_is_positive :: "jsstring \<Rightarrow> bool"

fun truthy :: "json \<Rightarrow> bool" where
  "truthy JNull = False"
| "truthy (JBool b) = b"
| "truthy (JNum n) = (n \<noteq> Finite 0)"
| "truthy (JStr s) = (s \<noteq> [])"
| "truthy (JArr xs) = True"
| "truthy (JObj kvs) = True"

text \<open>A value that may be \<open>undefined\<close> is a \<open>json option\<close>; None is \<open>undefined\<close>.\<close>

definition truthy_opt :: "json option \<Rightarrow> bool" where
  "truthy_opt v = (case v of None \<Rightarrow> False | Some x \<Rightarrow> truthy x)"

text \<open>\<open>a || b\<close>\<close>

definition or_else :: "json option \<Rightarrow> json option \<Rightarrow> json option" where
  "or_else a b = (if truthy_opt a then a else b)"

definition and_then :: "'e + 'a \<Rightarrow> ('a \<Rightarrow> 'e + 'b) \<Rightarrow> 'e + 'b" where
  "and_then x f = (case x of Inl e \<Rightarrow> Inl e | Inr a \<Rightarrow> f a)"

text \<open>
  \<open>v.name\<close> for the property names the page reads from the payload (none of them is
  a property of a prototype): reading from \<open>null\<close> throws TypeError, an object gives
  its own property or \<open>undefined\<close>, every other value gives \<open>undefined\<close>.
\<close>

definition get_prop :: "json \<Rightarrow> string \<Rightarrow> js_error + json option" where
  "get_prop v name =
     (case v of
        JNull \<Rightarrow> Inl TypeError
      | JObj kvs \<Rightarrow> Inr (map_of kvs (str name))
      | _ \<Rightarrow> Inr None)"

text \<open>The text of a number.\<close>

definition number_text :: "platform \<Rightarrow> number \<Rightarrow> jsstring" where
  "number_text pf n =
     (case n of Finite q \<Rightarrow> number_to_string pf q | PlusInfinity \<Rightarrow> str ''Infinity''
      | MinusInfinity \<Rightarrow> str ''-Infinity'')"

fun join_comma :: "jsstring list \<Rightarrow> jsstring" where
  "join_comma [] = []"
| "join_comma [s] = s"
| "join_comma (s # t # ts) = s @ [0x2C] @ join_comma (t # ts)"

text \<open>
  The string of a parsed value, as ToString and as ToPrimitive of an array or an
  object give it. An array has \<open>Array.prototype.toString\<close>, which joins the strings
  of its elements with commas, \<open>null\<close> elements as the empty string. An object has
  \<open>Object.prototype.toString\<close>, which gives \<open>[object Object]\<close>, unless it has a
  property \<open>toString\<close> of its own: a parsed value is never a function, the inherited
  \<open>valueOf\<close> returns the object itself, so no method gives a primitive and the
  conversion throws TypeError.
\<close>

fun js_to_string :: "platform \<Rightarrow> json \<Rightarrow> js_error + jsstring"
  and strings_of :: "platform \<Rightarrow> json list \<Rightarrow> js_error + jsstring list"
where
  "js_to_string pf JNull = Inr (str ''null'')"
| "js_to_string pf (JBool b) = Inr (if b then str ''true'' else str ''false'')"
| "js_to_string pf (JNum n) = Inr (number_text pf n)"
| "js_to_string pf (JStr s) = Inr s"
| "js_to_string pf (JArr xs) = and_then (strings_of pf xs) (\<lambda>ss. Inr (join_comma ss))"
| "js_to_string pf (JObj kvs) =
     (if map_of kvs (str ''toString'') \<noteq> None then Inl TypeError
      else Inr (str ''[object Object]''))"
| "strings_of pf [] = Inr []"
| "strings_of pf (x # xs) =
     and_then (if x = JNull then Inr [] else js_to_string pf x) (\<lambda>s.
     and_then (strings_of pf xs) (\<lambda>ss. Inr (s # ss)))"

text \<open>\<open>v > 0\<close>: an array or an object is compared through its string.\<close>

definition greater_than_zero :: "platform \<Rightarrow> json option \<Rightarrow> js_error + bool" where
  "greater_than_zero pf v =
     (case v of
        None \<Rightarrow> Inr False
      | Some JNull \<Rightarrow> Inr False
      | Some (JBool b) \<Rightarrow> Inr b
      | Some (JNum n) \<Rightarrow>
          Inr (case n of Finite q \<Rightarrow> 0 < q | PlusInfinity \<Rightarrow> True | MinusInfinity \<Rightarrow> False)
      | Some (JStr s) \<Rightarrow> Inr (string_is_positive pf s)
      | Some x \<Rightarrow> and_then (js_to_string pf x) (\<lambda>s. Inr (string_is_positive pf s)))"

text \<open>TimeClip: an infinity or a number beyond 8.64e15 ms is no time value, others
  lose their fraction.\<close>

definition time_clip :: "number \<Rightarrow> int option" where
  "time_clip n =
     (case n of
        Finite q \<Rightarrow>
          (if 8640000000000000 < \<bar>q\<bar> then None
           else Some (if 0 \<le> q then \<lfloor>q\<rfloor> else - \<lfloor>- q\<rfloor>))
      | _ \<Rightarrow> None)"

text \<open>The time value of \<open>new Date(v)\<close>; None is NaN. An array or an object is first
  made a primitive, which is its string or throws.\<close>

definition date_time_value :: "platform \<Rightarrow> json option \<Rightarrow> js_error + int option" where
  "date_time_value pf v =
     (case v of
        None \<Rightarrow> Inr None
      | Some JNull \<Rightarrow> Inr (Some 0)
      | Some (JBool b) \<Rightarrow> Inr (Some (if b then 1 else 0))
      | Some (JNum n) \<Rightarrow> Inr (time_clip n)
      | Some (JStr s) \<Rightarrow> Inr (date_parse pf s)
      | Some x \<Rightarrow> and_then (js_to_string pf x) (\<lambda>s. Inr (date_parse pf s)))"

text \<open>\<open>date.toLocaleString('en-IN')\<close>\<close>

definition toLocaleString :: "platform \<Rightarrow> int option \<Rightarrow> jsstring" where
  "toLocaleString pf tv =
     (case tv of None \<Rightarrow> str ''Invalid Date'' | Some t \<Rightarrow> date_to_locale_string pf t)"

section \<open>The component AutoPrintReceipt\<close>

subsection \<open>State and the decode effect\<close>

text \<open>The two \<open>useState\<close> cells; \<open>payload\<close> starts as \<open>null\<close>, \<open>error\<close> as \<open>null\<close>
  (None).\<close>

record state =
  payload :: json
  error :: "jsstring option"

definition initial_state :: state where
  "initial_state = \<lparr>payload = JNull, error = None\<rparr>"

definition parse_failure :: "platform \<Rightarrow> js_error \<Rightarrow> jsstring" where
  "parse_failure pf e = str ''Failed to parse data payload: '' @ error_message pf e"

text \<open>
  The first effect, run once after mount with \<open>window.location.search\<close>. \<open>!raw\<close>
  holds for \<open>null\<close> and for the empty string.
\<close>

definition decode_effect :: "platform \<Rightarrow> jsstring \<Rightarrow> state \<Rightarrow> state" where
  "decode_effect pf search st =
     (case params_get (URLSearchParams search) (str ''data'') of
        None \<Rightarrow> st\<lparr>error := Some (str ''No data parameter found in URL.'')\<rparr>
      | Some raw \<Rightarrow>
          (if raw = [] then st\<lparr>error := Some (str ''No data parameter found in URL.'')\<rparr>
           else (case decodeBase64UrlSafe raw of
               Inl e \<Rightarrow> st\<lparr>error := Some (parse_failure pf e)\<rparr>
             | Inr jsonStr \<Rightarrow>
                 (case JSON_parse jsonStr of
                    Inl e \<Rightarrow> st\<lparr>error := Some (parse_failure pf e)\<rparr>
                  | Inr obj \<Rightarrow> st\<lparr>payload := obj\<rparr>))))"

subsection \<open>The receipt\<close>

text \<open>
  The JSX the component returns, without its style attributes: literal text, a
  \<open>{expression}\<close> child with the value it evaluated to, and elements. A fragment is
  the element \<open>Fragment\<close>.
\<close>

datatype jsx = Txt jsstring | Val "json option" | El string "jsx list"

definition header_block :: jsx where
  "header_block =
     El ''div''
       [El ''img'' [],
        El ''div'' [Txt (str ''CropSync'')],
        El ''div'' [Txt (str ''Smart Agricultural Solutions'')],
        El ''div'' [Txt (str ''www.cropsync.in | +91-9182867605'')]]"

text \<open>\<open>{problem.problem_name_te || problem.problem_name_en || 'Advisory'}\<close>\<close>

definition title_block :: "json \<Rightarrow> js_error + jsx" where
  "title_block problem =
     and_then (get_prop problem ''problem_name_te'') (\<lambda>name_te.
     and_then (get_prop problem ''problem_name_en'') (\<lambda>name_en.
       Inr (El ''div'' [Val (or_else name_te (or_else name_en (Some (JStr (str ''Advisory'')))))])))"

definition meta_block :: "json \<Rightarrow> js_error + jsx" where
  "meta_block problem =
     and_then (get_prop problem ''category'') (\<lambda>category.
     and_then (get_prop problem ''stage_te'') (\<lambda>stage_te.
     and_then (get_prop problem ''stage_en'') (\<lambda>stage_en.
       Inr (El ''div''
         [El ''div'' [El ''strong'' [Txt (str ''Category:'')], Txt (str '' ''),
                      Val (or_else category (Some (JStr (str ''-''))))],
          El ''div'' [El ''strong'' [Txt (str ''Stage:'')], Txt (str '' ''),
                      Val (or_else stage_te (or_else stage_en (Some (JStr (str ''-'')))))]]))))"

text \<open>\<open>{v && (<>heading, body</>)}\<close>: a falsy \<open>v\<close> is itself the child.\<close>

definition text_section :: "string \<Rightarrow> json option \<Rightarrow> jsx" where
  "text_section heading v =
     (if truthy_opt v then El ''Fragment'' [El ''div'' [Txt (str heading)], El ''div'' [Val v]]
      else Val v)"

definition symptoms_block :: "json \<Rightarrow> js_error + jsx" where
  "symptoms_block advisory =
     and_then (get_prop advisory ''symptoms_te'') (\<lambda>v. Inr (text_section ''Symptoms'' v))"

definition notes_block :: "json \<Rightarrow> js_error + jsx" where
  "notes_block advisory =
     and_then (get_prop advisory ''notes_te'') (\<lambda>v. Inr (text_section ''Advisory'' v))"

text \<open>\<open>{v && <div><strong>label</strong> {v}</div>}\<close>\<close>

definition labelled_line :: "string \<Rightarrow> json option \<Rightarrow> jsx" where
  "labelled_line label v =
     (if truthy_opt v then El ''div'' [El ''strong'' [Txt (str label)], Txt (str '' ''), Val v]
      else Val v)"

text \<open>One element of \<open>components.map\<close>.\<close>

definition component_block :: "json \<Rightarrow> js_error + jsx" where
  "component_block c =
     and_then (get_prop c ''component_type'') (\<lambda>ctype.
     and_then (get_prop c ''component_name_te'') (\<lambda>name_te.
     and_then (get_prop c ''component_name_en'') (\<lambda>name_en.
     and_then (get_prop c ''dose_te'') (\<lambda>dose.
     and_then (get_prop c ''application_method_te'') (\<lambda>method.
     and_then (get_prop c ''notes_te'') (\<lambda>note.
       Inr (El ''div''
         [El ''div'' [Val (or_else ctype (Some (JStr (str ''-''))))],
          El ''div'' [El ''strong'' [Txt (str ''Name:'')], Txt (str '' ''),
                      Val (or_else name_te (or_else name_en (Some (JStr (str ''-'')))))],
          labelled_line ''Dose:'' dose,
          labelled_line ''Method:'' method,
          labelled_line ''Note:'' note])))))))"

fun component_blocks :: "json list \<Rightarrow> js_error + jsx list" where
  "component_blocks [] = Inr []"
| "component_blocks (c # cs) =
     and_then (component_block c) (\<lambda>b.
     and_then (component_blocks cs) (\<lambda>bs. Inr (b # bs)))"

text \<open>
  \<open>{components && components.length > 0 && (<>Treatment, components.map(...)</>)}\<close>.
  A falsy \<open>components\<close> is itself the child; a failed length test leaves \<open>false\<close>.
  Only an array has \<open>map\<close>: a non-empty string, or an object with a positive
  \<open>length\<close>, passes the test and then throws TypeError at \<open>components.map\<close>. The
  comparison itself throws when the \<open>length\<close> of an object cannot be made a
  primitive.
\<close>

definition treatment_block :: "platform \<Rightarrow> json \<Rightarrow> js_error + jsx" where
  "treatment_block pf components =
     (if \<not> truthy components then Inr (Val (Some components))
      else (case components of
          JArr cs \<Rightarrow>
            (if 0 < length cs then
               and_then (component_blocks cs) (\<lambda>bs.
                 Inr (El ''Fragment'' [El ''div'' [Txt (str ''Treatment'')], El ''div'' bs]))
             else Inr (Val (Some (JBool False))))
        | JStr s \<Rightarrow> Inl TypeError
        | JObj kvs \<Rightarrow>
            and_then (greater_than_zero pf (map_of kvs (str ''length''))) (\<lambda>positive.
              if positive then Inl TypeError else Inr (Val (Some (JBool False))))
        | _ \<Rightarrow> Inr (Val (Some (JBool False)))))"

text \<open>\<open><div>Receipt ID: {receipt_id}</div>\<close>\<close>

definition receipt_id_line :: "json option \<Rightarrow> jsx" where
  "receipt_id_line receipt_id = El ''div'' [Txt (str ''Receipt ID: ''), Val receipt_id]"

text \<open>\<open><div>Date: {new Date(generated_at).toLocaleString('en-IN')}</div>\<close>\<close>

definition date_line :: "platform \<Rightarrow> json option \<Rightarrow> js_error + jsx" where
  "date_line pf generated_at =
     and_then (date_time_value pf generated_at) (\<lambda>tv.
       Inr (El ''div'' [Txt (str ''Date: ''), Val (Some (JStr (toLocaleString pf tv)))]))"

definition footer_block :: "platform \<Rightarrow> json option \<Rightarrow> json option \<Rightarrow> js_error + jsx" where
  "footer_block pf receipt_id generated_at =
     and_then (date_line pf generated_at) (\<lambda>date.
       Inr (El ''div''
         [receipt_id_line receipt_id,
          date,
          El ''div'' [Txt (str ''Thank you for using CropSync'')]]))"

definition fallback_note :: jsx where
  "fallback_note =
     El ''div'' [Txt (str ''If printing doesn't start automatically, allow popups or press the print button in the new window.'')]"

text \<open>A destructuring default applies to \<open>undefined\<close> only.\<close>

definition with_default :: "json \<Rightarrow> json option \<Rightarrow> json" where
  "with_default d v = (case v of None \<Rightarrow> d | Some x \<Rightarrow> x)"

text \<open>
  The receipt branch of the component: the destructuring of the payload with its
  defaults, then the expressions of the container's children in source order. The
  sections are kept by name; \<open>receipt_jsx\<close> puts them into the returned tree, whose
  first child is the container that \<open>containerRef\<close> points to.
\<close>

record sections =
  title :: jsx
  meta :: jsx
  symptoms :: jsx
  advisory_notes :: jsx
  treatment :: jsx
  footer :: jsx

definition receipt_sections :: "platform \<Rightarrow> json \<Rightarrow> js_error + sections" where
  "receipt_sections pf p =
     and_then (get_prop p ''problem'') (\<lambda>problem.
     and_then (get_prop p ''advisory'') (\<lambda>advisory.
     and_then (get_prop p ''components'') (\<lambda>components.
     and_then (get_prop p ''receipt_id'') (\<lambda>receipt_id.
     and_then (get_prop p ''generated_at'') (\<lambda>generated_at.
     and_then (title_block (with_default (JObj []) problem)) (\<lambda>t.
     and_then (meta_block (with_default (JObj []) problem)) (\<lambda>m.
     and_then (symptoms_block (with_default (JObj []) advisory)) (\<lambda>s.
     and_then (notes_block (with_default (JObj []) advisory)) (\<lambda>n.
     and_then (treatment_block pf (with_default (JArr []) components)) (\<lambda>c.
     and_then (footer_block pf receipt_id generated_at) (\<lambda>f.
       Inr \<lparr>title = t, meta = m, symptoms = s, advisory_notes = n, treatment = c,
            footer = f\<rparr>)))))))))))"

definition receipt_jsx :: "sections \<Rightarrow> jsx" where
  "receipt_jsx r =
     El ''div''
       [El ''div'' [header_block, title r, meta r, symptoms r, advisory_notes r, treatment r, footer r],
        fallback_note]"

subsection \<open>What React mounts\<close>

text \<open>
  React turns the children into nodes: a string or a number becomes a text node,
  a boolean, \<open>null\<close>, \<open>undefined\<close> and the empty string nothing, an array its
  elements, and an object is refused with an error. A fragment adds no node.
\<close>

datatype dom = DText jsstring | DEl string "dom list"

fun child_nodes :: "platform \<Rightarrow> json \<Rightarrow> js_error + dom list"
  and children_nodes :: "platform \<Rightarrow> json list \<Rightarrow> js_error + dom list"
where
  "child_nodes pf JNull = Inr []"
| "child_nodes pf (JBool b) = Inr []"
| "child_nodes pf (JNum n) = Inr [DText (number_text pf n)]"
| "child_nodes pf (JStr s) = Inr (if s = [] then [] else [DText s])"
| "child_nodes pf (JArr xs) = children_nodes pf xs"
| "child_nodes pf (JObj kvs) = Inl InvalidChild"
| "children_nodes pf [] = Inr []"
| "children_nodes pf (x # xs) =
     and_then (child_nodes pf x) (\<lambda>a.
     and_then (children_nodes pf xs) (\<lambda>b. Inr (a @ b)))"

fun mount :: "platform \<Rightarrow> jsx \<Rightarrow> js_error + dom list"
  and mount_all :: "platform \<Rightarrow> jsx list \<Rightarrow> js_error + dom list"
where
  "mount pf (Txt s) = Inr [DText s]"
| "mount pf (Val v) = (case v of None \<Rightarrow> Inr [] | Some x \<Rightarrow> child_nodes pf x)"
| "mount pf (El tag cs) =
     and_then (mount_all pf cs) (\<lambda>ns. Inr (if tag = ''Fragment'' then ns else [DEl tag ns]))"
| "mount_all pf [] = Inr []"
| "mount_all pf (c # cs) =
     and_then (mount pf c) (\<lambda>a.
     and_then (mount_all pf cs) (\<lambda>b. Inr (a @ b)))"

text \<open>The text nodes of a tree, in document order.\<close>

fun texts :: "dom \<Rightarrow> jsstring list"
  and texts_all :: "dom list \<Rightarrow> jsstring list"
where
  "texts (DText s) = [s]"
| "texts (DEl tag ns) = texts_all ns"
| "texts_all [] = []"
| "texts_all (n # ns) = texts n @ texts_all ns"

subsection \<open>The three views\<close>

datatype view = ErrorView "dom list" | WaitingView "dom list" | ReceiptView "dom list"

text \<open>
  The component's return value, mounted: the error view when \<open>error\<close> is truthy, the
  waiting view when \<open>payload\<close> is falsy, the receipt otherwise. An exception thrown
  while rendering is the result \<open>Inl\<close>; nothing is mounted then.
\<close>

definition render :: "platform \<Rightarrow> state \<Rightarrow> js_error + view" where
  "render pf st =
     (if (case error st of None \<Rightarrow> False | Some msg \<Rightarrow> msg \<noteq> []) then
        and_then (mount pf (El ''div'' [Txt (str ''Error: ''), Val (map_option JStr (error st))]))
          (\<lambda>ns. Inr (ErrorView ns))
      else if \<not> truthy (payload st) then
        and_then (mount pf (El ''div'' [Txt (str ''Preparing receipt...'')]))
          (\<lambda>ns. Inr (WaitingView ns))
      else
        and_then (receipt_sections pf (payload st)) (\<lambda>r.
        and_then (mount pf (receipt_jsx r)) (\<lambda>ns. Inr (ReceiptView ns))))"

text \<open>\<open>containerRef.current\<close> is set exactly when the receipt is mounted.\<close>

definition container_mounted :: "platform \<Rightarrow> state \<Rightarrow> bool" where
  "container_mounted pf st = (case render pf st of Inr (ReceiptView ns) \<Rightarrow> True | _ \<Rightarrow> False)"

text \<open>The guard of the second effect: \<open>generateAndPrint\<close> is called unless
  \<open>!payload || !containerRef.current\<close>.\<close>

definition export_starts :: "platform \<Rightarrow> state \<Rightarrow> bool" where
  "export_starts pf st = (\<not> (\<not> truthy (payload st) \<or> \<not> container_mounted pf st))"

text \<open>The page after load: the decode effect on the initial state.\<close>

definition loaded :: "platform \<Rightarrow> jsstring \<Rightarrow> state" where
  "loaded pf search = decode_effect pf search initial_state"

subsection \<open>The export effect\<close>

text \<open>
  The document the page asks jsPDF for, in millimetres: the page size after the
  orientation rule (portrait keeps the shorter side as the width), the images placed
  on each page, and the auto-print flag. A new document has one empty page, and an
  image goes on the current page, which is the last one.
\<close>

datatype orientation = Portrait | Landscape

record image =
  image_data :: jsstring
  image_format :: string
  pos_x :: nat
  pos_y :: nat
  img_width :: nat
  img_height :: nat

record pdf_doc =
  unit_name :: string
  page_width :: nat
  page_height :: nat
  pages :: "image list list"
  auto_print :: bool

definition jsPDF :: "orientation \<Rightarrow> string \<Rightarrow> nat \<times> nat \<Rightarrow> pdf_doc" where
  "jsPDF orient u fmt =
     (let w = fst fmt; h = snd fmt;
          swap = (case orient of Portrait \<Rightarrow> h < w | Landscape \<Rightarrow> w < h)
      in \<lparr>unit_name = u, page_width = (if swap then h else w),
          page_height = (if swap then w else h), pages = [[]], auto_print = False\<rparr>)"

definition addImage :: "pdf_doc \<Rightarrow> image \<Rightarrow> pdf_doc" where
  "addImage d img =
     (case rev (pages d) of
        [] \<Rightarrow> d
      | cur # earlier \<Rightarrow> d\<lparr>pages := rev earlier @ [cur @ [img]]\<rparr>)"

definition autoPrint :: "pdf_doc \<Rightarrow> pdf_doc" where
  "autoPrint d = d\<lparr>auto_print := True\<rparr>"

text \<open>
  What the browser and the two libraries answer during the export: the canvas that
  html2canvas draws from the container at a scale (given by its pixel size), its PNG
  data URL, the blob URL of a document, whether \<open>window.open\<close> of a URL returns a
  window, whether the print window's load event fires, whether focusing and printing
  a window throws, the blob that \<open>pdf.output('blob', callback)\<close> hands to the
  callback (None when the callback is never called), and the data URL the FileReader
  delivers to \<open>onload\<close> (None when it never does).
\<close>

type_synonym canvas = "nat \<times> nat"
type_synonym blob = "byte list"

record env =
  html2canvas :: "dom list \<Rightarrow> nat \<Rightarrow> js_error + canvas"
  toDataURL :: "canvas \<Rightarrow> js_error + jsstring"
  output_bloburl :: "pdf_doc \<Rightarrow> js_error + jsstring"
  window_open :: "jsstring \<Rightarrow> bool"
  load_fires :: bool
  print_throws :: bool
  output_blob_callback :: "pdf_doc \<Rightarrow> blob option"
  reader_result :: "blob \<Rightarrow> jsstring option"

datatype window = PrintWindow | FallbackWindow | ThisWindow

text \<open>What the export does that can be observed, in order.\<close>

datatype action =
    Sleep nat
  | Rasterize nat
  | PdfOutput pdf_doc
  | Open jsstring
  | Focus window
  | Print window
  | CloseAfter nat window
  | Write window jsstring
  | DocClose window
  | ReadAsDataURL blob
  | Alert jsstring
  | ConsoleError js_error
  | ConsoleWarn

text \<open>\<open>new jsPDF({orientation: "portrait", unit: "mm", format: [80, 120]})\<close>,
  \<open>addImage(imgData, "PNG", 0, 0, 80, 120)\<close>, \<open>autoPrint()\<close>.\<close>

definition receipt_pdf :: "jsstring \<Rightarrow> pdf_doc" where
  "receipt_pdf imgData =
     autoPrint
       (addImage (jsPDF Portrait ''mm'' (80, 120))
          \<lparr>image_data = imgData, image_format = ''PNG'', pos_x = 0, pos_y = 0,
           img_width = 80, img_height = 120\<rparr>)"

text \<open>The \<open>catch\<close> of \<open>generateAndPrint\<close>.\<close>

definition print_failed :: "platform \<Rightarrow> js_error \<Rightarrow> action list" where
  "print_failed pf e = [ConsoleError e, Alert (str ''Print failed: '' @ error_message pf e)]"

text \<open>The handler of the print window's load event.\<close>

definition on_print_window_load :: "env \<Rightarrow> action list" where
  "on_print_window_load ev =
     (if print_throws ev then [ConsoleWarn]
      else [Focus PrintWindow, Print PrintWindow, CloseAfter 1500 PrintWindow,
            CloseAfter 2000 ThisWindow])"

definition iframe_markup :: "jsstring \<Rightarrow> jsstring" where
  "iframe_markup url =
     str ''<iframe src=\"'' @ url @ str ''\" style=\"width:100%;height:100%;border:none;\"></iframe>''"

text \<open>
  The \<open>else\<close> branch, taken when the first \<open>window.open\<close> returned \<open>null\<close>: a blank
  window is opened; when that fails too an alert is shown; otherwise the function
  awaits the promise that only the callback given to \<open>pdf.output('blob', ...)\<close>
  resolves, reads the blob as a data URL, and in \<open>reader.onload\<close> writes the iframe
  and prints after 800 ms.
\<close>

definition popup_blocked_fallback :: "env \<Rightarrow> pdf_doc \<Rightarrow> action list" where
  "popup_blocked_fallback ev pdf =
     Open [] #
     (if \<not> window_open ev [] then
        [Alert (str ''Popup blocked and fallback failed. Please allow popups.'')]
      else (case output_blob_callback ev pdf of
          None \<Rightarrow> []
        | Some b \<Rightarrow>
            ReadAsDataURL b #
            (case reader_result ev b of
               None \<Rightarrow> []
             | Some url \<Rightarrow>
                 [Write FallbackWindow (iframe_markup url), DocClose FallbackWindow, Sleep 800] @
                 (if print_throws ev then [ConsoleWarn]
                  else [Focus FallbackWindow, Print FallbackWindow,
                        CloseAfter 1500 FallbackWindow]))))"

definition generateAndPrint :: "platform \<Rightarrow> env \<Rightarrow> dom list \<Rightarrow> action list" where
  "generateAndPrint pf ev container =
     Sleep 300 # Rasterize 2 #
     (case html2canvas ev container 2 of
        Inl e \<Rightarrow> print_failed pf e
      | Inr cv \<Rightarrow>
          (case toDataURL ev cv of
             Inl e \<Rightarrow> print_failed pf e
           | Inr imgData \<Rightarrow>
               PdfOutput (receipt_pdf imgData) #
               (case output_bloburl ev (receipt_pdf imgData) of
                  Inl e \<Rightarrow> print_failed pf e
                | Inr blobUrl \<Rightarrow>
                    Open blobUrl #
                    (if window_open ev blobUrl then
                       (if load_fires ev then on_print_window_load ev else [])
                     else popup_blocked_fallback ev (receipt_pdf imgData)))))"

text \<open>The second effect, run after a render: the guard, then \<open>generateAndPrint\<close> on
  the mounted container (the first child of the receipt's outer element).\<close>

definition container_of :: "dom list \<Rightarrow> dom list" where
  "container_of ns = (case ns of [DEl t (c # cs)] \<Rightarrow> [c] | _ \<Rightarrow> [])"

definition export_effect :: "platform \<Rightarrow> env \<Rightarrow> state \<Rightarrow> action list" where
  "export_effect pf ev st =
     (if \<not> truthy (payload st) then []
      else (case render pf st of
          Inr (ReceiptView ns) \<Rightarrow> generateAndPrint pf ev (container_of ns)
        | _ \<Rightarrow> []))"

text \<open>The page halted with an error message: the state holds the message and no
  payload, the error view is rendered with it, and the export effect does nothing.\<close>

definition halted_with :: "platform \<Rightarrow> env \<Rightarrow> jsstring \<Rightarrow> jsstring \<Rightarrow> bool" where
  "halted_with pf ev search msg =
     (loaded pf search = \<lparr>payload = JNull, error = Some msg\<rparr>
      \<and> render pf (loaded pf search) =
          Inr (ErrorView [DEl ''div'' [DText (str ''Error: ''), DText msg]])
      \<and> \<not> export_starts pf (loaded pf search)
      \<and> export_effect pf ev (loaded pf search) = [])"

section \<open>The encoder of the \<open>data\<close> parameter\<close>

text \<open>
  The page only decodes. The encoding that the round-trip property names is written
  here from the specification's words: the JSON text as UTF-8, Base64 of RFC 4648
  with \<open>-\<close> for \<open>+\<close> and \<open>_\<close> for \<open>/\<close> and with \<open>=\<close> padding, then
  percent-encoding of every byte that is not an unreserved character, as the value
  of the parameter \<open>data\<close>.
\<close>

fun b64_sextets :: "byte list \<Rightarrow> nat list" where
  "b64_sextets (a # b # c # rest) =
     (unat a div 4) # ((unat a mod 4) * 16 + unat b div 16)
       # ((unat b mod 16) * 4 + unat c div 64) # (unat c mod 64) # b64_sextets rest"
| "b64_sextets [a, b] =
     [unat a div 4, (unat a mod 4) * 16 + unat b div 16, (unat b mod 16) * 4]"
| "b64_sextets [a] = [unat a div 4, (unat a mod 4) * 16]"
| "b64_sextets [] = []"

definition b64url_char :: "nat \<Rightarrow> jschar" where
  "b64url_char i =
     (if i < 26 then of_nat (0x41 + i)
      else if i < 52 then of_nat (0x61 + (i - 26))
      else if i < 62 then of_nat (0x30 + (i - 52))
      else if i = 62 then 0x2D
      else 0x5F)"

definition base64url_encode :: "byte list \<Rightarrow> jsstring" where
  "base64url_encode bs =
     map b64url_char (b64_sextets bs) @ replicate ((3 - length bs mod 3) mod 3) 0x3D"

definition is_unreserved :: "byte \<Rightarrow> bool" where
  "is_unreserved b =
     ((0x41 \<le> b \<and> b \<le> 0x5A) \<or> (0x61 \<le> b \<and> b \<le> 0x7A) \<or> (0x30 \<le> b \<and> b \<le> 0x39)
      \<or> b = 0x2D \<or> b = 0x5F \<or> b = 0x2E \<or> b = 0x7E)"

definition hex_digit :: "nat \<Rightarrow> jschar" where
  "hex_digit n = (if n < 10 then of_nat (0x30 + n) else of_nat (0x41 + (n - 10)))"

definition percent_encode_byte :: "byte \<Rightarrow> jsstring" where
  "percent_encode_byte b =
     (if is_unreserved b then [ucast b]
      else [0x25, hex_digit (unat b div 16), hex_digit (unat b mod 16)])"

definition percent_encode :: "jsstring \<Rightarrow> jsstring" where
  "percent_encode s = concat (map percent_encode_byte (utf8_encode s))"

text \<open>What the two \<open>replace\<close> calls of the decoder do to one character, and texts of
  ASCII characters only.\<close>

definition standard_char :: "jschar \<Rightarrow> jschar" where
  "standard_char c = (if c = 0x2D then 0x2B else if c = 0x5F then 0x2F else c)"

definition is_ascii :: "jsstring \<Rightarrow> bool" where
  "is_ascii s = list_all (\<lambda>c. c < 0x80) s"

text \<open>The query string that carries the JSON text \<open>t\<close>.\<close>

definition data_query :: "jsstring \<Rightarrow> jsstring" where
  "data_query t = str ''?data='' @ percent_encode (base64url_encode (utf8_encode t))"

section \<open>An example platform and environment\<close>

text \<open>One platform and one browser environment, to run the definitions on: every
  date string parses to the first instant of 2024 (UTC), only a blank window can be
  opened, and the callback given to jsPDF is never called.\<close>

definition example_platform :: platform where
  "example_platform =
     \<lparr>error_message = (\<lambda>e. str ''invalid input''),
      date_parse = (\<lambda>s. Some 1704067200000),
      date_to_locale_string = (\<lambda>t. str ''1/1/2024, 5:30:00 am''),
      number_to_string = (\<lambda>n. str ''0''),
      string_is_positive = (\<lambda>s. False)\<rparr>"

definition example_env :: env where
  "example_env =
     \<lparr>html2canvas = (\<lambda>ns scale. Inr (605 * scale, 2000 * scale)),
      toDataURL = (\<lambda>cv. Inr (str ''data:image/png;base64,iVBORw0KGgo'')),
      output_bloburl = (\<lambda>d. Inr (str ''blob:0'')),
      window_open = (\<lambda>url. url = []),
      load_fires = True,
      print_throws = False,
      output_blob_callback = (\<lambda>d. None),
      reader_result = (\<lambda>b. None)\<rparr>"

text \<open>The payload of the specification's example,
  \<open>{"receipt_id":"R1","generated_at":"2024-01-01T00:00:00Z","problem":{"problem_name_en":"Leaf Blight"},"components":[]}\<close>.\<close>

definition example_payload :: json where
  "example_payload =
     JObj [(str ''receipt_id'', JStr (str ''R1'')),
           (str ''generated_at'', JStr (str ''2024-01-01T00:00:00Z'')),
           (str ''problem'', JObj [(str ''problem_name_en'', JStr (str ''Leaf Blight''))]),
           (str ''components'', JArr [])]"

text \<open>A payload whose advisory has symptoms in English only, and one whose
  \<open>problem\<close> is \<open>null\<close>.\<close>

definition symptoms_only_english :: json where
  "symptoms_only_english =
     JObj [(str ''advisory'', JObj [(str ''symptoms_en'', JStr (str ''Yellow spots''))])]"

definition null_problem :: json where
  "null_problem = JObj [(str ''problem'', JNull)]"

text \<open>A payload with the English member of every pair and no Telugu member, and one
  whose problem has both names.\<close>

definition english_problem :: "(jsstring \<times> json) list" where
  "english_problem =
     [(str ''problem_name_en'', JStr (str ''Leaf Blight'')),
      (str ''stage_en'', JStr (str ''Flowering''))]"

definition english_advisory :: "(jsstring \<times> json) list" where
  "english_advisory =
     [(str ''symptoms_en'', JStr (str ''Yellow spots'')),
      (str ''notes_en'', JStr (str ''Spray in the evening''))]"

definition english_component :: "(jsstring \<times> json) list" where
  "english_component =
     [(str ''component_name_en'', JStr (str ''Neem oil'')),
      (str ''dose_en'', JStr (str ''5 ml per litre'')),
      (str ''application_method_en'', JStr (str ''Foliar spray'')),
      (str ''notes_en'', JStr (str ''Repeat after a week''))]"

definition english_only_members :: "(jsstring \<times> json) list" where
  "english_only_members =
     [(str ''problem'', JObj english_problem),
      (str ''advisory'', JObj english_advisory),
      (str ''components'', JArr [JObj english_component])]"

definition english_only :: json where
  "english_only = JObj english_only_members"

definition both_names :: json where
  "both_names =
     JObj [(str ''problem'',
              JObj [(str ''problem_name_te'', JStr [0x0C05]),
                    (str ''problem_name_en'', JStr (str ''Leaf Blight''))])]"

text \<open>A JSON text with one Telugu letter (U+0C05) written as it is, and the value it
  denotes.\<close>

definition telugu_text :: jsstring where
  "telugu_text = str ''{\"problem\":{\"problem_name_te\":\"'' @ [0x0C05] @ str ''\"}}''"

definition telugu_payload :: json where
  "telugu_payload = JObj [(str ''problem'', JObj [(str ''problem_name_te'', JStr [0x0C05])])]"

section \<open>Properties\<close>

subsection \<open>Running the definitions\<close>

text \<open>The defining equations that the simplifier needs to run the decoder, the
  parser and the page on a given input.\<close>

lemmas string_eval = str_def ch_def

lemmas query_eval = URLSearchParams_def params_get_def parse_pair_def form_component_def
  plus_to_space_def utf8_encode_def utf8_decode_def utf8_of_cp_def utf16_of_cp_def
  scalar_of_unit_def is_high_surrogate_def is_low_surrogate_def hex2_def hex_val_def

lemmas base64_eval = decodeBase64UrlSafe_def decode_fixed_def atob_def strip_padding_def
  is_ascii_whitespace_def b64_index_def replace_all_def

lemmas parse_value_numeral =
  parse_value.simps(2) [of "pred_numeral k" for k, folded numeral_eq_Suc]
  parse_elements.simps(2) [of "pred_numeral k" for k, folded numeral_eq_Suc]
  parse_members.simps(2) [of "pred_numeral k" for k, folded numeral_eq_Suc]

lemmas number_eval = binary64_def floor_log2_def nearest_even_def bit_length_def
  bit_length_from.simps [of _ "numeral k" for k] bit_length_from.simps [of _ 0]
  bit_length_from.simps [of _ 1] bit_length_from.simps [of _ "Suc 0"]
  decimal_value_def negate_def Let_def

lemmas json_eval = JSON_parse_def skip_ws_def is_json_ws_def is_digit_def digits_val_def
  hex4_def escape_char_def parse_fraction_def parse_exponent_def parse_int_part_def
  parse_number_def number_eval
  obj_of_members_def parse_value_numeral

lemmas page_eval = loaded_def decode_effect_def initial_state_def parse_failure_def

lemmas render_eval = render_def and_then_def receipt_sections_def receipt_jsx_def get_prop_def
  with_default_def title_block_def meta_block_def symptoms_block_def notes_block_def
  text_section_def labelled_line_def component_block_def treatment_block_def footer_block_def
  receipt_id_line_def date_line_def
  header_block_def fallback_note_def or_else_def truthy_opt_def toLocaleString_def
  date_time_value_def greater_than_zero_def time_clip_def number_text_def

lemmas export_eval = export_effect_def export_starts_def container_mounted_def
  generateAndPrint_def popup_blocked_fallback_def on_print_window_load_def print_failed_def
  receipt_pdf_def jsPDF_def addImage_def autoPrint_def container_of_def

subsection \<open>The bound on the parser's calls\<close>

lemma length_skip_ws: "length (skip_ws s) \<le> length s"
  by (simp add: skip_ws_def length_dropWhile_le)

lemma skip_ws_Cons: "skip_ws s = c # cs \<Longrightarrow> length cs < length s"
  using length_skip_ws [of s] by simp

lemma parse_string_shorter: "parse_string s = Some (t, r) \<Longrightarrow> length r < length s"
proof (induction s arbitrary: t r rule: parse_string.induct)
  case 1
  then show ?case by simp
next
  case (2 c cs)
  then show ?case
    by (auto split: if_splits list.splits option.splits prod.splits) fastforce+
qed

lemma parse_fraction_shorter: "parse_fraction s = Some (f, r) \<Longrightarrow> length r \<le> length s"
  by (auto simp: parse_fraction_def length_dropWhile_le le_SucI split: list.splits if_splits)

lemma parse_exponent_shorter: "parse_exponent s = Some (e, r) \<Longrightarrow> length r \<le> length s"
  by (auto simp: parse_exponent_def Let_def length_dropWhile_le le_SucI
      intro: order_trans [OF length_dropWhile_le]
      split: list.splits if_splits)

lemma parse_int_part_shorter: "parse_int_part s = Some (ip, r) \<Longrightarrow> length r < length s"
  by (auto simp: parse_int_part_def less_Suc_eq_le length_dropWhile_le split: list.splits if_splits)

lemma parse_number_shorter:
  assumes "parse_number s = Some (q, r)"
  shows "length r < length s"
proof -
  define s1 where "s1 = (if (case s of [] \<Rightarrow> False | c # cs \<Rightarrow> c = 0x2D) then drop 1 s else s)"
  have l1: "length s1 \<le> length s"
    by (simp add: s1_def)
  from assms obtain ip s2 where i: "parse_int_part s1 = Some (ip, s2)"
    by (auto simp: parse_number_def Let_def s1_def split: option.splits)
  from assms i obtain fp s3 where f: "parse_fraction s2 = Some (fp, s3)"
    by (auto simp: parse_number_def Let_def s1_def split: option.splits)
  from assms i f obtain e where x: "parse_exponent s3 = Some (e, r)"
    by (auto simp: parse_number_def Let_def s1_def split: option.splits)
  from parse_int_part_shorter [OF i] parse_fraction_shorter [OF f] parse_exponent_shorter [OF x] l1
  show ?thesis by simp
qed

lemma parse_shorter:
  "parse_value n s = Some (v, r) \<Longrightarrow> length r < length s"
  "parse_elements n s = Some (vs, r) \<Longrightarrow> length r < length s"
  "parse_members n s = Some (ms, r) \<Longrightarrow> length r < length s"
proof (induction n s and n s and n s arbitrary: v r and vs r and ms r
    rule: parse_value_parse_elements_parse_members.induct)
  case (1 s)
  then show ?case by simp
next
  case (2 n s)
  show ?case
  proof (cases "skip_ws s")
    case Nil
    with 2(3) show ?thesis by simp
  next
    case (Cons c cs)
    note len = skip_ws_Cons [OF Cons]
    have lcs: "length (c # cs) \<le> length s"
      using length_skip_ws [of s] Cons by simp
    from 2(3) Cons consider
      (str) t where "parse_string cs = Some (t, r)"
      | (emptyarr) d where "skip_ws cs = d # r"
      | (arr) ws where "parse_elements n cs = Some (ws, r)" "c = 0x5B"
          "\<exists>d ds. skip_ws cs = d # ds \<and> d \<noteq> 0x5D"
      | (obj) ws where "parse_members n cs = Some (ws, r)" "c = 0x7B" "c \<noteq> 0x5B" "c \<noteq> 0x22"
          "\<exists>d ds. skip_ws cs = d # ds \<and> d \<noteq> 0x7D"
      | (lit4) "r = drop 4 (c # cs)"
      | (lit5) "r = drop 5 (c # cs)"
      | (num) q where "parse_number (c # cs) = Some (q, r)"
      by (auto split: if_splits list.splits option.splits)
    then show ?thesis
    proof cases
      case str
      from parse_string_shorter [OF this] len show ?thesis by simp
    next
      case emptyarr
      from skip_ws_Cons [OF this] len show ?thesis by simp
    next
      case arr
      then obtain d ds where "skip_ws cs = d # ds" "d \<noteq> 0x5D" by blast
      moreover have "c \<noteq> 0x22" using arr(2) by simp
      ultimately show ?thesis
        using 2(1) [OF Cons _ arr(2) _ _ arr(1)] len by simp
    next
      case obj
      then obtain d ds where "skip_ws cs = d # ds" "d \<noteq> 0x7D" by blast
      then show ?thesis
        using 2(2) [OF Cons obj(4) obj(3) obj(2) _ _ obj(1)] len by simp
    next
      case lit4
      with lcs show ?thesis by simp
    next
      case lit5
      with lcs show ?thesis by simp
    next
      case num
      from parse_number_shorter [OF this] lcs show ?thesis by simp
    qed
  qed
next
  case (3 s)
  then show ?case by simp
next
  case (4 n s)
  from 4(3) obtain w r0 where v: "parse_value n s = Some (w, r0)"
    by (auto split: option.splits)
  note l0 = 4(1) [OF v]
  from 4(3) v obtain c r' where sk: "skip_ws r0 = c # r'"
    by (auto split: list.splits)
  note l1 = skip_ws_Cons [OF sk]
  from 4(3) v sk consider
    (more) ws where "c = 0x2C" "parse_elements n r' = Some (ws, r)"
    | (stop) "r = r'"
    by (auto split: if_splits option.splits)
  then show ?case
  proof cases
    case more
    from 4(2) [OF v refl sk more(1) more(2)] l0 l1 show ?thesis by simp
  next
    case stop
    with l0 l1 show ?thesis by simp
  qed
next
  case (5 s)
  then show ?case by simp
next
  case (6 n s)
  from 6(3) obtain q s1 where sk0: "skip_ws s = q # s1" and q: "q = 0x22"
    by (auto split: list.splits if_splits)
  from 6(3) sk0 q obtain k s2 where ps: "parse_string s1 = Some (k, s2)"
    by (auto split: option.splits)
  from 6(3) sk0 q ps obtain c s3 where sk1: "skip_ws s2 = c # s3" and c: "c = 0x3A"
    by (auto split: list.splits if_splits)
  from 6(3) sk0 q ps sk1 c obtain w r0 where v: "parse_value n s3 = Some (w, r0)"
    by (auto split: option.splits)
  from 6(3) sk0 q ps sk1 c v obtain d r' where sk2: "skip_ws r0 = d # r'"
    by (auto split: list.splits)
  have qn: "\<not> q \<noteq> 0x22" using q by simp
  have cn: "\<not> c \<noteq> 0x3A" using c by simp
  note l = skip_ws_Cons [OF sk0] parse_string_shorter [OF ps] skip_ws_Cons [OF sk1]
    6(1) [OF sk0 qn ps refl sk1 cn v] skip_ws_Cons [OF sk2]
  from 6(3) sk0 q ps sk1 c v sk2 consider
    (more) ws where "d = 0x2C" "parse_members n r' = Some (ws, r)"
    | (stop) "r = r'"
    by (auto split: if_splits option.splits)
  then show ?case
  proof cases
    case more
    from 6(2) [OF sk0 qn ps refl sk1 cn v refl sk2 more(1) more(2)] l show ?thesis by simp
  next
    case stop
    with l show ?thesis by simp
  qed
qed

text \<open>Once the bound is at least twice the length of the text (plus one for a value,
  plus two for the rest of an array or object), a larger bound gives the same
  result: the bound that \<open>JSON_parse\<close> sets never ends a parse.\<close>

lemma parse_bound_enough:
  "(\<forall>s m. 2 * length s + 1 \<le> n \<and> n \<le> m \<longrightarrow> parse_value n s = parse_value m s)
   \<and> (\<forall>s m. 2 * length s + 2 \<le> n \<and> n \<le> m \<longrightarrow> parse_elements n s = parse_elements m s)
   \<and> (\<forall>s m. 2 * length s + 2 \<le> n \<and> n \<le> m \<longrightarrow> parse_members n s = parse_members m s)"
proof (induction n)
  case 0
  then show ?case by simp
next
  case (Suc n)
  note ih_v = Suc.IH [THEN conjunct1, rule_format, OF conjI]
  note ih_e = Suc.IH [THEN conjunct2, THEN conjunct1, rule_format, OF conjI]
  note ih_m = Suc.IH [THEN conjunct2, THEN conjunct2, rule_format, OF conjI]
  have v: "parse_value (Suc n) s = parse_value m s"
    if b: "2 * length s + 1 \<le> Suc n" and le: "Suc n \<le> m" for s m
  proof -
    from le obtain m' where m: "m = Suc m'" and le': "n \<le> m'"
      by (cases m) auto
    have e: "parse_elements n cs = parse_elements m' cs"
      and o: "parse_members n cs = parse_members m' cs"
      if "skip_ws s = c # cs" for c cs
      using skip_ws_Cons [OF that] b le' by (auto intro!: ih_e ih_m)
    show ?thesis
      unfolding m by (auto simp: e o split: list.splits)
  qed
  have e: "parse_elements (Suc n) s = parse_elements m s"
    if b: "2 * length s + 2 \<le> Suc n" and le: "Suc n \<le> m" for s m
  proof -
    from le obtain m' where m: "m = Suc m'" and le': "n \<le> m'"
      by (cases m) auto
    have first: "parse_value n s = parse_value m' s"
      using b le' by (auto intro!: ih_v)
    have rest: "parse_elements n r' = parse_elements m' r'"
      if "parse_value m' s = Some (w, r)" and "skip_ws r = c # r'" for w r c r'
      using parse_shorter(1) [OF that(1)] skip_ws_Cons [OF that(2)] b le'
      by (auto intro!: ih_e)
    show ?thesis
      unfolding m by (auto simp: first rest split: option.splits list.splits)
  qed
  have o: "parse_members (Suc n) s = parse_members m s"
    if b: "2 * length s + 2 \<le> Suc n" and le: "Suc n \<le> m" for s m
  proof -
    from le obtain m' where m: "m = Suc m'" and le': "n \<le> m'"
      by (cases m) auto
    have first: "parse_value n s3 = parse_value m' s3"
      if "skip_ws s = q # s1" and "parse_string s1 = Some (k, s2)" and "skip_ws s2 = c # s3"
      for q s1 k s2 c s3
      using skip_ws_Cons [OF that(1)] parse_string_shorter [OF that(2)] skip_ws_Cons [OF that(3)]
        b le'
      by (auto intro!: ih_v)
    have rest: "parse_members n r' = parse_members m' r'"
      if "skip_ws s = q # s1" and "parse_string s1 = Some (k, s2)" and "skip_ws s2 = c # s3"
        and "parse_value m' s3 = Some (w, r)" and "skip_ws r = d # r'"
      for q s1 k s2 c s3 w r d r'
      using skip_ws_Cons [OF that(1)] parse_string_shorter [OF that(2)] skip_ws_Cons [OF that(3)]
        parse_shorter(1) [OF that(4)] skip_ws_Cons [OF that(5)] b le'
      by (auto intro!: ih_m)
    show ?thesis
      unfolding m by (auto simp: first rest split: option.splits list.splits)
  qed
  from v e o show ?case by blast
qed

lemma JSON_parse_bound:
  assumes "2 * length t + 1 \<le> n"
  shows "JSON_parse t =
     (case parse_value n t of
        None \<Rightarrow> Inl SyntaxError
      | Some (v, r) \<Rightarrow> if skip_ws r = [] then Inr v else Inl SyntaxError)"
  using parse_bound_enough [of "2 * length t + 1", THEN conjunct1, rule_format, of t n] assms
  by (simp add: JSON_parse_def)

subsection \<open>The error view\<close>

lemma render_error_view:
  "msg \<noteq> [] \<Longrightarrow>
   render pf \<lparr>payload = p, error = Some msg\<rparr> =
     Inr (ErrorView [DEl ''div'' [DText (str ''Error: ''), DText msg]])"
  by (simp add: render_def and_then_def)

text \<open>
  C2. When the query string has no parameter named \<open>data\<close>, the page after load
  holds the message "No data parameter found in URL." in \<open>error\<close> and \<open>null\<close> in
  \<open>payload\<close>, the error view is what is rendered, and the export effect does
  nothing: its guard fails and \<open>generateAndPrint\<close> is not called.
\<close>

theorem no_data_parameter_error_view:
  assumes "str ''data'' \<notin> fst ` set (URLSearchParams search)"
  shows "loaded pf search =
           \<lparr>payload = JNull, error = Some (str ''No data parameter found in URL.'')\<rparr>
       \<and> render pf (loaded pf search) =
           Inr (ErrorView [DEl ''div'' [DText (str ''Error: ''),
                                        DText (str ''No data parameter found in URL.'')]])
       \<and> \<not> export_starts pf (loaded pf search)
       \<and> export_effect pf ev (loaded pf search) = []"
proof -
  from assms have none: "params_get (URLSearchParams search) (str ''data'') = None"
    by (simp add: params_get_def map_of_eq_None_iff)
  have st: "loaded pf search =
      \<lparr>payload = JNull, error = Some (str ''No data parameter found in URL.'')\<rparr>"
    by (simp add: loaded_def decode_effect_def none initial_state_def)
  have ne: "str ''No data parameter found in URL.'' \<noteq> []"
    by (simp add: str_def)
  show ?thesis
    unfolding st using render_error_view[OF ne]
    by (simp add: export_starts_def export_effect_def)
qed

theorem no_data_parameter_witness:
  "str ''data'' \<notin> fst ` set (URLSearchParams (str ''?id=7&lang=te''))
   \<and> loaded example_platform (str ''?id=7&lang=te'') =
       \<lparr>payload = JNull, error = Some (str ''No data parameter found in URL.'')\<rparr>
   \<and> render example_platform (loaded example_platform (str ''?id=7&lang=te'')) =
       Inr (ErrorView [DEl ''div'' [DText (str ''Error: ''),
                                    DText (str ''No data parameter found in URL.'')]])
   \<and> \<not> export_starts example_platform (loaded example_platform (str ''?id=7&lang=te''))
   \<and> export_effect example_platform example_env
         (loaded example_platform (str ''?id=7&lang=te'')) = []"
proof -
  have h: "str ''data'' \<notin> fst ` set (URLSearchParams (str ''?id=7&lang=te''))"
    by (simp add: query_eval string_eval)
  show ?thesis
    by (rule conjI [OF h no_data_parameter_error_view [OF h]])
qed

subsection \<open>Numbers as \<open>JSON.parse\<close> reads them\<close>

lemma tiny_number_is_zero: "JSON_parse (str ''1e-400'') = Inr (JNum (Finite 0))"
  by (simp add: json_eval string_eval)

lemma huge_number_is_infinity: "JSON_parse (str ''1e400'') = Inr (JNum PlusInfinity)"
  by (simp add: json_eval string_eval)

lemma one_tenth: "JSON_parse (str ''0.1'') = Inr (JNum (Finite (3602879701896397 / 36028797018963968)))"
  by (simp add: json_eval string_eval)

lemma half_way_to_even:
  "JSON_parse (str ''8640000000000000.5'') = Inr (JNum (Finite 8640000000000000))"
  "JSON_parse (str ''9007199254740993'') = Inr (JNum (Finite 9007199254740992))"
  "JSON_parse (str ''-9007199254740995'') = Inr (JNum (Finite (- 9007199254740996)))"
  by (simp_all add: json_eval string_eval)

lemma largest_and_smallest:
  "JSON_parse (str ''1.7976931348623157e308'') = Inr (JNum (Finite ((2 ^ 53 - 1) * 2 ^ 971)))"
  "JSON_parse (str ''1.7976931348623159e308'') = Inr (JNum PlusInfinity)"
  "JSON_parse (str ''5e-324'') = Inr (JNum (Finite (1 / 2 ^ 1074)))"
  "JSON_parse (str ''2.4e-324'') = Inr (JNum (Finite 0))"
  "JSON_parse (str ''-0'') = Inr (JNum (Finite 0))"
  by (simp_all add: json_eval string_eval)

subsection \<open>The waiting view\<close>

lemma falsy_cases:
  "\<not> truthy v \<longleftrightarrow> v = JNull \<or> v = JBool False \<or> v = JNum (Finite 0) \<or> v = JStr []"
  by (cases v) auto

lemma render_waiting_view:
  "\<not> truthy v \<Longrightarrow>
   render pf \<lparr>payload = v, error = None\<rparr> =
     Inr (WaitingView [DEl ''div'' [DText (str ''Preparing receipt...'')]])"
  by (simp add: render_def and_then_def)

text \<open>
  C9. When the \<open>data\<close> parameter decodes and parses to a falsy value (\<open>null\<close>,
  \<open>false\<close>, the number 0, which is also what a literal too small for binary64 such
  as \<open>1e-400\<close> parses to, or the empty string), the page after load has no error,
  holds that value as payload, renders the waiting view "Preparing receipt...", and
  the export effect does nothing.
\<close>

theorem falsy_payload_waiting_view:
  assumes "params_get (URLSearchParams search) (str ''data'') = Some raw"
      and "raw \<noteq> []"
      and "decodeBase64UrlSafe raw = Inr t"
      and "JSON_parse t = Inr v"
      and "\<not> truthy v"
  shows "(v = JNull \<or> v = JBool False \<or> v = JNum (Finite 0) \<or> v = JStr [])
       \<and> loaded pf search = \<lparr>payload = v, error = None\<rparr>
       \<and> render pf (loaded pf search) =
           Inr (WaitingView [DEl ''div'' [DText (str ''Preparing receipt...'')]])
       \<and> \<not> export_starts pf (loaded pf search)
       \<and> export_effect pf ev (loaded pf search) = []"
proof -
  have st: "loaded pf search = \<lparr>payload = v, error = None\<rparr>"
    using assms(1-4) by (simp add: page_eval)
  have cases: "v = JNull \<or> v = JBool False \<or> v = JNum (Finite 0) \<or> v = JStr []"
    using assms(5) by (simp only: falsy_cases)
  show ?thesis
    unfolding st using cases assms(5) render_waiting_view[OF assms(5)]
    by (simp add: export_starts_def export_effect_def)
qed

theorem falsy_payload_witness:
  "params_get (URLSearchParams (str ''?data=MWUtNDAw'')) (str ''data'') = Some (str ''MWUtNDAw'')
   \<and> str ''MWUtNDAw'' \<noteq> []
   \<and> decodeBase64UrlSafe (str ''MWUtNDAw'') = Inr (str ''1e-400'')
   \<and> JSON_parse (str ''1e-400'') = Inr (JNum (Finite 0))
   \<and> \<not> truthy (JNum (Finite 0))
   \<and> loaded example_platform (str ''?data=MWUtNDAw'') = \<lparr>payload = JNum (Finite 0), error = None\<rparr>
   \<and> render example_platform (loaded example_platform (str ''?data=MWUtNDAw'')) =
       Inr (WaitingView [DEl ''div'' [DText (str ''Preparing receipt...'')]])
   \<and> \<not> export_starts example_platform (loaded example_platform (str ''?data=MWUtNDAw''))
   \<and> export_effect example_platform example_env (loaded example_platform (str ''?data=MWUtNDAw'')) = []"
proof -
  have h1: "params_get (URLSearchParams (str ''?data=MWUtNDAw'')) (str ''data'') = Some (str ''MWUtNDAw'')"
    by (simp add: query_eval string_eval)
  have h2: "str ''MWUtNDAw'' \<noteq> []"
    by (simp add: string_eval)
  have h3: "decodeBase64UrlSafe (str ''MWUtNDAw'') = Inr (str ''1e-400'')"
    by (simp add: base64_eval string_eval)
  note h4 = tiny_number_is_zero
  have h5: "\<not> truthy (JNum (Finite 0))"
    by simp
  from falsy_payload_waiting_view [OF h1 h2 h3 h4 h5, of example_platform example_env]
  have "loaded example_platform (str ''?data=MWUtNDAw'') = \<lparr>payload = JNum (Finite 0), error = None\<rparr>
   \<and> render example_platform (loaded example_platform (str ''?data=MWUtNDAw'')) =
       Inr (WaitingView [DEl ''div'' [DText (str ''Preparing receipt...'')]])
   \<and> \<not> export_starts example_platform (loaded example_platform (str ''?data=MWUtNDAw''))
   \<and> export_effect example_platform example_env (loaded example_platform (str ''?data=MWUtNDAw'')) = []"
    by (rule conjunct2)
  with h1 h2 h3 h4 h5 show ?thesis by blast
qed

subsection \<open>The treatment section\<close>

lemma treatment_block_absent:
  "treatment_block pf (with_default (JArr []) None) = Inr (Val (Some (JBool False)))"
  "treatment_block pf (with_default (JArr []) (Some (JArr []))) = Inr (Val (Some (JBool False)))"
  by (simp_all add: treatment_block_def with_default_def)

lemma receipt_sections_treatment:
  assumes "receipt_sections pf p = Inr r"
  shows "\<exists>c. get_prop p ''components'' = Inr c
           \<and> treatment_block pf (with_default (JArr []) c) = Inr (treatment r)"
  using assms
  by (auto simp: receipt_sections_def and_then_def split: sum.splits)

text \<open>
  C8. When the payload has no \<open>components\<close> property, or an empty array there, the
  treatment section of the receipt is the value \<open>false\<close>, for which React mounts
  nothing: neither the heading "Treatment" nor a component block.
\<close>

theorem no_components_no_treatment:
  assumes "get_prop p ''components'' = Inr None \<or> get_prop p ''components'' = Inr (Some (JArr []))"
      and "receipt_sections pf p = Inr r"
  shows "treatment r = Val (Some (JBool False)) \<and> mount pf (treatment r) = Inr []"
proof -
  from receipt_sections_treatment [OF assms(2)] obtain c where
    c: "get_prop p ''components'' = Inr c"
    and t: "treatment_block pf (with_default (JArr []) c) = Inr (treatment r)"
    by blast
  from assms(1) c have "c = None \<or> c = Some (JArr [])" by auto
  with t treatment_block_absent [of pf] have "treatment r = Val (Some (JBool False))"
    by auto
  then show ?thesis by simp
qed


theorem no_components_witness:
  "get_prop (JObj [(str ''receipt_id'', JStr (str ''R1''))]) ''components'' = Inr None
   \<and> (\<exists>r. receipt_sections example_platform (JObj [(str ''receipt_id'', JStr (str ''R1''))]) = Inr r
          \<and> treatment r = Val (Some (JBool False))
          \<and> mount example_platform (treatment r) = Inr [])"
proof -
  have h: "get_prop (JObj [(str ''receipt_id'', JStr (str ''R1''))]) ''components'' = Inr None"
    by (simp add: get_prop_def string_eval)
  have "\<exists>r. receipt_sections example_platform (JObj [(str ''receipt_id'', JStr (str ''R1''))]) = Inr r"
    by (simp add: render_eval string_eval)
  then obtain r where
    r: "receipt_sections example_platform (JObj [(str ''receipt_id'', JStr (str ''R1''))]) = Inr r"
    by blast
  from no_components_no_treatment [OF disjI1 [OF h] r] r h show ?thesis
    by blast
qed

subsection \<open>The exported document\<close>

lemma receipt_pdf_eq:
  "receipt_pdf img =
     \<lparr>unit_name = ''mm'', page_width = 80, page_height = 120,
      pages = [[\<lparr>image_data = img, image_format = ''PNG'', pos_x = 0, pos_y = 0,
                 img_width = 80, img_height = 120\<rparr>]],
      auto_print = True\<rparr>"
  by (simp add: receipt_pdf_def jsPDF_def addImage_def autoPrint_def)

lemma generateAndPrint_pdf:
  assumes "PdfOutput d \<in> set (generateAndPrint pf ev container)"
  shows "\<exists>cv img. html2canvas ev container 2 = Inr cv \<and> toDataURL ev cv = Inr img
           \<and> d = receipt_pdf img"
  using assms
  by (auto simp: generateAndPrint_def print_failed_def popup_blocked_fallback_def
      on_print_window_load_def split: sum.splits if_splits option.splits)

lemma generateAndPrint_outputs:
  assumes "html2canvas ev container 2 = Inr cv" and "toDataURL ev cv = Inr img"
  shows "PdfOutput (receipt_pdf img) \<in> set (generateAndPrint pf ev container)"
  using assms by (simp add: generateAndPrint_def)

text \<open>
  C5. Every document the export effect hands to jsPDF's output, for any state of the
  page, any container and any canvas html2canvas returns for it, is in millimetres,
  80 wide and 120 high, has exactly one page, carries the auto-print flag, and holds
  on that page one PNG image, the data URL of the canvas, placed at (0, 0) with width
  80 and height 120. Whenever the receipt is mounted for a truthy payload and the
  rasterization and the data URL succeed, that document is produced.
\<close>

theorem exported_pdf_is_80_by_120:
  "(PdfOutput d \<in> set (export_effect pf ev st) \<longrightarrow>
      (\<exists>ns cv img. render pf st = Inr (ReceiptView ns)
         \<and> html2canvas ev (container_of ns) 2 = Inr cv \<and> toDataURL ev cv = Inr img
         \<and> d = \<lparr>unit_name = ''mm'', page_width = 80, page_height = 120,
                 pages = [[\<lparr>image_data = img, image_format = ''PNG'', pos_x = 0, pos_y = 0,
                            img_width = 80, img_height = 120\<rparr>]],
                 auto_print = True\<rparr>))
   \<and> (truthy (payload st) \<and> render pf st = Inr (ReceiptView ms)
        \<and> html2canvas ev (container_of ms) 2 = Inr cv' \<and> toDataURL ev cv' = Inr img'
      \<longrightarrow> PdfOutput \<lparr>unit_name = ''mm'', page_width = 80, page_height = 120,
                 pages = [[\<lparr>image_data = img', image_format = ''PNG'', pos_x = 0, pos_y = 0,
                            img_width = 80, img_height = 120\<rparr>]],
                 auto_print = True\<rparr> \<in> set (export_effect pf ev st))"
proof -
  have a: "\<exists>ns cv img. render pf st = Inr (ReceiptView ns)
         \<and> html2canvas ev (container_of ns) 2 = Inr cv \<and> toDataURL ev cv = Inr img
         \<and> d = receipt_pdf img"
    if "PdfOutput d \<in> set (export_effect pf ev st)"
  proof -
    show ?thesis
    proof (cases "render pf st")
      case (Inl e)
      with that show ?thesis
        by (simp add: export_effect_def split: if_splits)
    next
      case (Inr v)
      with that obtain ns where v: "v = ReceiptView ns"
        and g: "PdfOutput d \<in> set (generateAndPrint pf ev (container_of ns))"
        by (cases v) (simp_all add: export_effect_def split: if_splits)
      from generateAndPrint_pdf [OF g] Inr v show ?thesis by blast
    qed
  qed
  have b: "PdfOutput (receipt_pdf img') \<in> set (export_effect pf ev st)"
    if "truthy (payload st)" and "render pf st = Inr (ReceiptView ms)"
      and "html2canvas ev (container_of ms) 2 = Inr cv'" and "toDataURL ev cv' = Inr img'"
    using that generateAndPrint_outputs [OF that(3,4), of pf]
    by (simp add: export_effect_def)
  from a b show ?thesis
    unfolding receipt_pdf_eq by blast
qed

lemma example_render:
  "\<exists>ns. render example_platform \<lparr>payload = JObj [], error = None\<rparr> = Inr (ReceiptView ns)"
  by (simp add: render_eval string_eval)

theorem exported_pdf_witness:
  "\<exists>ns. truthy (payload \<lparr>payload = JObj [], error = None\<rparr>)
     \<and> render example_platform \<lparr>payload = JObj [], error = None\<rparr> = Inr (ReceiptView ns)
     \<and> html2canvas example_env (container_of ns) 2 = Inr (1210, 4000)
     \<and> toDataURL example_env (1210, 4000) = Inr (str ''data:image/png;base64,iVBORw0KGgo'')
     \<and> PdfOutput \<lparr>unit_name = ''mm'', page_width = 80, page_height = 120,
                 pages = [[\<lparr>image_data = str ''data:image/png;base64,iVBORw0KGgo'',
                            image_format = ''PNG'', pos_x = 0, pos_y = 0,
                            img_width = 80, img_height = 120\<rparr>]],
                 auto_print = True\<rparr>
         \<in> set (export_effect example_platform example_env \<lparr>payload = JObj [], error = None\<rparr>)"
proof -
  from example_render obtain ns where
    r: "render example_platform \<lparr>payload = JObj [], error = None\<rparr> = Inr (ReceiptView ns)"
    by blast
  have t: "truthy (payload \<lparr>payload = JObj [], error = None\<rparr>)"
    by simp
  have h: "html2canvas example_env (container_of ns) 2 = Inr (1210, 4000)"
    by (simp add: example_env_def)
  have u: "toDataURL example_env (1210, 4000) = Inr (str ''data:image/png;base64,iVBORw0KGgo'')"
    by (simp add: example_env_def)
  from exported_pdf_is_80_by_120
    [where st = "\<lparr>payload = JObj [], error = None\<rparr>" and pf = example_platform
      and ev = example_env and ms = ns and cv' = "(1210, 4000)"
      and img' = "str ''data:image/png;base64,iVBORw0KGgo''"]
    t r h u
  show ?thesis by blast
qed

subsection \<open>Mounting the receipt\<close>

lemma mount_header:
  "mount pf header_block =
     Inr [DEl ''div''
           [DEl ''img'' [],
            DEl ''div'' [DText (str ''CropSync'')],
            DEl ''div'' [DText (str ''Smart Agricultural Solutions'')],
            DEl ''div'' [DText (str ''www.cropsync.in | +91-9182867605'')]]]"
  by (simp add: header_block_def and_then_def)

lemma fallback_note_mount:
  "mount pf fallback_note =
     Inr [DEl ''div'' [DText (str ''If printing doesn't start automatically, allow popups or press the print button in the new window.'')]]"
  by (simp add: fallback_note_def and_then_def)

lemma mount_all_Cons:
  "mount pf x = Inr a \<Longrightarrow> mount_all pf xs = Inr b \<Longrightarrow> mount_all pf (x # xs) = Inr (a @ b)"
  by (simp add: and_then_def)

lemma mount_all_append:
  "mount_all pf xs = Inr a \<Longrightarrow> mount_all pf ys = Inr b \<Longrightarrow> mount_all pf (xs @ ys) = Inr (a @ b)"
proof (induction xs arbitrary: a)
  case Nil
  then show ?case by simp
next
  case (Cons x xs)
  then show ?case
    by (auto simp: and_then_def split: sum.splits)
qed

lemma mount_div:
  "mount_all pf cs = Inr ns \<Longrightarrow> mount pf (El ''div'' cs) = Inr [DEl ''div'' ns]"
  by (simp add: and_then_def)

lemma mount_div_cases:
  "mount pf (El ''div'' cs) = Inr x \<Longrightarrow> \<exists>ns. mount_all pf cs = Inr ns \<and> x = [DEl ''div'' ns]"
  by (auto simp: and_then_def split: sum.splits)

lemma mount_receipt:
  assumes "mount_all pf [title r, meta r, symptoms r, advisory_notes r, treatment r, footer r] = Inr inner"
  shows "mount pf (receipt_jsx r) =
     Inr [DEl ''div''
           [DEl ''div''
              (DEl ''div''
                 [DEl ''img'' [],
                  DEl ''div'' [DText (str ''CropSync'')],
                  DEl ''div'' [DText (str ''Smart Agricultural Solutions'')],
                  DEl ''div'' [DText (str ''www.cropsync.in | +91-9182867605'')]]
               # inner),
            DEl ''div'' [DText (str ''If printing doesn't start automatically, allow popups or press the print button in the new window.'')]]]"
proof -
  have "mount_all pf [header_block, title r, meta r, symptoms r, advisory_notes r, treatment r, footer r]
      = Inr ([DEl ''div''
           [DEl ''img'' [],
            DEl ''div'' [DText (str ''CropSync'')],
            DEl ''div'' [DText (str ''Smart Agricultural Solutions'')],
            DEl ''div'' [DText (str ''www.cropsync.in | +91-9182867605'')]]] @ inner)"
    by (rule mount_all_Cons [OF mount_header assms])
  from mount_div [OF this] have container:
    "mount pf (El ''div'' [header_block, title r, meta r, symptoms r, advisory_notes r, treatment r, footer r])
      = Inr [DEl ''div'' (DEl ''div''
           [DEl ''img'' [],
            DEl ''div'' [DText (str ''CropSync'')],
            DEl ''div'' [DText (str ''Smart Agricultural Solutions'')],
            DEl ''div'' [DText (str ''www.cropsync.in | +91-9182867605'')]] # inner)]"
    by simp
  have nt: "mount_all pf [fallback_note] =
      Inr [DEl ''div'' [DText (str ''If printing doesn't start automatically, allow popups or press the print button in the new window.'')]]"
    using fallback_note_mount [of pf] by (simp add: and_then_def)
  from mount_div [OF mount_all_Cons [OF container nt]] show ?thesis
    by (simp add: receipt_jsx_def)
qed

text \<open>The receipt view of a truthy payload whose sections evaluate and mount: the
  outer element holds the container, with the header first and the sections after
  it, and the note.\<close>

lemma render_receipt:
  assumes "truthy p" and "receipt_sections pf p = Inr r"
      and "mount_all pf [title r, meta r, symptoms r, advisory_notes r, treatment r, footer r] = Inr inner"
  shows "render pf \<lparr>payload = p, error = None\<rparr> =
     Inr (ReceiptView
       [DEl ''div''
           [DEl ''div''
              (DEl ''div''
                 [DEl ''img'' [],
                  DEl ''div'' [DText (str ''CropSync'')],
                  DEl ''div'' [DText (str ''Smart Agricultural Solutions'')],
                  DEl ''div'' [DText (str ''www.cropsync.in | +91-9182867605'')]]
               # inner),
            DEl ''div'' [DText (str ''If printing doesn't start automatically, allow popups or press the print button in the new window.'')]]])"
  using assms(1,2) mount_receipt [OF assms(3)]
  by (simp add: render_def and_then_def del: mount.simps mount_all.simps)

lemma receipt_sections_parts:
  assumes "receipt_sections pf p = Inr r"
  shows "\<exists>problem advisory components receipt_id generated_at.
           get_prop p ''problem'' = Inr problem
         \<and> get_prop p ''advisory'' = Inr advisory
         \<and> get_prop p ''components'' = Inr components
         \<and> get_prop p ''receipt_id'' = Inr receipt_id
         \<and> get_prop p ''generated_at'' = Inr generated_at
         \<and> title_block (with_default (JObj []) problem) = Inr (title r)
         \<and> meta_block (with_default (JObj []) problem) = Inr (meta r)
         \<and> symptoms_block (with_default (JObj []) advisory) = Inr (symptoms r)
         \<and> notes_block (with_default (JObj []) advisory) = Inr (advisory_notes r)
         \<and> treatment_block pf (with_default (JArr []) components) = Inr (treatment r)
         \<and> footer_block pf receipt_id generated_at = Inr (footer r)"
  using assms
  by (auto simp: receipt_sections_def and_then_def split: sum.splits)

lemma receipt_sections_obj:
  assumes "title_block (with_default (JObj []) (map_of kvs (str ''problem''))) = Inr t"
      and "meta_block (with_default (JObj []) (map_of kvs (str ''problem''))) = Inr m"
      and "symptoms_block (with_default (JObj []) (map_of kvs (str ''advisory''))) = Inr s"
      and "notes_block (with_default (JObj []) (map_of kvs (str ''advisory''))) = Inr n"
      and "treatment_block pf (with_default (JArr []) (map_of kvs (str ''components''))) = Inr c"
      and "footer_block pf (map_of kvs (str ''receipt_id'')) (map_of kvs (str ''generated_at'')) = Inr f"
  shows "receipt_sections pf (JObj kvs) =
     Inr \<lparr>title = t, meta = m, symptoms = s, advisory_notes = n, treatment = c, footer = f\<rparr>"
  using assms by (simp add: receipt_sections_def and_then_def get_prop_def)

subsection \<open>The title and the example receipt\<close>

lemma title_block_chain:
  assumes "get_prop problem ''problem_name_te'' = Inr name_te"
      and "get_prop problem ''problem_name_en'' = Inr name_en"
  shows "title_block problem =
     Inr (El ''div''
       [Val (if truthy_opt name_te then name_te
             else if truthy_opt name_en then name_en
             else Some (JStr (str ''Advisory'')))])"
  using assms by (simp add: title_block_def and_then_def or_else_def)

lemma example_query:
  "params_get (URLSearchParams (str ''?data=eyJyZWNlaXB0X2lkIjoiUjEiLCJnZW5lcmF0ZWRfYXQiOiIyMDI0LTAxLTAxVDAwOjAwOjAwWiIsInByb2JsZW0iOnsicHJvYmxlbV9uYW1lX2VuIjoiTGVhZiBCbGlnaHQifSwiY29tcG9uZW50cyI6W119'')) (str ''data'') =
     Some (str ''eyJyZWNlaXB0X2lkIjoiUjEiLCJnZW5lcmF0ZWRfYXQiOiIyMDI0LTAxLTAxVDAwOjAwOjAwWiIsInByb2JsZW0iOnsicHJvYmxlbV9uYW1lX2VuIjoiTGVhZiBCbGlnaHQifSwiY29tcG9uZW50cyI6W119'')"
  by (simp add: query_eval string_eval)

lemma example_base64:
  \<open>decodeBase64UrlSafe (str ''eyJyZWNlaXB0X2lkIjoiUjEiLCJnZW5lcmF0ZWRfYXQiOiIyMDI0LTAxLTAxVDAwOjAwOjAwWiIsInByb2JsZW0iOnsicHJvYmxlbV9uYW1lX2VuIjoiTGVhZiBCbGlnaHQifSwiY29tcG9uZW50cyI6W119'') =
     Inr (str ''{"receipt_id":"R1","generated_at":"2024-01-01T00:00:00Z","problem":{"problem_name_en":"Leaf Blight"},"components":[]}'')\<close>
  by (simp add: base64_eval string_eval)

lemma example_json:
  \<open>JSON_parse (str ''{"receipt_id":"R1","generated_at":"2024-01-01T00:00:00Z","problem":{"problem_name_en":"Leaf Blight"},"components":[]}'') =
     Inr example_payload\<close>
  by (simp add: json_eval string_eval example_payload_def)

lemma example_loaded:
  "loaded pf (str ''?data=eyJyZWNlaXB0X2lkIjoiUjEiLCJnZW5lcmF0ZWRfYXQiOiIyMDI0LTAxLTAxVDAwOjAwOjAwWiIsInByb2JsZW0iOnsicHJvYmxlbV9uYW1lX2VuIjoiTGVhZiBCbGlnaHQifSwiY29tcG9uZW50cyI6W119'') =
     \<lparr>payload = example_payload, error = None\<rparr>"
proof -
  have ne: "str ''eyJyZWNlaXB0X2lkIjoiUjEiLCJnZW5lcmF0ZWRfYXQiOiIyMDI0LTAxLTAxVDAwOjAwOjAwWiIsInByb2JsZW0iOnsicHJvYmxlbV9uYW1lX2VuIjoiTGVhZiBCbGlnaHQifSwiY29tcG9uZW50cyI6W119'' \<noteq> []"
    by (simp add: str_def)
  show ?thesis
    by (simp only: page_eval example_query example_base64 example_json ne option.case sum.case if_False
        state.simps state.update_convs)
qed

lemma example_sections:
  "receipt_sections pf example_payload =
     Inr \<lparr>title = El ''div'' [Val (Some (JStr (str ''Leaf Blight'')))],
          meta = El ''div''
            [El ''div'' [El ''strong'' [Txt (str ''Category:'')], Txt (str '' ''), Val (Some (JStr (str ''-'')))],
             El ''div'' [El ''strong'' [Txt (str ''Stage:'')], Txt (str '' ''), Val (Some (JStr (str ''-'')))]],
          symptoms = Val None,
          advisory_notes = Val None,
          treatment = Val (Some (JBool False)),
          footer = El ''div''
            [El ''div'' [Txt (str ''Receipt ID: ''), Val (Some (JStr (str ''R1'')))],
             El ''div'' [Txt (str ''Date: ''),
                         Val (Some (JStr (toLocaleString pf (date_parse pf (str ''2024-01-01T00:00:00Z'')))))],
             El ''div'' [Txt (str ''Thank you for using CropSync'')]]\<rparr>"
  by (simp add: example_payload_def render_eval string_eval)

lemma str_nonempty: "str (c # cs) \<noteq> []"
  by (simp add: str_def)

lemma example_payload_render:
  assumes "date_parse pf (str ''2024-01-01T00:00:00Z'') = Some 1704067200000"
      and "date_to_locale_string pf 1704067200000 \<noteq> []"
  shows "render pf \<lparr>payload = example_payload, error = None\<rparr> =
     Inr (ReceiptView
       [DEl ''div''
         [DEl ''div''
           [DEl ''div''
              [DEl ''img'' [],
               DEl ''div'' [DText (str ''CropSync'')],
               DEl ''div'' [DText (str ''Smart Agricultural Solutions'')],
               DEl ''div'' [DText (str ''www.cropsync.in | +91-9182867605'')]],
            DEl ''div'' [DText (str ''Leaf Blight'')],
            DEl ''div''
              [DEl ''div'' [DEl ''strong'' [DText (str ''Category:'')], DText (str '' ''), DText (str ''-'')],
               DEl ''div'' [DEl ''strong'' [DText (str ''Stage:'')], DText (str '' ''), DText (str ''-'')]],
            DEl ''div''
              [DEl ''div'' [DText (str ''Receipt ID: ''), DText (str ''R1'')],
               DEl ''div'' [DText (str ''Date: ''), DText (date_to_locale_string pf 1704067200000)],
               DEl ''div'' [DText (str ''Thank you for using CropSync'')]]],
          DEl ''div'' [DText (str ''If printing doesn't start automatically, allow popups or press the print button in the new window.'')]]])"
proof -
  have t: "truthy example_payload"
    by (simp add: example_payload_def)
  let ?r = "\<lparr>title = El ''div'' [Val (Some (JStr (str ''Leaf Blight'')))],
          meta = El ''div''
            [El ''div'' [El ''strong'' [Txt (str ''Category:'')], Txt (str '' ''), Val (Some (JStr (str ''-'')))],
             El ''div'' [El ''strong'' [Txt (str ''Stage:'')], Txt (str '' ''), Val (Some (JStr (str ''-'')))]],
          symptoms = Val None,
          advisory_notes = Val None,
          treatment = Val (Some (JBool False)),
          footer = El ''div''
            [El ''div'' [Txt (str ''Receipt ID: ''), Val (Some (JStr (str ''R1'')))],
             El ''div'' [Txt (str ''Date: ''),
                         Val (Some (JStr (toLocaleString pf (date_parse pf (str ''2024-01-01T00:00:00Z'')))))],
             El ''div'' [Txt (str ''Thank you for using CropSync'')]]\<rparr>"
  have m: "mount_all pf [title ?r, meta ?r, symptoms ?r, advisory_notes ?r, treatment ?r, footer ?r] =
      Inr [DEl ''div'' [DText (str ''Leaf Blight'')],
            DEl ''div''
              [DEl ''div'' [DEl ''strong'' [DText (str ''Category:'')], DText (str '' ''), DText (str ''-'')],
               DEl ''div'' [DEl ''strong'' [DText (str ''Stage:'')], DText (str '' ''), DText (str ''-'')]],
            DEl ''div''
              [DEl ''div'' [DText (str ''Receipt ID: ''), DText (str ''R1'')],
               DEl ''div'' [DText (str ''Date: ''), DText (date_to_locale_string pf 1704067200000)],
               DEl ''div'' [DText (str ''Thank you for using CropSync'')]]]"
    using assms by (simp add: and_then_def toLocaleString_def str_nonempty)
  from render_receipt [OF t example_sections m] show ?thesis
    by simp
qed

text \<open>
  C7. The title that the receipt shows is the Telugu problem name when it is truthy,
  else the English one when it is truthy, else "Advisory": whenever the payload is
  truthy and the other sections evaluate and mount, the rendered receipt has, right
  after the header, the title element with that value as its child. For the example
  query, whose \<open>data\<close> parameter is the Base64 text of the example payload, on any
  platform whose \<open>Date.parse\<close> reads the ISO string as 1704067200000 ms and formats
  that instant as a text that is not empty: the rendered receipt is the header, the
  title "Leaf Blight", the category and stage lines with "-", no symptoms, advisory or
  treatment section, and the footer with "Receipt ID: " and "R1", "Date: " and the
  \<open>en-IN\<close> formatting of that instant, and the closing line.
\<close>

theorem example_receipt:
  assumes "date_parse pf (str ''2024-01-01T00:00:00Z'') = Some 1704067200000"
      and "date_to_locale_string pf 1704067200000 \<noteq> []"
  shows "(truthy p \<and> receipt_sections pf p = Inr r
          \<and> get_prop p ''problem'' = Inr problem
          \<and> get_prop (with_default (JObj []) problem) ''problem_name_te'' = Inr name_te
          \<and> get_prop (with_default (JObj []) problem) ''problem_name_en'' = Inr name_en
          \<and> mount pf (Val (if truthy_opt name_te then name_te
                            else if truthy_opt name_en then name_en
                            else Some (JStr (str ''Advisory'')))) = Inr shown
          \<and> mount_all pf [meta r, symptoms r, advisory_notes r, treatment r, footer r] = Inr others
         \<longrightarrow> render pf \<lparr>payload = p, error = None\<rparr> =
               Inr (ReceiptView
                 [DEl ''div''
                   [DEl ''div''
                      (DEl ''div''
                         [DEl ''img'' [],
                          DEl ''div'' [DText (str ''CropSync'')],
                          DEl ''div'' [DText (str ''Smart Agricultural Solutions'')],
                          DEl ''div'' [DText (str ''www.cropsync.in | +91-9182867605'')]]
                       # DEl ''div'' shown # others),
                    DEl ''div'' [DText (str ''If printing doesn't start automatically, allow popups or press the print button in the new window.'')]]]))
    \<and> render pf (loaded pf (str ''?data=eyJyZWNlaXB0X2lkIjoiUjEiLCJnZW5lcmF0ZWRfYXQiOiIyMDI0LTAxLTAxVDAwOjAwOjAwWiIsInByb2JsZW0iOnsicHJvYmxlbV9uYW1lX2VuIjoiTGVhZiBCbGlnaHQifSwiY29tcG9uZW50cyI6W119'')) =
       Inr (ReceiptView
         [DEl ''div''
           [DEl ''div''
             [DEl ''div''
                [DEl ''img'' [],
                 DEl ''div'' [DText (str ''CropSync'')],
                 DEl ''div'' [DText (str ''Smart Agricultural Solutions'')],
                 DEl ''div'' [DText (str ''www.cropsync.in | +91-9182867605'')]],
              DEl ''div'' [DText (str ''Leaf Blight'')],
              DEl ''div''
                [DEl ''div'' [DEl ''strong'' [DText (str ''Category:'')], DText (str '' ''), DText (str ''-'')],
                 DEl ''div'' [DEl ''strong'' [DText (str ''Stage:'')], DText (str '' ''), DText (str ''-'')]],
              DEl ''div''
                [DEl ''div'' [DText (str ''Receipt ID: ''), DText (str ''R1'')],
                 DEl ''div'' [DText (str ''Date: ''), DText (date_to_locale_string pf 1704067200000)],
                 DEl ''div'' [DText (str ''Thank you for using CropSync'')]]],
            DEl ''div'' [DText (str ''If printing doesn't start automatically, allow popups or press the print button in the new window.'')]]])"
proof -
  have chain: "render pf \<lparr>payload = p, error = None\<rparr> =
               Inr (ReceiptView
                 [DEl ''div''
                   [DEl ''div''
                      (DEl ''div''
                         [DEl ''img'' [],
                          DEl ''div'' [DText (str ''CropSync'')],
                          DEl ''div'' [DText (str ''Smart Agricultural Solutions'')],
                          DEl ''div'' [DText (str ''www.cropsync.in | +91-9182867605'')]]
                       # DEl ''div'' shown # others),
                    DEl ''div'' [DText (str ''If printing doesn't start automatically, allow popups or press the print button in the new window.'')]]])"
    if t: "truthy p" and r: "receipt_sections pf p = Inr r"
      and pr: "get_prop p ''problem'' = Inr problem"
      and te: "get_prop (with_default (JObj []) problem) ''problem_name_te'' = Inr name_te"
      and en: "get_prop (with_default (JObj []) problem) ''problem_name_en'' = Inr name_en"
      and sh: "mount pf (Val (if truthy_opt name_te then name_te
                            else if truthy_opt name_en then name_en
                            else Some (JStr (str ''Advisory'')))) = Inr shown"
      and ot: "mount_all pf [meta r, symptoms r, advisory_notes r, treatment r, footer r] = Inr others"
  proof -
    from receipt_sections_parts [OF r] pr
    have "title_block (with_default (JObj []) problem) = Inr (title r)"
      by auto
    with title_block_chain [OF te en]
    have tr: "title r = El ''div''
       [Val (if truthy_opt name_te then name_te
             else if truthy_opt name_en then name_en
             else Some (JStr (str ''Advisory'')))]"
      by simp
    have "mount pf (title r) = Inr [DEl ''div'' shown]"
      unfolding tr using sh by (simp add: and_then_def del: mount.simps(2))
    from mount_all_Cons [OF this ot] render_receipt [OF t r] show ?thesis
      by simp
  qed
  from chain example_payload_render [OF assms] show ?thesis
    by (simp only: example_loaded) blast
qed

theorem example_receipt_witness:
  "date_parse example_platform (str ''2024-01-01T00:00:00Z'') = Some 1704067200000
   \<and> date_to_locale_string example_platform 1704067200000 \<noteq> []
   \<and> render example_platform \<lparr>payload = both_names, error = None\<rparr> =
       Inr (ReceiptView
         [DEl ''div''
           [DEl ''div''
             [DEl ''div''
                [DEl ''img'' [],
                 DEl ''div'' [DText (str ''CropSync'')],
                 DEl ''div'' [DText (str ''Smart Agricultural Solutions'')],
                 DEl ''div'' [DText (str ''www.cropsync.in | +91-9182867605'')]],
              DEl ''div'' [DText [0x0C05]],
              DEl ''div''
                [DEl ''div'' [DEl ''strong'' [DText (str ''Category:'')], DText (str '' ''), DText (str ''-'')],
                 DEl ''div'' [DEl ''strong'' [DText (str ''Stage:'')], DText (str '' ''), DText (str ''-'')]],
              DEl ''div''
                [DEl ''div'' [DText (str ''Receipt ID: '')],
                 DEl ''div'' [DText (str ''Date: ''), DText (str ''Invalid Date'')],
                 DEl ''div'' [DText (str ''Thank you for using CropSync'')]]],
            DEl ''div'' [DText (str ''If printing doesn't start automatically, allow popups or press the print button in the new window.'')]]])
   \<and> render example_platform (loaded example_platform (str ''?data=eyJyZWNlaXB0X2lkIjoiUjEiLCJnZW5lcmF0ZWRfYXQiOiIyMDI0LTAxLTAxVDAwOjAwOjAwWiIsInByb2JsZW0iOnsicHJvYmxlbV9uYW1lX2VuIjoiTGVhZiBCbGlnaHQifSwiY29tcG9uZW50cyI6W119'')) =
       Inr (ReceiptView
         [DEl ''div''
           [DEl ''div''
             [DEl ''div''
                [DEl ''img'' [],
                 DEl ''div'' [DText (str ''CropSync'')],
                 DEl ''div'' [DText (str ''Smart Agricultural Solutions'')],
                 DEl ''div'' [DText (str ''www.cropsync.in | +91-9182867605'')]],
              DEl ''div'' [DText (str ''Leaf Blight'')],
              DEl ''div''
                [DEl ''div'' [DEl ''strong'' [DText (str ''Category:'')], DText (str '' ''), DText (str ''-'')],
                 DEl ''div'' [DEl ''strong'' [DText (str ''Stage:'')], DText (str '' ''), DText (str ''-'')]],
              DEl ''div''
                [DEl ''div'' [DText (str ''Receipt ID: ''), DText (str ''R1'')],
                 DEl ''div'' [DText (str ''Date: ''), DText (str ''1/1/2024, 5:30:00 am'')],
                 DEl ''div'' [DText (str ''Thank you for using CropSync'')]]],
            DEl ''div'' [DText (str ''If printing doesn't start automatically, allow popups or press the print button in the new window.'')]]])"
proof -
  have h1: "date_parse example_platform (str ''2024-01-01T00:00:00Z'') = Some 1704067200000"
    by (simp add: example_platform_def)
  have h2: "date_to_locale_string example_platform 1704067200000 \<noteq> []"
    by (simp add: example_platform_def str_nonempty)
  let ?r = "\<lparr>title = El ''div'' [Val (Some (JStr [0x0C05]))],
          meta = El ''div''
            [El ''div'' [El ''strong'' [Txt (str ''Category:'')], Txt (str '' ''), Val (Some (JStr (str ''-'')))],
             El ''div'' [El ''strong'' [Txt (str ''Stage:'')], Txt (str '' ''), Val (Some (JStr (str ''-'')))]],
          symptoms = Val None,
          advisory_notes = Val None,
          treatment = Val (Some (JBool False)),
          footer = El ''div''
            [El ''div'' [Txt (str ''Receipt ID: ''), Val None],
             El ''div'' [Txt (str ''Date: ''), Val (Some (JStr (str ''Invalid Date'')))],
             El ''div'' [Txt (str ''Thank you for using CropSync'')]]\<rparr>"
  have t: "truthy both_names"
    by (simp add: both_names_def)
  have r: "receipt_sections example_platform both_names = Inr ?r"
    by (simp add: both_names_def render_eval string_eval)
  have pr: "get_prop both_names ''problem'' =
      Inr (Some (JObj [(str ''problem_name_te'', JStr [0x0C05]),
                       (str ''problem_name_en'', JStr (str ''Leaf Blight''))]))"
    by (simp add: both_names_def get_prop_def string_eval)
  have te: "get_prop (with_default (JObj [])
        (Some (JObj [(str ''problem_name_te'', JStr [0x0C05]),
                     (str ''problem_name_en'', JStr (str ''Leaf Blight''))]))) ''problem_name_te'' =
      Inr (Some (JStr [0x0C05]))"
    by (simp add: get_prop_def with_default_def string_eval)
  have en: "get_prop (with_default (JObj [])
        (Some (JObj [(str ''problem_name_te'', JStr [0x0C05]),
                     (str ''problem_name_en'', JStr (str ''Leaf Blight''))]))) ''problem_name_en'' =
      Inr (Some (JStr (str ''Leaf Blight'')))"
    by (simp add: get_prop_def with_default_def string_eval)
  have sh: "mount example_platform
      (Val (if truthy_opt (Some (JStr [0x0C05])) then Some (JStr [0x0C05])
            else if truthy_opt (Some (JStr (str ''Leaf Blight''))) then Some (JStr (str ''Leaf Blight''))
            else Some (JStr (str ''Advisory'')))) = Inr [DText [0x0C05]]"
    by (simp add: truthy_opt_def)
  have ot: "mount_all example_platform [meta ?r, symptoms ?r, advisory_notes ?r, treatment ?r, footer ?r] =
      Inr [DEl ''div''
                [DEl ''div'' [DEl ''strong'' [DText (str ''Category:'')], DText (str '' ''), DText (str ''-'')],
                 DEl ''div'' [DEl ''strong'' [DText (str ''Stage:'')], DText (str '' ''), DText (str ''-'')]],
              DEl ''div''
                [DEl ''div'' [DText (str ''Receipt ID: '')],
                 DEl ''div'' [DText (str ''Date: ''), DText (str ''Invalid Date'')],
                 DEl ''div'' [DText (str ''Thank you for using CropSync'')]]]"
    by (simp add: and_then_def str_nonempty)
  note ex = example_receipt [OF h1 h2, where p = both_names and r = ?r
      and problem = "Some (JObj [(str ''problem_name_te'', JStr [0x0C05]),
                       (str ''problem_name_en'', JStr (str ''Leaf Blight''))])"
      and name_te = "Some (JStr [0x0C05])" and name_en = "Some (JStr (str ''Leaf Blight''))"
      and shown = "[DText [0x0C05]]"
      and others = "[DEl ''div''
                [DEl ''div'' [DEl ''strong'' [DText (str ''Category:'')], DText (str '' ''), DText (str ''-'')],
                 DEl ''div'' [DEl ''strong'' [DText (str ''Stage:'')], DText (str '' ''), DText (str ''-'')]],
              DEl ''div''
                [DEl ''div'' [DText (str ''Receipt ID: '')],
                 DEl ''div'' [DText (str ''Date: ''), DText (str ''Invalid Date'')],
                 DEl ''div'' [DText (str ''Thank you for using CropSync'')]]]"]
  have d: "date_to_locale_string example_platform 1704067200000 = str ''1/1/2024, 5:30:00 am''"
    by (simp add: example_platform_def)
  from ex [THEN conjunct1, rule_format, OF conjI [OF t conjI [OF r conjI [OF pr conjI [OF te conjI [OF en conjI [OF sh ot]]]]]]]
    ex [THEN conjunct2] h1 h2
  show ?thesis
    by (simp only: d) simp
qed

subsection \<open>Bilingual fields\<close>

lemma meta_block_obj:
  "meta_block (JObj kvs) =
     Inr (El ''div''
       [El ''div'' [El ''strong'' [Txt (str ''Category:'')], Txt (str '' ''),
                    Val (or_else (map_of kvs (str ''category'')) (Some (JStr (str ''-''))))],
        El ''div'' [El ''strong'' [Txt (str ''Stage:'')], Txt (str '' ''),
                    Val (or_else (map_of kvs (str ''stage_te''))
                          (or_else (map_of kvs (str ''stage_en'')) (Some (JStr (str ''-'')))))]])"
  by (simp add: meta_block_def and_then_def get_prop_def)

lemma component_block_obj:
  "component_block (JObj kvs) =
     Inr (El ''div''
       [El ''div'' [Val (or_else (map_of kvs (str ''component_type'')) (Some (JStr (str ''-''))))],
        El ''div'' [El ''strong'' [Txt (str ''Name:'')], Txt (str '' ''),
                    Val (or_else (map_of kvs (str ''component_name_te''))
                          (or_else (map_of kvs (str ''component_name_en'')) (Some (JStr (str ''-'')))))],
        labelled_line ''Dose:'' (map_of kvs (str ''dose_te'')),
        labelled_line ''Method:'' (map_of kvs (str ''application_method_te'')),
        labelled_line ''Note:'' (map_of kvs (str ''notes_te''))])"
  by (simp add: component_block_def and_then_def get_prop_def)

lemma mount_falsy:
  "\<not> truthy_opt v \<Longrightarrow> v \<noteq> Some (JNum (Finite 0)) \<Longrightarrow> mount pf (Val v) = Inr []"
  by (cases v; simp add: truthy_opt_def) (rename_tac x, case_tac x; simp)

lemma english_shown:
  assumes "\<not> truthy_opt te" and "en = Some (JStr e)" and "e \<noteq> []"
  shows "mount pf (Val (or_else te (or_else en (Some (JStr (str ''-'')))))) = Inr [DText e]"
    and "mount pf (Val (or_else te (or_else en (Some (JStr (str ''Advisory'')))))) = Inr [DText e]"
  using assms by (simp_all add: or_else_def truthy_opt_def)

lemma component_blocks_nth:
  "component_blocks cs = Inr bs \<Longrightarrow>
   length bs = length cs \<and> (\<forall>i<length cs. component_block (cs ! i) = Inr (bs ! i))"
proof (induction cs arbitrary: bs)
  case Nil
  then show ?case by simp
next
  case (Cons c cs)
  from Cons.prems obtain b bs' where b: "component_block c = Inr b"
    and bs': "component_blocks cs = Inr bs'" and bs: "bs = b # bs'"
    by (auto simp: and_then_def split: sum.splits)
  from Cons.IH [OF bs'] b show ?case
    unfolding bs by (auto simp: nth_Cons split: nat.splits)
qed

lemma component_block_div: "component_block c = Inr b \<Longrightarrow> \<exists>cs. b = El ''div'' cs"
  by (auto simp: component_block_def and_then_def split: sum.splits)

lemma mount_blocks_nth:
  assumes "mount_all pf bs = Inr ns" and "\<forall>b \<in> set bs. \<exists>cs. b = El ''div'' cs"
  shows "length ns = length bs \<and> (\<forall>i<length bs. mount pf (bs ! i) = Inr [ns ! i])"
  using assms
proof (induction bs arbitrary: ns)
  case Nil
  then show ?case by simp
next
  case (Cons b bs)
  from Cons.prems(2) obtain cs where b: "b = El ''div'' cs" by auto
  from Cons.prems(1) obtain x ns' where x: "mount pf b = Inr x"
    and ns': "mount_all pf bs = Inr ns'" and ns: "ns = x @ ns'"
    by (auto simp: and_then_def split: sum.splits)
  from mount_div_cases [OF x [unfolded b]] obtain n where xn: "x = [n]" by blast
  from Cons.IH [OF ns'] Cons.prems(2) x show ?case
    unfolding ns xn by (auto simp: nth_Cons split: nat.splits)
qed

text \<open>The nodes of a component that is an object: the type line, the name line
  and the nodes of the three optional lines.\<close>

lemma mount_component_obj:
  assumes "component_block (JObj ck) = Inr b" and "mount pf b = Inr [n]"
  shows "\<exists>ct nm ld lm ln.
           mount pf (Val (or_else (map_of ck (str ''component_type'')) (Some (JStr (str ''-''))))) = Inr ct
         \<and> mount pf (Val (or_else (map_of ck (str ''component_name_te''))
                            (or_else (map_of ck (str ''component_name_en'')) (Some (JStr (str ''-'')))))) = Inr nm
         \<and> mount pf (labelled_line ''Dose:'' (map_of ck (str ''dose_te''))) = Inr ld
         \<and> mount pf (labelled_line ''Method:'' (map_of ck (str ''application_method_te''))) = Inr lm
         \<and> mount pf (labelled_line ''Note:'' (map_of ck (str ''notes_te''))) = Inr ln
         \<and> n = DEl ''div''
                 (DEl ''div'' ct
                  # DEl ''div'' (DEl ''strong'' [DText (str ''Name:'')] # DText (str '' '') # nm)
                  # ld @ lm @ ln)"
proof -
  from assms(1) have b: "b = El ''div''
       [El ''div'' [Val (or_else (map_of ck (str ''component_type'')) (Some (JStr (str ''-''))))],
        El ''div'' [El ''strong'' [Txt (str ''Name:'')], Txt (str '' ''),
                    Val (or_else (map_of ck (str ''component_name_te''))
                          (or_else (map_of ck (str ''component_name_en'')) (Some (JStr (str ''-'')))))],
        labelled_line ''Dose:'' (map_of ck (str ''dose_te'')),
        labelled_line ''Method:'' (map_of ck (str ''application_method_te'')),
        labelled_line ''Note:'' (map_of ck (str ''notes_te''))]"
    by (simp add: component_block_obj)
  from assms(2) show ?thesis
    unfolding b
    by (auto simp: and_then_def simp del: mount.simps(2) split: sum.splits)
qed

lemma treatment_block_array:
  assumes "treatment_block pf (JArr cs) = Inr t" and "cs \<noteq> []"
  shows "\<exists>bs. component_blocks cs = Inr bs
            \<and> t = El ''Fragment'' [El ''div'' [Txt (str ''Treatment'')], El ''div'' bs]"
  using assms by (auto simp: treatment_block_def and_then_def split: sum.splits)

text \<open>The treatment section of a payload whose \<open>components\<close> is an array with an
  object at index \<open>i\<close>: the heading, and one block for each component, the block
  at \<open>i\<close> made of the nodes of that object's lines.\<close>

lemma mount_treatment_component:
  assumes t: "treatment_block pf (JArr cs) = Inr t" and m: "mount pf t = Inr C"
      and i: "i < length cs" and c: "cs ! i = JObj ck"
  shows "\<exists>blocks ct nm ld lm ln.
           C = [DEl ''div'' [DText (str ''Treatment'')], DEl ''div'' blocks]
         \<and> length blocks = length cs
         \<and> mount pf (Val (or_else (map_of ck (str ''component_type'')) (Some (JStr (str ''-''))))) = Inr ct
         \<and> mount pf (Val (or_else (map_of ck (str ''component_name_te''))
                            (or_else (map_of ck (str ''component_name_en'')) (Some (JStr (str ''-'')))))) = Inr nm
         \<and> mount pf (labelled_line ''Dose:'' (map_of ck (str ''dose_te''))) = Inr ld
         \<and> mount pf (labelled_line ''Method:'' (map_of ck (str ''application_method_te''))) = Inr lm
         \<and> mount pf (labelled_line ''Note:'' (map_of ck (str ''notes_te''))) = Inr ln
         \<and> blocks ! i = DEl ''div''
                 (DEl ''div'' ct
                  # DEl ''div'' (DEl ''strong'' [DText (str ''Name:'')] # DText (str '' '') # nm)
                  # ld @ lm @ ln)"
proof -
  from i have ne: "cs \<noteq> []" by auto
  from treatment_block_array [OF t ne] obtain bs where bs: "component_blocks cs = Inr bs"
    and tt: "t = El ''Fragment'' [El ''div'' [Txt (str ''Treatment'')], El ''div'' bs]"
    by blast
  from m obtain blocks where bl: "mount_all pf bs = Inr blocks"
    and C: "C = [DEl ''div'' [DText (str ''Treatment'')], DEl ''div'' blocks]"
    unfolding tt by (auto simp: and_then_def split: sum.splits)
  note nth = component_blocks_nth [OF bs]
  have divs: "\<forall>b \<in> set bs. \<exists>xs. b = El ''div'' xs"
  proof
    fix b assume "b \<in> set bs"
    then obtain j where j: "j < length bs" and b: "b = bs ! j"
      by (auto simp: in_set_conv_nth)
    with nth have "component_block (cs ! j) = Inr b" by simp
    then show "\<exists>xs. b = El ''div'' xs" by (rule component_block_div)
  qed
  note mnth = mount_blocks_nth [OF bl divs]
  from nth i c have cb: "component_block (JObj ck) = Inr (bs ! i)" by auto
  from mnth nth i have mb: "mount pf (bs ! i) = Inr [blocks ! i]" by simp
  from mount_component_obj [OF cb mb] C mnth nth show ?thesis
    by auto
qed

lemma mount_treatment_array:
  assumes "receipt_sections pf (JObj kvs) = Inr r"
      and "map_of kvs (str ''components'') = Some (JArr cs)"
  shows "treatment_block pf (JArr cs) = Inr (treatment r)"
  using receipt_sections_parts [OF assms(1)] assms(2)
  by (auto simp: get_prop_def with_default_def)

text \<open>
  C4, as the code has it, for an object payload whose sections evaluate and mount to
  the nodes \<open>ttl\<close>, \<open>mta\<close>, \<open>smp\<close>, \<open>adv\<close>, \<open>trt\<close> and \<open>ftr\<close>: the rendered receipt
  holds these nodes in this order after the header. The problem name, the stage and
  the component name fall back to their English member: when the Telugu member is
  absent or falsy and the English one is a string that is not empty, the title, the
  stage line and the name line of the component show the English text and no
  placeholder. The symptoms, the advisory notes, the dose, the method and the note
  are read from their Telugu member alone: when it is absent or falsy (the number 0
  apart, which is shown) the section or line has no node in the receipt, whatever
  the payload holds under other names.
\<close>

theorem secondary_language_fallback:
  assumes "receipt_sections pf (JObj kvs) = Inr r"
      and "mount pf (title r) = Inr ttl"
      and "mount pf (meta r) = Inr mta"
      and "mount pf (symptoms r) = Inr smp"
      and "mount pf (advisory_notes r) = Inr adv"
      and "mount pf (treatment r) = Inr trt"
      and "mount pf (footer r) = Inr ftr"
  shows "render pf \<lparr>payload = JObj kvs, error = None\<rparr> =
           Inr (ReceiptView
             [DEl ''div''
               [DEl ''div''
                  (DEl ''div''
                     [DEl ''img'' [],
                      DEl ''div'' [DText (str ''CropSync'')],
                      DEl ''div'' [DText (str ''Smart Agricultural Solutions'')],
                      DEl ''div'' [DText (str ''www.cropsync.in | +91-9182867605'')]]
                   # ttl @ mta @ smp @ adv @ trt @ ftr),
                DEl ''div'' [DText (str ''If printing doesn't start automatically, allow popups or press the print button in the new window.'')]]])
    \<and> (map_of kvs (str ''problem'') = Some (JObj pk)
        \<and> \<not> truthy_opt (map_of pk (str ''problem_name_te''))
        \<and> map_of pk (str ''problem_name_en'') = Some (JStr name_en) \<and> name_en \<noteq> []
       \<longrightarrow> ttl = [DEl ''div'' [DText name_en]])
    \<and> (map_of kvs (str ''problem'') = Some (JObj pk)
        \<and> \<not> truthy_opt (map_of pk (str ''stage_te''))
        \<and> map_of pk (str ''stage_en'') = Some (JStr stage_en) \<and> stage_en \<noteq> []
       \<longrightarrow> (\<exists>cat. mount pf (Val (or_else (map_of pk (str ''category'')) (Some (JStr (str ''-''))))) = Inr cat
              \<and> mta = [DEl ''div''
                         [DEl ''div'' (DEl ''strong'' [DText (str ''Category:'')] # DText (str '' '') # cat),
                          DEl ''div'' [DEl ''strong'' [DText (str ''Stage:'')], DText (str '' ''),
                                       DText stage_en]]]))
    \<and> (map_of kvs (str ''advisory'') = Some (JObj ak)
        \<and> \<not> truthy_opt (map_of ak (str ''symptoms_te''))
        \<and> map_of ak (str ''symptoms_te'') \<noteq> Some (JNum (Finite 0))
       \<longrightarrow> smp = [])
    \<and> (map_of kvs (str ''advisory'') = Some (JObj ak)
        \<and> \<not> truthy_opt (map_of ak (str ''notes_te''))
        \<and> map_of ak (str ''notes_te'') \<noteq> Some (JNum (Finite 0))
       \<longrightarrow> adv = [])
    \<and> (map_of kvs (str ''components'') = Some (JArr cs) \<and> i < length cs \<and> cs ! i = JObj ck
       \<longrightarrow> (\<exists>blocks ct nm ld lm ln.
              trt = [DEl ''div'' [DText (str ''Treatment'')], DEl ''div'' blocks]
            \<and> length blocks = length cs
            \<and> blocks ! i =
                DEl ''div''
                  (DEl ''div'' ct
                   # DEl ''div'' (DEl ''strong'' [DText (str ''Name:'')] # DText (str '' '') # nm)
                   # ld @ lm @ ln)
            \<and> (\<not> truthy_opt (map_of ck (str ''component_name_te''))
                \<and> map_of ck (str ''component_name_en'') = Some (JStr comp_en) \<and> comp_en \<noteq> []
               \<longrightarrow> nm = [DText comp_en])
            \<and> (\<not> truthy_opt (map_of ck (str ''dose_te''))
                \<and> map_of ck (str ''dose_te'') \<noteq> Some (JNum (Finite 0)) \<longrightarrow> ld = [])
            \<and> (\<not> truthy_opt (map_of ck (str ''application_method_te''))
                \<and> map_of ck (str ''application_method_te'') \<noteq> Some (JNum (Finite 0)) \<longrightarrow> lm = [])
            \<and> (\<not> truthy_opt (map_of ck (str ''notes_te''))
                \<and> map_of ck (str ''notes_te'') \<noteq> Some (JNum (Finite 0)) \<longrightarrow> ln = [])))"
proof -
  note parts = receipt_sections_parts [OF assms(1)]
  have inner: "mount_all pf [title r, meta r, symptoms r, advisory_notes r, treatment r, footer r]
      = Inr (ttl @ mta @ smp @ adv @ trt @ ftr)"
    using assms(2-7) by (simp add: and_then_def del: mount.simps)
  have shown: "render pf \<lparr>payload = JObj kvs, error = None\<rparr> =
           Inr (ReceiptView
             [DEl ''div''
               [DEl ''div''
                  (DEl ''div''
                     [DEl ''img'' [],
                      DEl ''div'' [DText (str ''CropSync'')],
                      DEl ''div'' [DText (str ''Smart Agricultural Solutions'')],
                      DEl ''div'' [DText (str ''www.cropsync.in | +91-9182867605'')]]
                   # ttl @ mta @ smp @ adv @ trt @ ftr),
                DEl ''div'' [DText (str ''If printing doesn't start automatically, allow popups or press the print button in the new window.'')]]])"
    by (rule render_receipt [OF _ assms(1) inner]) simp
  have name: "ttl = [DEl ''div'' [DText name_en]]"
    if "map_of kvs (str ''problem'') = Some (JObj pk)"
      and "\<not> truthy_opt (map_of pk (str ''problem_name_te''))"
      and "map_of pk (str ''problem_name_en'') = Some (JStr name_en)" and "name_en \<noteq> []"
  proof -
    from parts that(1) have "title_block (JObj pk) = Inr (title r)"
      by (auto simp: get_prop_def with_default_def)
    then have "title r = El ''div''
        [Val (or_else (map_of pk (str ''problem_name_te''))
               (or_else (map_of pk (str ''problem_name_en'')) (Some (JStr (str ''Advisory'')))))]"
      by (simp add: title_block_def and_then_def get_prop_def)
    with assms(2) english_shown(2) [OF that(2,3,4), of pf] show ?thesis
      by (simp add: and_then_def del: mount.simps(2))
  qed
  have stage: "\<exists>cat. mount pf (Val (or_else (map_of pk (str ''category'')) (Some (JStr (str ''-''))))) = Inr cat
              \<and> mta = [DEl ''div''
                         [DEl ''div'' (DEl ''strong'' [DText (str ''Category:'')] # DText (str '' '') # cat),
                          DEl ''div'' [DEl ''strong'' [DText (str ''Stage:'')], DText (str '' ''),
                                       DText stage_en]]]"
    if "map_of kvs (str ''problem'') = Some (JObj pk)"
      and "\<not> truthy_opt (map_of pk (str ''stage_te''))"
      and "map_of pk (str ''stage_en'') = Some (JStr stage_en)" and "stage_en \<noteq> []"
  proof -
    from parts that(1) have "meta_block (JObj pk) = Inr (meta r)"
      by (auto simp: get_prop_def with_default_def)
    then have "meta r = El ''div''
       [El ''div'' [El ''strong'' [Txt (str ''Category:'')], Txt (str '' ''),
                    Val (or_else (map_of pk (str ''category'')) (Some (JStr (str ''-''))))],
        El ''div'' [El ''strong'' [Txt (str ''Stage:'')], Txt (str '' ''),
                    Val (or_else (map_of pk (str ''stage_te''))
                          (or_else (map_of pk (str ''stage_en'')) (Some (JStr (str ''-'')))))]]"
      by (simp add: meta_block_obj)
    with assms(3) english_shown(1) [OF that(2,3,4), of pf] show ?thesis
      by (auto simp: and_then_def simp del: mount.simps(2) split: sum.splits)
  qed
  have symptoms: "smp = []"
    if "map_of kvs (str ''advisory'') = Some (JObj ak)"
      and "\<not> truthy_opt (map_of ak (str ''symptoms_te''))"
      and "map_of ak (str ''symptoms_te'') \<noteq> Some (JNum (Finite 0))"
  proof -
    from parts that(1) have "symptoms_block (JObj ak) = Inr (symptoms r)"
      by (auto simp: get_prop_def with_default_def)
    with that(2) have "symptoms r = Val (map_of ak (str ''symptoms_te''))"
      by (simp add: symptoms_block_def and_then_def get_prop_def text_section_def)
    with assms(4) mount_falsy [OF that(2,3), of pf] show ?thesis
      by simp
  qed
  have advisory: "adv = []"
    if "map_of kvs (str ''advisory'') = Some (JObj ak)"
      and "\<not> truthy_opt (map_of ak (str ''notes_te''))"
      and "map_of ak (str ''notes_te'') \<noteq> Some (JNum (Finite 0))"
  proof -
    from parts that(1) have "notes_block (JObj ak) = Inr (advisory_notes r)"
      by (auto simp: get_prop_def with_default_def)
    with that(2) have "advisory_notes r = Val (map_of ak (str ''notes_te''))"
      by (simp add: notes_block_def and_then_def get_prop_def text_section_def)
    with assms(5) mount_falsy [OF that(2,3), of pf] show ?thesis
      by simp
  qed
  have component: "\<exists>blocks ct nm ld lm ln.
              trt = [DEl ''div'' [DText (str ''Treatment'')], DEl ''div'' blocks]
            \<and> length blocks = length cs
            \<and> blocks ! i =
                DEl ''div''
                  (DEl ''div'' ct
                   # DEl ''div'' (DEl ''strong'' [DText (str ''Name:'')] # DText (str '' '') # nm)
                   # ld @ lm @ ln)
            \<and> (\<not> truthy_opt (map_of ck (str ''component_name_te''))
                \<and> map_of ck (str ''component_name_en'') = Some (JStr comp_en) \<and> comp_en \<noteq> []
               \<longrightarrow> nm = [DText comp_en])
            \<and> (\<not> truthy_opt (map_of ck (str ''dose_te''))
                \<and> map_of ck (str ''dose_te'') \<noteq> Some (JNum (Finite 0)) \<longrightarrow> ld = [])
            \<and> (\<not> truthy_opt (map_of ck (str ''application_method_te''))
                \<and> map_of ck (str ''application_method_te'') \<noteq> Some (JNum (Finite 0)) \<longrightarrow> lm = [])
            \<and> (\<not> truthy_opt (map_of ck (str ''notes_te''))
                \<and> map_of ck (str ''notes_te'') \<noteq> Some (JNum (Finite 0)) \<longrightarrow> ln = [])"
    if cs: "map_of kvs (str ''components'') = Some (JArr cs)" and i: "i < length cs"
      and c: "cs ! i = JObj ck"
  proof -
    from mount_treatment_component [OF mount_treatment_array [OF assms(1) cs] assms(6) i c]
    obtain blocks ct nm ld lm ln where
      a: "trt = [DEl ''div'' [DText (str ''Treatment'')], DEl ''div'' blocks]"
        "length blocks = length cs"
      and nm: "mount pf (Val (or_else (map_of ck (str ''component_name_te''))
                (or_else (map_of ck (str ''component_name_en'')) (Some (JStr (str ''-'')))))) = Inr nm"
      and ld: "mount pf (labelled_line ''Dose:'' (map_of ck (str ''dose_te''))) = Inr ld"
      and lm: "mount pf (labelled_line ''Method:'' (map_of ck (str ''application_method_te''))) = Inr lm"
      and ln: "mount pf (labelled_line ''Note:'' (map_of ck (str ''notes_te''))) = Inr ln"
      and b: "blocks ! i = DEl ''div''
                  (DEl ''div'' ct
                   # DEl ''div'' (DEl ''strong'' [DText (str ''Name:'')] # DText (str '' '') # nm)
                   # ld @ lm @ ln)"
      by blast
    have line: "x = []"
      if "mount pf (labelled_line label v) = Inr x" and "\<not> truthy_opt v"
        and "v \<noteq> Some (JNum (Finite 0))" for label v x
      using that mount_falsy [OF that(2,3), of pf] by (simp add: labelled_line_def)
    have n1: "nm = [DText comp_en]"
      if "\<not> truthy_opt (map_of ck (str ''component_name_te''))"
        and "map_of ck (str ''component_name_en'') = Some (JStr comp_en)" and "comp_en \<noteq> []"
      using english_shown(1) [OF that, of pf] nm by simp
    from a b n1 line [OF ld] line [OF lm] line [OF ln] show ?thesis
      by blast
  qed
  from shown name stage symptoms advisory component show ?thesis
    by blast
qed

lemma english_only_sections:
  "receipt_sections example_platform english_only =
     Inr \<lparr>title = El ''div'' [Val (Some (JStr (str ''Leaf Blight'')))],
          meta = El ''div''
            [El ''div'' [El ''strong'' [Txt (str ''Category:'')], Txt (str '' ''), Val (Some (JStr (str ''-'')))],
             El ''div'' [El ''strong'' [Txt (str ''Stage:'')], Txt (str '' ''), Val (Some (JStr (str ''Flowering'')))]],
          symptoms = Val None,
          advisory_notes = Val None,
          treatment = El ''Fragment''
            [El ''div'' [Txt (str ''Treatment'')],
             El ''div''
               [El ''div''
                  [El ''div'' [Val (Some (JStr (str ''-'')))],
                   El ''div'' [El ''strong'' [Txt (str ''Name:'')], Txt (str '' ''),
                               Val (Some (JStr (str ''Neem oil'')))],
                   Val None, Val None, Val None]]],
          footer = El ''div''
            [El ''div'' [Txt (str ''Receipt ID: ''), Val None],
             El ''div'' [Txt (str ''Date: ''), Val (Some (JStr (str ''Invalid Date'')))],
             El ''div'' [Txt (str ''Thank you for using CropSync'')]]\<rparr>"
  by (simp add: english_only_def english_only_members_def english_problem_def english_advisory_def
      english_component_def render_eval string_eval)

theorem secondary_language_witness:
  "map_of english_only_members (str ''problem'') = Some (JObj english_problem)
   \<and> \<not> truthy_opt (map_of english_problem (str ''problem_name_te''))
   \<and> map_of english_problem (str ''problem_name_en'') = Some (JStr (str ''Leaf Blight''))
   \<and> \<not> truthy_opt (map_of english_problem (str ''stage_te''))
   \<and> map_of english_problem (str ''stage_en'') = Some (JStr (str ''Flowering''))
   \<and> map_of english_only_members (str ''advisory'') = Some (JObj english_advisory)
   \<and> map_of english_advisory (str ''symptoms_te'') = None
   \<and> map_of english_advisory (str ''notes_te'') = None
   \<and> map_of english_only_members (str ''components'') = Some (JArr [JObj english_component])
   \<and> \<not> truthy_opt (map_of english_component (str ''component_name_te''))
   \<and> map_of english_component (str ''component_name_en'') = Some (JStr (str ''Neem oil''))
   \<and> map_of english_component (str ''dose_te'') = None
   \<and> map_of english_component (str ''application_method_te'') = None
   \<and> map_of english_component (str ''notes_te'') = None
   \<and> render example_platform \<lparr>payload = english_only, error = None\<rparr> =
     Inr (ReceiptView
       [DEl ''div''
         [DEl ''div''
           [DEl ''div''
              [DEl ''img'' [],
               DEl ''div'' [DText (str ''CropSync'')],
               DEl ''div'' [DText (str ''Smart Agricultural Solutions'')],
               DEl ''div'' [DText (str ''www.cropsync.in | +91-9182867605'')]],
            DEl ''div'' [DText (str ''Leaf Blight'')],
            DEl ''div''
              [DEl ''div'' [DEl ''strong'' [DText (str ''Category:'')], DText (str '' ''), DText (str ''-'')],
               DEl ''div'' [DEl ''strong'' [DText (str ''Stage:'')], DText (str '' ''), DText (str ''Flowering'')]],
            DEl ''div'' [DText (str ''Treatment'')],
            DEl ''div''
              [DEl ''div''
                 [DEl ''div'' [DText (str ''-'')],
                  DEl ''div'' [DEl ''strong'' [DText (str ''Name:'')], DText (str '' ''), DText (str ''Neem oil'')]]],
            DEl ''div''
              [DEl ''div'' [DText (str ''Receipt ID: '')],
               DEl ''div'' [DText (str ''Date: ''), DText (str ''Invalid Date'')],
               DEl ''div'' [DText (str ''Thank you for using CropSync'')]]],
          DEl ''div'' [DText (str ''If printing doesn't start automatically, allow popups or press the print button in the new window.'')]]])"
proof -
  let ?r = "\<lparr>title = El ''div'' [Val (Some (JStr (str ''Leaf Blight'')))],
          meta = El ''div''
            [El ''div'' [El ''strong'' [Txt (str ''Category:'')], Txt (str '' ''), Val (Some (JStr (str ''-'')))],
             El ''div'' [El ''strong'' [Txt (str ''Stage:'')], Txt (str '' ''), Val (Some (JStr (str ''Flowering'')))]],
          symptoms = Val None,
          advisory_notes = Val None,
          treatment = El ''Fragment''
            [El ''div'' [Txt (str ''Treatment'')],
             El ''div''
               [El ''div''
                  [El ''div'' [Val (Some (JStr (str ''-'')))],
                   El ''div'' [El ''strong'' [Txt (str ''Name:'')], Txt (str '' ''),
                               Val (Some (JStr (str ''Neem oil'')))],
                   Val None, Val None, Val None]]],
          footer = El ''div''
            [El ''div'' [Txt (str ''Receipt ID: ''), Val None],
             El ''div'' [Txt (str ''Date: ''), Val (Some (JStr (str ''Invalid Date'')))],
             El ''div'' [Txt (str ''Thank you for using CropSync'')]]\<rparr>"
  have r: "receipt_sections example_platform (JObj english_only_members) = Inr ?r"
    using english_only_sections by (simp add: english_only_def)
  have m1: "mount example_platform (title ?r) = Inr [DEl ''div'' [DText (str ''Leaf Blight'')]]"
    by (simp add: and_then_def str_nonempty)
  have m2: "mount example_platform (meta ?r) =
      Inr [DEl ''div''
              [DEl ''div'' [DEl ''strong'' [DText (str ''Category:'')], DText (str '' ''), DText (str ''-'')],
               DEl ''div'' [DEl ''strong'' [DText (str ''Stage:'')], DText (str '' ''), DText (str ''Flowering'')]]]"
    by (simp add: and_then_def str_nonempty)
  have m3: "mount example_platform (symptoms ?r) = Inr []"
    by simp
  have m4: "mount example_platform (advisory_notes ?r) = Inr []"
    by simp
  have m5: "mount example_platform (treatment ?r) =
      Inr [DEl ''div'' [DText (str ''Treatment'')],
            DEl ''div''
              [DEl ''div''
                 [DEl ''div'' [DText (str ''-'')],
                  DEl ''div'' [DEl ''strong'' [DText (str ''Name:'')], DText (str '' ''), DText (str ''Neem oil'')]]]]"
    by (simp add: and_then_def str_nonempty)
  have m6: "mount example_platform (footer ?r) =
      Inr [DEl ''div''
              [DEl ''div'' [DText (str ''Receipt ID: '')],
               DEl ''div'' [DText (str ''Date: ''), DText (str ''Invalid Date'')],
               DEl ''div'' [DText (str ''Thank you for using CropSync'')]]]"
    by (simp add: and_then_def str_nonempty)
  have look:
    "map_of english_only_members (str ''problem'') = Some (JObj english_problem)"
    "\<not> truthy_opt (map_of english_problem (str ''problem_name_te''))"
    "map_of english_problem (str ''problem_name_en'') = Some (JStr (str ''Leaf Blight''))"
    "\<not> truthy_opt (map_of english_problem (str ''stage_te''))"
    "map_of english_problem (str ''stage_en'') = Some (JStr (str ''Flowering''))"
    "map_of english_only_members (str ''advisory'') = Some (JObj english_advisory)"
    "map_of english_advisory (str ''symptoms_te'') = None"
    "map_of english_advisory (str ''notes_te'') = None"
    "map_of english_only_members (str ''components'') = Some (JArr [JObj english_component])"
    "\<not> truthy_opt (map_of english_component (str ''component_name_te''))"
    "map_of english_component (str ''component_name_en'') = Some (JStr (str ''Neem oil''))"
    "map_of english_component (str ''dose_te'') = None"
    "map_of english_component (str ''application_method_te'') = None"
    "map_of english_component (str ''notes_te'') = None"
    by (simp_all add: english_only_members_def english_problem_def english_advisory_def
        english_component_def truthy_opt_def string_eval)
  note all = secondary_language_fallback [OF r m1 m2 m3 m4 m5 m6,
      where pk = english_problem and ak = english_advisory and cs = "[JObj english_component]"
        and i = 0 and ck = english_component and name_en = "str ''Leaf Blight''"
        and stage_en = "str ''Flowering''" and comp_en = "str ''Neem oil''"]
  from all have shown: "render example_platform \<lparr>payload = english_only, error = None\<rparr> =
     Inr (ReceiptView
       [DEl ''div''
         [DEl ''div''
            (DEl ''div''
               [DEl ''img'' [],
                DEl ''div'' [DText (str ''CropSync'')],
                DEl ''div'' [DText (str ''Smart Agricultural Solutions'')],
                DEl ''div'' [DText (str ''www.cropsync.in | +91-9182867605'')]]
             # [DEl ''div'' [DText (str ''Leaf Blight'')]]
             @ [DEl ''div''
                  [DEl ''div'' [DEl ''strong'' [DText (str ''Category:'')], DText (str '' ''), DText (str ''-'')],
                   DEl ''div'' [DEl ''strong'' [DText (str ''Stage:'')], DText (str '' ''), DText (str ''Flowering'')]]]
             @ [] @ []
             @ [DEl ''div'' [DText (str ''Treatment'')],
                DEl ''div''
                  [DEl ''div''
                     [DEl ''div'' [DText (str ''-'')],
                      DEl ''div'' [DEl ''strong'' [DText (str ''Name:'')], DText (str '' ''), DText (str ''Neem oil'')]]]]
             @ [DEl ''div''
                  [DEl ''div'' [DText (str ''Receipt ID: '')],
                   DEl ''div'' [DText (str ''Date: ''), DText (str ''Invalid Date'')],
                   DEl ''div'' [DText (str ''Thank you for using CropSync'')]]]),
          DEl ''div'' [DText (str ''If printing doesn't start automatically, allow popups or press the print button in the new window.'')]]])"
    unfolding english_only_def by (rule conjunct1)
  from look shown show ?thesis
    by simp
qed


text \<open>The claim as stated fails for the symptoms: with only \<open>symptoms_en\<close> in the
  advisory, the receipt has no symptoms section and the English text is nowhere in
  it.\<close>

theorem english_symptoms_not_shown:
  "render example_platform \<lparr>payload = symptoms_only_english, error = None\<rparr> =
     Inr (ReceiptView
       [DEl ''div''
         [DEl ''div''
           [DEl ''div''
              [DEl ''img'' [],
               DEl ''div'' [DText (str ''CropSync'')],
               DEl ''div'' [DText (str ''Smart Agricultural Solutions'')],
               DEl ''div'' [DText (str ''www.cropsync.in | +91-9182867605'')]],
            DEl ''div'' [DText (str ''Advisory'')],
            DEl ''div''
              [DEl ''div'' [DEl ''strong'' [DText (str ''Category:'')], DText (str '' ''), DText (str ''-'')],
               DEl ''div'' [DEl ''strong'' [DText (str ''Stage:'')], DText (str '' ''), DText (str ''-'')]],
            DEl ''div''
              [DEl ''div'' [DText (str ''Receipt ID: '')],
               DEl ''div'' [DText (str ''Date: ''), DText (str ''Invalid Date'')],
               DEl ''div'' [DText (str ''Thank you for using CropSync'')]]],
          DEl ''div'' [DText (str ''If printing doesn't start automatically, allow popups or press the print button in the new window.'')]]])
   \<and> map_sum id (\<lambda>v. case v of ReceiptView ns \<Rightarrow> str ''Yellow spots'' \<in> set (texts_all ns) | _ \<Rightarrow> True)
        (render example_platform \<lparr>payload = symptoms_only_english, error = None\<rparr>) = Inr False"
  by (simp add: symptoms_only_english_def render_eval string_eval example_platform_def)

subsection \<open>The footer\<close>

lemma date_line_absent:
  "date_line pf None =
     Inr (El ''div'' [Txt (str ''Date: ''), Val (Some (JStr (str ''Invalid Date'')))])"
  by (simp add: date_line_def and_then_def toLocaleString_def date_time_value_def)

lemma footer_block_date:
  assumes "date_time_value pf generated_at = Inr tv"
  shows "footer_block pf receipt_id generated_at =
     Inr (El ''div''
       [El ''div'' [Txt (str ''Receipt ID: ''), Val receipt_id],
        El ''div'' [Txt (str ''Date: ''), Val (Some (JStr (toLocaleString pf tv)))],
        El ''div'' [Txt (str ''Thank you for using CropSync'')]])"
  using assms by (simp add: footer_block_def date_line_def receipt_id_line_def and_then_def)

lemma mount_footer:
  assumes "mount pf (Val receipt_id) = Inr shown" and "d \<noteq> []"
  shows "mount pf (El ''div''
       [El ''div'' [Txt (str ''Receipt ID: ''), Val receipt_id],
        El ''div'' [Txt (str ''Date: ''), Val (Some (JStr d))],
        El ''div'' [Txt (str ''Thank you for using CropSync'')]]) =
     Inr [DEl ''div''
           [DEl ''div'' (DText (str ''Receipt ID: '') # shown),
            DEl ''div'' [DText (str ''Date: ''), DText d],
            DEl ''div'' [DText (str ''Thank you for using CropSync'')]]]"
  using assms by (simp add: and_then_def del: mount.simps(2)) simp

text \<open>The receipt of an object payload whose first five sections evaluate and mount
  with the header to \<open>body\<close>, and whose date can be made: the footer follows.\<close>

lemma render_with_footer:
  assumes "title_block (with_default (JObj []) (map_of kvs (str ''problem''))) = Inr t"
      and "meta_block (with_default (JObj []) (map_of kvs (str ''problem''))) = Inr m"
      and "symptoms_block (with_default (JObj []) (map_of kvs (str ''advisory''))) = Inr s"
      and "notes_block (with_default (JObj []) (map_of kvs (str ''advisory''))) = Inr n"
      and "treatment_block pf (with_default (JArr []) (map_of kvs (str ''components''))) = Inr c"
      and "mount_all pf [header_block, t, m, s, n, c] = Inr body"
      and "date_time_value pf (map_of kvs (str ''generated_at'')) = Inr tv"
      and "toLocaleString pf tv \<noteq> []"
      and "mount pf (Val (map_of kvs (str ''receipt_id''))) = Inr shown"
  shows "render pf \<lparr>payload = JObj kvs, error = None\<rparr> =
     Inr (ReceiptView
       [DEl ''div''
         [DEl ''div''
           (body @
            [DEl ''div''
              [DEl ''div'' (DText (str ''Receipt ID: '') # shown),
               DEl ''div'' [DText (str ''Date: ''), DText (toLocaleString pf tv)],
               DEl ''div'' [DText (str ''Thank you for using CropSync'')]]]),
          DEl ''div'' [DText (str ''If printing doesn't start automatically, allow popups or press the print button in the new window.'')]]])"
proof -
  let ?f = "El ''div''
       [El ''div'' [Txt (str ''Receipt ID: ''), Val (map_of kvs (str ''receipt_id''))],
        El ''div'' [Txt (str ''Date: ''), Val (Some (JStr (toLocaleString pf tv)))],
        El ''div'' [Txt (str ''Thank you for using CropSync'')]]"
  let ?r = "\<lparr>title = t, meta = m, symptoms = s, advisory_notes = n, treatment = c, footer = ?f\<rparr>"
  have sec: "receipt_sections pf (JObj kvs) = Inr ?r"
    by (rule receipt_sections_obj [OF assms(1-5) footer_block_date [OF assms(7)]])
  have f: "mount_all pf [?f] = Inr [DEl ''div''
              [DEl ''div'' (DText (str ''Receipt ID: '') # shown),
               DEl ''div'' [DText (str ''Date: ''), DText (toLocaleString pf tv)],
               DEl ''div'' [DText (str ''Thank you for using CropSync'')]]]"
    using mount_footer [OF assms(9,8)] by (simp add: and_then_def del: mount.simps)
  have "mount_all pf ([header_block, t, m, s, n, c] @ [?f]) = Inr (body @ [DEl ''div''
              [DEl ''div'' (DText (str ''Receipt ID: '') # shown),
               DEl ''div'' [DText (str ''Date: ''), DText (toLocaleString pf tv)],
               DEl ''div'' [DText (str ''Thank you for using CropSync'')]]])"
    by (rule mount_all_append [OF assms(6) f])
  then have "mount_all pf [header_block, title ?r, meta ?r, symptoms ?r, advisory_notes ?r,
      treatment ?r, footer ?r] = Inr (body @ [DEl ''div''
              [DEl ''div'' (DText (str ''Receipt ID: '') # shown),
               DEl ''div'' [DText (str ''Date: ''), DText (toLocaleString pf tv)],
               DEl ''div'' [DText (str ''Thank you for using CropSync'')]]])"
    by simp
  from mount_div [OF this] have container:
    "mount pf (El ''div'' [header_block, title ?r, meta ?r, symptoms ?r, advisory_notes ?r,
      treatment ?r, footer ?r]) = Inr [DEl ''div'' (body @ [DEl ''div''
              [DEl ''div'' (DText (str ''Receipt ID: '') # shown),
               DEl ''div'' [DText (str ''Date: ''), DText (toLocaleString pf tv)],
               DEl ''div'' [DText (str ''Thank you for using CropSync'')]]])]"
    .
  have nt: "mount_all pf [fallback_note] =
      Inr [DEl ''div'' [DText (str ''If printing doesn't start automatically, allow popups or press the print button in the new window.'')]]"
    using fallback_note_mount [of pf] by (simp add: and_then_def)
  from mount_div [OF mount_all_Cons [OF container nt]]
  have "mount pf (receipt_jsx ?r) = Inr
       [DEl ''div''
         [DEl ''div''
           (body @
            [DEl ''div''
              [DEl ''div'' (DText (str ''Receipt ID: '') # shown),
               DEl ''div'' [DText (str ''Date: ''), DText (toLocaleString pf tv)],
               DEl ''div'' [DText (str ''Thank you for using CropSync'')]]]),
          DEl ''div'' [DText (str ''If printing doesn't start automatically, allow popups or press the print button in the new window.'')]]]"
    by (simp add: receipt_jsx_def)
  with sec show ?thesis
    by (simp add: render_def and_then_def del: mount.simps mount_all.simps)
qed

text \<open>\<open>new Date(generated_at)\<close> throws for an object with a property \<open>toString\<close> of
  its own, and the receipt is not rendered then.\<close>

lemma date_of_object_faults:
  "date_time_value pf (Some (JObj [(str ''toString'', JNum (Finite 1))])) = Inl TypeError"
  "render pf \<lparr>payload = JObj [(str ''generated_at'', JObj [(str ''toString'', JNum (Finite 1))])],
              error = None\<rparr> = Inl TypeError"
  by (simp_all add: render_eval string_eval)

text \<open>\<open>components.length > 0\<close> throws for an object whose \<open>length\<close> is such an
  object.\<close>

lemma length_of_object_faults:
  "treatment_block pf
     (JObj [(str ''length'', JObj [(str ''toString'', JNum (Finite 1))])]) = Inl TypeError"
  by (simp add: treatment_block_def greater_than_zero_def and_then_def string_eval)

text \<open>
  C10, as the code has it. For an object payload whose title, metadata, symptoms,
  advisory and treatment sections evaluate without an exception and mount, a missing
  \<open>receipt_id\<close> or \<open>generated_at\<close> raises nothing and the receipt is rendered with its
  footer after the other sections. With both missing the footer shows "Receipt ID: "
  alone and "Date: Invalid Date". With only \<open>receipt_id\<close> missing it shows
  "Receipt ID: " alone and the formatted date, provided that \<open>new Date(generated_at)\<close>
  does not throw and the formatted text is not empty. With only \<open>generated_at\<close>
  missing it shows "Receipt ID: " with the nodes of \<open>receipt_id\<close>, provided that it
  is a value React can show, and "Date: Invalid Date".
\<close>

theorem footer_without_id_or_date:
  assumes "title_block (with_default (JObj []) (map_of kvs (str ''problem''))) = Inr t"
      and "meta_block (with_default (JObj []) (map_of kvs (str ''problem''))) = Inr m"
      and "symptoms_block (with_default (JObj []) (map_of kvs (str ''advisory''))) = Inr s"
      and "notes_block (with_default (JObj []) (map_of kvs (str ''advisory''))) = Inr n"
      and "treatment_block pf (with_default (JArr []) (map_of kvs (str ''components''))) = Inr c"
      and "mount_all pf [header_block, t, m, s, n, c] = Inr body"
  shows "(map_of kvs (str ''receipt_id'') = None \<and> map_of kvs (str ''generated_at'') = None \<longrightarrow>
         render pf \<lparr>payload = JObj kvs, error = None\<rparr> =
           Inr (ReceiptView
             [DEl ''div''
               [DEl ''div''
                 (body @
                  [DEl ''div''
                    [DEl ''div'' [DText (str ''Receipt ID: '')],
                     DEl ''div'' [DText (str ''Date: ''), DText (str ''Invalid Date'')],
                     DEl ''div'' [DText (str ''Thank you for using CropSync'')]]]),
                DEl ''div'' [DText (str ''If printing doesn't start automatically, allow popups or press the print button in the new window.'')]]]))
    \<and> (map_of kvs (str ''receipt_id'') = None \<and> map_of kvs (str ''generated_at'') = Some g
        \<and> date_time_value pf (Some g) = Inr tv \<and> toLocaleString pf tv \<noteq> [] \<longrightarrow>
         render pf \<lparr>payload = JObj kvs, error = None\<rparr> =
           Inr (ReceiptView
             [DEl ''div''
               [DEl ''div''
                 (body @
                  [DEl ''div''
                    [DEl ''div'' [DText (str ''Receipt ID: '')],
                     DEl ''div'' [DText (str ''Date: ''), DText (toLocaleString pf tv)],
                     DEl ''div'' [DText (str ''Thank you for using CropSync'')]]]),
                DEl ''div'' [DText (str ''If printing doesn't start automatically, allow popups or press the print button in the new window.'')]]]))
    \<and> (map_of kvs (str ''generated_at'') = None \<and> map_of kvs (str ''receipt_id'') = Some rid
        \<and> child_nodes pf rid = Inr shown \<longrightarrow>
         render pf \<lparr>payload = JObj kvs, error = None\<rparr> =
           Inr (ReceiptView
             [DEl ''div''
               [DEl ''div''
                 (body @
                  [DEl ''div''
                    [DEl ''div'' (DText (str ''Receipt ID: '') # shown),
                     DEl ''div'' [DText (str ''Date: ''), DText (str ''Invalid Date'')],
                     DEl ''div'' [DText (str ''Thank you for using CropSync'')]]]),
                DEl ''div'' [DText (str ''If printing doesn't start automatically, allow popups or press the print button in the new window.'')]]]))"
proof -
  have no_date: "date_time_value pf None = Inr None"
    by (simp add: date_time_value_def)
  have invalid: "toLocaleString pf None = str ''Invalid Date''" "str ''Invalid Date'' \<noteq> []"
    by (simp_all add: toLocaleString_def str_nonempty)
  have no_id: "mount pf (Val None) = Inr []"
    by simp
  have both: "render pf \<lparr>payload = JObj kvs, error = None\<rparr> =
           Inr (ReceiptView
             [DEl ''div''
               [DEl ''div''
                 (body @
                  [DEl ''div''
                    [DEl ''div'' [DText (str ''Receipt ID: '')],
                     DEl ''div'' [DText (str ''Date: ''), DText (str ''Invalid Date'')],
                     DEl ''div'' [DText (str ''Thank you for using CropSync'')]]]),
                DEl ''div'' [DText (str ''If printing doesn't start automatically, allow popups or press the print button in the new window.'')]]])"
    if "map_of kvs (str ''receipt_id'') = None" and "map_of kvs (str ''generated_at'') = None"
    using render_with_footer [OF assms, of None "[]"] that no_date invalid no_id
    by (simp del: mount.simps mount_all.simps)
  have id_only: "render pf \<lparr>payload = JObj kvs, error = None\<rparr> =
           Inr (ReceiptView
             [DEl ''div''
               [DEl ''div''
                 (body @
                  [DEl ''div''
                    [DEl ''div'' [DText (str ''Receipt ID: '')],
                     DEl ''div'' [DText (str ''Date: ''), DText (toLocaleString pf tv)],
                     DEl ''div'' [DText (str ''Thank you for using CropSync'')]]]),
                DEl ''div'' [DText (str ''If printing doesn't start automatically, allow popups or press the print button in the new window.'')]]])"
    if "map_of kvs (str ''receipt_id'') = None" and "map_of kvs (str ''generated_at'') = Some g"
      and "date_time_value pf (Some g) = Inr tv" and "toLocaleString pf tv \<noteq> []"
    using render_with_footer [OF assms, of tv "[]"] that no_id
    by (simp del: mount.simps mount_all.simps)
  have date_only: "render pf \<lparr>payload = JObj kvs, error = None\<rparr> =
           Inr (ReceiptView
             [DEl ''div''
               [DEl ''div''
                 (body @
                  [DEl ''div''
                    [DEl ''div'' (DText (str ''Receipt ID: '') # shown),
                     DEl ''div'' [DText (str ''Date: ''), DText (str ''Invalid Date'')],
                     DEl ''div'' [DText (str ''Thank you for using CropSync'')]]]),
                DEl ''div'' [DText (str ''If printing doesn't start automatically, allow popups or press the print button in the new window.'')]]])"
    if "map_of kvs (str ''generated_at'') = None" and "map_of kvs (str ''receipt_id'') = Some rid"
      and "child_nodes pf rid = Inr shown"
  proof -
    have "mount pf (Val (map_of kvs (str ''receipt_id''))) = Inr shown"
      using that(2,3) by simp
    from render_with_footer [OF assms _ _ this, of None] that(1) no_date invalid show ?thesis
      by (simp del: mount.simps mount_all.simps)
  qed
  from both id_only date_only show ?thesis
    by blast
qed

theorem footer_without_id_or_date_witness:
  "\<exists>body.
     mount_all example_platform
       [header_block,
        El ''div'' [Val (Some (JStr (str ''Advisory'')))],
        El ''div''
          [El ''div'' [El ''strong'' [Txt (str ''Category:'')], Txt (str '' ''), Val (Some (JStr (str ''-'')))],
           El ''div'' [El ''strong'' [Txt (str ''Stage:'')], Txt (str '' ''), Val (Some (JStr (str ''-'')))]],
        Val None, Val None, Val (Some (JBool False))] = Inr body
     \<and> render example_platform \<lparr>payload = JObj [], error = None\<rparr> =
           Inr (ReceiptView
             [DEl ''div''
               [DEl ''div''
                 (body @
                  [DEl ''div''
                    [DEl ''div'' [DText (str ''Receipt ID: '')],
                     DEl ''div'' [DText (str ''Date: ''), DText (str ''Invalid Date'')],
                     DEl ''div'' [DText (str ''Thank you for using CropSync'')]]]),
                DEl ''div'' [DText (str ''If printing doesn't start automatically, allow popups or press the print button in the new window.'')]]])
     \<and> render example_platform
           \<lparr>payload = JObj [(str ''generated_at'', JStr (str ''2024-01-01T00:00:00Z''))], error = None\<rparr> =
           Inr (ReceiptView
             [DEl ''div''
               [DEl ''div''
                 (body @
                  [DEl ''div''
                    [DEl ''div'' [DText (str ''Receipt ID: '')],
                     DEl ''div'' [DText (str ''Date: ''), DText (str ''1/1/2024, 5:30:00 am'')],
                     DEl ''div'' [DText (str ''Thank you for using CropSync'')]]]),
                DEl ''div'' [DText (str ''If printing doesn't start automatically, allow popups or press the print button in the new window.'')]]])
     \<and> render example_platform
           \<lparr>payload = JObj [(str ''receipt_id'', JStr (str ''R1''))], error = None\<rparr> =
           Inr (ReceiptView
             [DEl ''div''
               [DEl ''div''
                 (body @
                  [DEl ''div''
                    [DEl ''div'' [DText (str ''Receipt ID: ''), DText (str ''R1'')],
                     DEl ''div'' [DText (str ''Date: ''), DText (str ''Invalid Date'')],
                     DEl ''div'' [DText (str ''Thank you for using CropSync'')]]]),
                DEl ''div'' [DText (str ''If printing doesn't start automatically, allow popups or press the print button in the new window.'')]]])"
proof -
  have t: "title_block (with_default (JObj []) (map_of kvs (str ''problem''))) =
      Inr (El ''div'' [Val (Some (JStr (str ''Advisory'')))])"
    and m: "meta_block (with_default (JObj []) (map_of kvs (str ''problem''))) =
      Inr (El ''div''
          [El ''div'' [El ''strong'' [Txt (str ''Category:'')], Txt (str '' ''), Val (Some (JStr (str ''-'')))],
           El ''div'' [El ''strong'' [Txt (str ''Stage:'')], Txt (str '' ''), Val (Some (JStr (str ''-'')))]])"
    and s: "symptoms_block (with_default (JObj []) (map_of kvs (str ''advisory''))) = Inr (Val None)"
    and n: "notes_block (with_default (JObj []) (map_of kvs (str ''advisory''))) = Inr (Val None)"
    and c: "treatment_block example_platform (with_default (JArr []) (map_of kvs (str ''components''))) =
      Inr (Val (Some (JBool False)))"
    if "kvs = [] \<or> kvs = [(str ''generated_at'', JStr (str ''2024-01-01T00:00:00Z''))]
          \<or> kvs = [(str ''receipt_id'', JStr (str ''R1''))]" for kvs
    using that by (auto simp: render_eval string_eval)
  have "\<exists>body. mount_all example_platform
       [header_block,
        El ''div'' [Val (Some (JStr (str ''Advisory'')))],
        El ''div''
          [El ''div'' [El ''strong'' [Txt (str ''Category:'')], Txt (str '' ''), Val (Some (JStr (str ''-'')))],
           El ''div'' [El ''strong'' [Txt (str ''Stage:'')], Txt (str '' ''), Val (Some (JStr (str ''-'')))]],
        Val None, Val None, Val (Some (JBool False))] = Inr body"
    by (simp add: and_then_def header_block_def)
  then obtain body where b: "mount_all example_platform
       [header_block,
        El ''div'' [Val (Some (JStr (str ''Advisory'')))],
        El ''div''
          [El ''div'' [El ''strong'' [Txt (str ''Category:'')], Txt (str '' ''), Val (Some (JStr (str ''-'')))],
           El ''div'' [El ''strong'' [Txt (str ''Stage:'')], Txt (str '' ''), Val (Some (JStr (str ''-'')))]],
        Val None, Val None, Val (Some (JBool False))] = Inr body"
    by blast
  have k1: "[] = [] \<or> [] = [(str ''generated_at'', JStr (str ''2024-01-01T00:00:00Z''))]
          \<or> [] = [(str ''receipt_id'', JStr (str ''R1''))]"
    by simp
  have first: "render example_platform \<lparr>payload = JObj [], error = None\<rparr> =
           Inr (ReceiptView
             [DEl ''div''
               [DEl ''div''
                 (body @
                  [DEl ''div''
                    [DEl ''div'' [DText (str ''Receipt ID: '')],
                     DEl ''div'' [DText (str ''Date: ''), DText (str ''Invalid Date'')],
                     DEl ''div'' [DText (str ''Thank you for using CropSync'')]]]),
                DEl ''div'' [DText (str ''If printing doesn't start automatically, allow popups or press the print button in the new window.'')]]])"
    using footer_without_id_or_date [OF t [OF k1] m [OF k1] s [OF k1] n [OF k1] c [OF k1] b]
    by simp
  have gen: "map_of [(str ''generated_at'', JStr (str ''2024-01-01T00:00:00Z''))] (str ''receipt_id'') = None"
      "map_of [(str ''generated_at'', JStr (str ''2024-01-01T00:00:00Z''))] (str ''generated_at'')
         = Some (JStr (str ''2024-01-01T00:00:00Z''))"
      "date_time_value example_platform (Some (JStr (str ''2024-01-01T00:00:00Z''))) = Inr (Some 1704067200000)"
      "toLocaleString example_platform (Some 1704067200000) = str ''1/1/2024, 5:30:00 am''"
      "str ''1/1/2024, 5:30:00 am'' \<noteq> []"
    by (simp_all add: string_eval date_time_value_def toLocaleString_def example_platform_def)
  have second: "render example_platform
           \<lparr>payload = JObj [(str ''generated_at'', JStr (str ''2024-01-01T00:00:00Z''))], error = None\<rparr> =
           Inr (ReceiptView
             [DEl ''div''
               [DEl ''div''
                 (body @
                  [DEl ''div''
                    [DEl ''div'' [DText (str ''Receipt ID: '')],
                     DEl ''div'' [DText (str ''Date: ''), DText (str ''1/1/2024, 5:30:00 am'')],
                     DEl ''div'' [DText (str ''Thank you for using CropSync'')]]]),
                DEl ''div'' [DText (str ''If printing doesn't start automatically, allow popups or press the print button in the new window.'')]]])"
    using footer_without_id_or_date
      [OF t [OF disjI2 [OF disjI1 [OF refl]]] m [OF disjI2 [OF disjI1 [OF refl]]]
        s [OF disjI2 [OF disjI1 [OF refl]]] n [OF disjI2 [OF disjI1 [OF refl]]]
        c [OF disjI2 [OF disjI1 [OF refl]]] b,
        where g = "JStr (str ''2024-01-01T00:00:00Z'')" and tv = "Some 1704067200000"]
      gen
    by simp
  have rid: "map_of [(str ''receipt_id'', JStr (str ''R1''))] (str ''generated_at'') = None"
      "map_of [(str ''receipt_id'', JStr (str ''R1''))] (str ''receipt_id'') = Some (JStr (str ''R1''))"
      "child_nodes example_platform (JStr (str ''R1'')) = Inr [DText (str ''R1'')]"
    by (simp_all add: string_eval)
  have third: "render example_platform
           \<lparr>payload = JObj [(str ''receipt_id'', JStr (str ''R1''))], error = None\<rparr> =
           Inr (ReceiptView
             [DEl ''div''
               [DEl ''div''
                 (body @
                  [DEl ''div''
                    [DEl ''div'' [DText (str ''Receipt ID: ''), DText (str ''R1'')],
                     DEl ''div'' [DText (str ''Date: ''), DText (str ''Invalid Date'')],
                     DEl ''div'' [DText (str ''Thank you for using CropSync'')]]]),
                DEl ''div'' [DText (str ''If printing doesn't start automatically, allow popups or press the print button in the new window.'')]]])"
    using footer_without_id_or_date
      [OF t [OF disjI2 [OF disjI2 [OF refl]]] m [OF disjI2 [OF disjI2 [OF refl]]]
        s [OF disjI2 [OF disjI2 [OF refl]]] n [OF disjI2 [OF disjI2 [OF refl]]]
        c [OF disjI2 [OF disjI2 [OF refl]]] b,
        where rid = "JStr (str ''R1'')" and shown = "[DText (str ''R1'')]"]
      rid
    by simp
  from b first second third show ?thesis
    by blast
qed

text \<open>The claim as stated fails for an object payload whose \<open>problem\<close> is \<open>null\<close>:
  the default of the destructuring applies to \<open>undefined\<close> only, and reading
  \<open>problem.problem_name_te\<close> throws TypeError.\<close>

theorem null_problem_faults:
  "render example_platform \<lparr>payload = null_problem, error = None\<rparr> = Inl TypeError"
  by (simp add: null_problem_def render_eval string_eval)

subsection \<open>The popup-blocked branch\<close>

lemma generateAndPrint_blocked:
  assumes "html2canvas ev container 2 = Inr cv"
      and "toDataURL ev cv = Inr img"
      and "output_bloburl ev (receipt_pdf img) = Inr url"
      and "\<not> window_open ev url"
  shows "generateAndPrint pf ev container =
     [Sleep 300, Rasterize 2, PdfOutput (receipt_pdf img), Open url]
       @ popup_blocked_fallback ev (receipt_pdf img)"
  using assms by (simp add: generateAndPrint_def)

lemma popup_blocked_twice:
  "\<not> window_open ev [] \<Longrightarrow>
   popup_blocked_fallback ev pdf =
     [Open [], Alert (str ''Popup blocked and fallback failed. Please allow popups.'')]"
  by (simp add: popup_blocked_fallback_def)

lemma popup_blocked_iframe:
  assumes "window_open ev []"
      and "output_blob_callback ev pdf = Some b"
      and "reader_result ev b = Some url"
      and "\<not> print_throws ev"
  shows "popup_blocked_fallback ev pdf =
     [Open [], ReadAsDataURL b, Write FallbackWindow (iframe_markup url),
      DocClose FallbackWindow, Sleep 800, Focus FallbackWindow, Print FallbackWindow,
      CloseAfter 1500 FallbackWindow]"
  using assms by (simp add: popup_blocked_fallback_def)

lemma popup_blocked_no_callback:
  assumes "window_open ev []"
      and "output_blob_callback ev pdf = None"
  shows "popup_blocked_fallback ev pdf = [Open []]"
  using assms by (simp add: popup_blocked_fallback_def)

text \<open>
  C6. The branch for a blocked popup opens a blank window and shows the alert when
  that is blocked too (\<open>popup_blocked_twice\<close>), and writes the iframe and prints when
  the callback passed to \<open>pdf.output('blob', ...)\<close> is called with the blob
  (\<open>popup_blocked_iframe\<close>). In the example environment the first \<open>window.open\<close>
  returns \<open>null\<close>, the blank window opens and the callback is never called: the
  export stops after opening the blank window, with no iframe, no print and no alert.
\<close>

theorem blocked_popup_fallback_stalls:
  "\<not> window_open example_env (str ''blob:0'')
   \<and> window_open example_env []
   \<and> output_blob_callback example_env (receipt_pdf (str ''data:image/png;base64,iVBORw0KGgo'')) = None
   \<and> generateAndPrint example_platform example_env [] =
       [Sleep 300, Rasterize 2, PdfOutput (receipt_pdf (str ''data:image/png;base64,iVBORw0KGgo'')),
        Open (str ''blob:0''), Open []]"
  by (simp add: example_env_def generateAndPrint_def popup_blocked_fallback_def string_eval)

subsection \<open>The decoder\<close>

lemma decodeURIComponent_no_percent:
  "0x25 \<notin> set s \<Longrightarrow> decodeURIComponent s = Inr s"
  by (induction s) auto

lemma replace_all_absent: "a \<notin> set s \<Longrightarrow> replace_all a b s = s"
  by (induction s) (auto simp: replace_all_def)

lemma b64_indices_Some:
  "b64_indices s = Some is \<Longrightarrow> \<forall>c \<in> set s. b64_index c \<noteq> None"
  by (induction s arbitrary: "is") (auto split: option.splits)

lemma set_strip_padding: "set d \<subseteq> set (strip_padding d) \<union> {0x3D}"
proof -
  have a: "set d \<subseteq> set (take (length d - 2) d) \<union> {0x3D}"
    if "drop (length d - 2) d = [0x3D, 0x3D]"
  proof -
    have "set d = set (take (length d - 2) d @ drop (length d - 2) d)" by simp
    also have "\<dots> = set (take (length d - 2) d) \<union> {0x3D}" using that by (simp only: set_append) simp
    finally show ?thesis by simp
  qed
  have b: "set d \<subseteq> set (take (length d - 1) d) \<union> {0x3D}"
    if "drop (length d - 1) d = [0x3D]"
  proof -
    have "set d = set (take (length d - 1) d @ drop (length d - 1) d)" by simp
    also have "\<dots> = set (take (length d - 1) d) \<union> {0x3D}" using that by (simp only: set_append) simp
    finally show ?thesis by simp
  qed
  show ?thesis
    using a b by (auto simp: strip_padding_def)
qed

lemma atob_chars:
  assumes "atob s = Inr r" and "c \<in> set s"
  shows "is_ascii_whitespace c \<or> b64_index c \<noteq> None \<or> c = 0x3D"
proof (cases "is_ascii_whitespace c")
  case True
  then show ?thesis by simp
next
  case False
  let ?d = "filter (\<lambda>c. \<not> is_ascii_whitespace c) s"
  from assms(1) obtain "is" where "b64_indices (strip_padding ?d) = Some is"
    by (auto simp: atob_def Let_def split: if_splits option.splits)
  then have ok: "\<forall>x \<in> set (strip_padding ?d). b64_index x \<noteq> None"
    by (rule b64_indices_Some)
  from False assms(2) have "c \<in> set ?d" by simp
  with set_strip_padding [of ?d] have "c \<in> set (strip_padding ?d) \<or> c = 0x3D" by auto
  with ok show ?thesis by auto
qed

lemma atob_no_special:
  assumes "atob s = Inr r"
  shows "0x25 \<notin> set s" and "0x2D \<notin> set s" and "0x5F \<notin> set s"
  using atob_chars [OF assms, of "0x25"] atob_chars [OF assms, of "0x2D"]
    atob_chars [OF assms, of "0x5F"]
  by (auto simp: is_ascii_whitespace_def b64_index_def)

lemma fallback_never_succeeds_alone:
  assumes "atob s = Inr r"
  shows "decode_fixed s = Inr r"
  using assms atob_no_special [OF assms]
  by (simp add: decode_fixed_def decodeURIComponent_no_percent replace_all_absent)

lemma decodeBase64UrlSafe_is_decode_fixed: "decodeBase64UrlSafe s = decode_fixed s"
proof (cases "decode_fixed s")
  case (Inr r)
  then show ?thesis by (simp add: decodeBase64UrlSafe_def)
next
  case (Inl e)
  have "atob s \<noteq> Inr r" for r
    using fallback_never_succeeds_alone [of s r] Inl by auto
  then obtain e2 where "atob s = Inl e2"
    by (cases "atob s") auto
  with Inl show ?thesis by (simp add: decodeBase64UrlSafe_def)
qed

lemma parse_failure_nonempty: "parse_failure pf e \<noteq> []"
  by (simp add: parse_failure_def str_def)

lemma halted_with_message:
  assumes "loaded pf search = \<lparr>payload = JNull, error = Some msg\<rparr>" and "msg \<noteq> []"
  shows "halted_with pf ev search msg"
  unfolding halted_with_def assms(1)
  using render_error_view [OF assms(2)]
  by (simp add: export_starts_def export_effect_def)

lemma halted_on_failure:
  assumes "params_get (URLSearchParams search) (str ''data'') = Some raw" and "raw \<noteq> []"
      and "and_then (decodeBase64UrlSafe raw) JSON_parse = Inl e"
  shows "halted_with pf ev search (parse_failure pf e)"
proof -
  have "loaded pf search = \<lparr>payload = JNull, error = Some (parse_failure pf e)\<rparr>"
    using assms by (auto simp: page_eval and_then_def split: sum.splits)
  then show ?thesis
    by (rule halted_with_message) (rule parse_failure_nonempty)
qed

lemma halted_on_empty:
  assumes "params_get (URLSearchParams search) (str ''data'') = Some []"
  shows "halted_with pf ev search (str ''No data parameter found in URL.'')"
proof -
  have "loaded pf search =
      \<lparr>payload = JNull, error = Some (str ''No data parameter found in URL.'')\<rparr>"
    using assms by (simp add: page_eval)
  then show ?thesis
    by (rule halted_with_message) (simp add: str_def)
qed

lemma replace_calls:
  "replace_all 0x5F 0x2F (replace_all 0x2D 0x2B d) =
     map (\<lambda>c. if c = 0x2D then 0x2B else if c = 0x5F then 0x2F else c) d"
  by (simp add: replace_all_def)

text \<open>
  C3. \<open>decodeBase64UrlSafe\<close> is exactly \<open>decodeURIComponent\<close>, then the replacement
  of every \<open>-\<close> by \<open>+\<close> and of every \<open>_\<close> by \<open>/\<close> with all other characters kept,
  then \<open>atob\<close>: the second \<open>atob\<close> in its handler never turns a failure of these
  steps into a result. For a \<open>data\<close> value that is not empty, a failure of the
  percent-decoding, of the Base64 decoding or of \<open>JSON.parse\<close> leaves the page halted
  with the message of that failure: the message in \<open>error\<close>, the error view rendered,
  no receipt and no export; when all steps succeed the parsed value is the payload.
  An empty \<open>data\<close> value halts the page with the message of a missing parameter.
\<close>

theorem decode_steps_and_failure:
  assumes "params_get (URLSearchParams search) (str ''data'') = Some raw"
  shows "decodeBase64UrlSafe raw =
           and_then (decodeURIComponent raw)
             (\<lambda>d. atob (map (\<lambda>c. if c = 0x2D then 0x2B else if c = 0x5F then 0x2F else c) d))
    \<and> (raw = [] \<longrightarrow> halted_with pf ev search (str ''No data parameter found in URL.''))
    \<and> (raw \<noteq> [] \<and> decodeURIComponent raw = Inl e
        \<longrightarrow> halted_with pf ev search (parse_failure pf e))
    \<and> (raw \<noteq> [] \<and> decodeURIComponent raw = Inr d
          \<and> atob (map (\<lambda>c. if c = 0x2D then 0x2B else if c = 0x5F then 0x2F else c) d) = Inl e
        \<longrightarrow> halted_with pf ev search (parse_failure pf e))
    \<and> (raw \<noteq> [] \<and> decodeURIComponent raw = Inr d
          \<and> atob (map (\<lambda>c. if c = 0x2D then 0x2B else if c = 0x5F then 0x2F else c) d) = Inr t
          \<and> JSON_parse t = Inl e
        \<longrightarrow> halted_with pf ev search (parse_failure pf e))
    \<and> (raw \<noteq> [] \<and> decodeURIComponent raw = Inr d
          \<and> atob (map (\<lambda>c. if c = 0x2D then 0x2B else if c = 0x5F then 0x2F else c) d) = Inr t
          \<and> JSON_parse t = Inr v
        \<longrightarrow> loaded pf search = \<lparr>payload = v, error = None\<rparr>)"
proof -
  have eq: "decodeBase64UrlSafe raw =
      and_then (decodeURIComponent raw)
        (\<lambda>d. atob (map (\<lambda>c. if c = 0x2D then 0x2B else if c = 0x5F then 0x2F else c) d))"
    by (cases "decodeURIComponent raw")
      (simp_all add: decodeBase64UrlSafe_is_decode_fixed decode_fixed_def and_then_def replace_calls)
  have empty: "halted_with pf ev search (str ''No data parameter found in URL.'')" if "raw = []"
    using halted_on_empty assms that by simp
  have fail: "halted_with pf ev search (parse_failure pf e)"
    if "raw \<noteq> []" and "and_then (decodeBase64UrlSafe raw) JSON_parse = Inl e"
    using halted_on_failure [OF assms that] .
  have ok: "loaded pf search = \<lparr>payload = v, error = None\<rparr>"
    if "raw \<noteq> []" and "decodeBase64UrlSafe raw = Inr t" and "JSON_parse t = Inr v"
    using assms that by (simp add: page_eval)
  show ?thesis
    using eq empty fail ok by (simp add: and_then_def)
qed

theorem decode_failure_witness:
  \<open>params_get (URLSearchParams (str ''?data=IiA-ICA_Ig%253D%253D'')) (str ''data'') =
     Some (str ''IiA-ICA_Ig%3D%3D'')
   \<and> decodeURIComponent (str ''IiA-ICA_Ig%3D%3D'') = Inr (str ''IiA-ICA_Ig=='')
   \<and> map (\<lambda>c. if c = 0x2D then 0x2B else if c = 0x5F then 0x2F else c) (str ''IiA-ICA_Ig=='') =
       str ''IiA+ICA/Ig==''
   \<and> atob (str ''IiA+ICA/Ig=='') = Inr (str ''" >  ?"'')
   \<and> JSON_parse (str ''" >  ?"'') = Inr (JStr (str '' >  ?''))
   \<and> decodeBase64UrlSafe (str ''IiA-ICA_Ig%3D%3D'') = Inr (str ''" >  ?"'')
   \<and> loaded example_platform (str ''?data=IiA-ICA_Ig%253D%253D'') =
       \<lparr>payload = JStr (str '' >  ?''), error = None\<rparr>
   \<and> params_get (URLSearchParams (str ''?data=%2541'')) (str ''data'') = Some (str ''%41'')
   \<and> decodeURIComponent (str ''%41'') = Inr (str ''A'')
   \<and> atob (map (\<lambda>c. if c = 0x2D then 0x2B else if c = 0x5F then 0x2F else c) (str ''A'')) =
       Inl InvalidCharacterError
   \<and> halted_with example_platform example_env (str ''?data=%2541'')
        (parse_failure example_platform InvalidCharacterError)
   \<and> params_get (URLSearchParams (str ''?data='')) (str ''data'') = Some []
   \<and> halted_with example_platform example_env (str ''?data='')
        (str ''No data parameter found in URL.'')
   \<and> params_get (URLSearchParams (str ''?data=%25'')) (str ''data'') = Some (str ''%'')
   \<and> decodeURIComponent (str ''%'') = Inl URIError
   \<and> halted_with example_platform example_env (str ''?data=%25'')
        (parse_failure example_platform URIError)
   \<and> params_get (URLSearchParams (str ''?data=QQ'')) (str ''data'') = Some (str ''QQ'')
   \<and> decodeURIComponent (str ''QQ'') = Inr (str ''QQ'')
   \<and> atob (map (\<lambda>c. if c = 0x2D then 0x2B else if c = 0x5F then 0x2F else c) (str ''QQ'')) =
       Inr (str ''A'')
   \<and> JSON_parse (str ''A'') = Inl SyntaxError
   \<and> halted_with example_platform example_env (str ''?data=QQ'')
        (parse_failure example_platform SyntaxError)\<close>
proof -
  have g1: "params_get (URLSearchParams (str ''?data=IiA-ICA_Ig%253D%253D'')) (str ''data'') =
     Some (str ''IiA-ICA_Ig%3D%3D'')"
    by (simp add: query_eval string_eval)
  have g2: "str ''IiA-ICA_Ig%3D%3D'' \<noteq> []"
    by (simp add: str_nonempty)
  have g3: "decodeURIComponent (str ''IiA-ICA_Ig%3D%3D'') = Inr (str ''IiA-ICA_Ig=='')"
    by (simp add: string_eval hex2_def hex_val_def leading_ones_def)
  have g4: "map (\<lambda>c. if c = 0x2D then 0x2B else if c = 0x5F then 0x2F else c) (str ''IiA-ICA_Ig=='') =
       str ''IiA+ICA/Ig==''"
    by (simp add: string_eval)
  have g5: \<open>atob (str ''IiA+ICA/Ig=='') = Inr (str ''" >  ?"'')\<close>
    by (simp add: base64_eval string_eval)
  have g6: \<open>JSON_parse (str ''" >  ?"'') = Inr (JStr (str '' >  ?''))\<close>
    by (simp add: json_eval string_eval)
  note ok = decode_steps_and_failure [OF g1, where d = "str ''IiA-ICA_Ig==''"
      and t = \<open>str ''" >  ?"''\<close> and v = "JStr (str '' >  ?'')" and pf = example_platform]
  from ok g3 g4 g5 have a: \<open>decodeBase64UrlSafe (str ''IiA-ICA_Ig%3D%3D'') = Inr (str ''" >  ?"'')\<close>
    by (simp add: and_then_def)
  from ok g2 g3 g4 g5 g6
  have b: "loaded example_platform (str ''?data=IiA-ICA_Ig%253D%253D'') =
       \<lparr>payload = JStr (str '' >  ?''), error = None\<rparr>"
    by simp
  have h1: "params_get (URLSearchParams (str ''?data=%2541'')) (str ''data'') = Some (str ''%41'')"
    by (simp add: query_eval string_eval)
  have h2: "str ''%41'' \<noteq> []"
    by (simp add: str_nonempty)
  have h3: "decodeURIComponent (str ''%41'') = Inr (str ''A'')"
    by (simp add: string_eval hex2_def hex_val_def leading_ones_def)
  have h4: "atob (map (\<lambda>c. if c = 0x2D then 0x2B else if c = 0x5F then 0x2F else c) (str ''A'')) =
      Inl InvalidCharacterError"
    by (simp add: base64_eval string_eval)
  from decode_steps_and_failure [OF h1, where d = "str ''A''" and e = InvalidCharacterError
      and pf = example_platform and ev = example_env]
    h2 h3 h4
  have c: "halted_with example_platform example_env (str ''?data=%2541'')
      (parse_failure example_platform InvalidCharacterError)"
    by blast
  have e1: "params_get (URLSearchParams (str ''?data='')) (str ''data'') = Some []"
    by (simp add: query_eval string_eval)
  from decode_steps_and_failure [OF e1, where pf = example_platform and ev = example_env]
  have e: "halted_with example_platform example_env (str ''?data='')
        (str ''No data parameter found in URL.'')"
    by blast
  have u1: "params_get (URLSearchParams (str ''?data=%25'')) (str ''data'') = Some (str ''%'')"
    by (simp add: query_eval string_eval)
  have u2: "str ''%'' \<noteq> []"
    by (simp add: str_nonempty)
  have u3: "decodeURIComponent (str ''%'') = Inl URIError"
    by (simp add: string_eval)
  from decode_steps_and_failure [OF u1, where e = URIError
      and pf = example_platform and ev = example_env] u2 u3
  have u: "halted_with example_platform example_env (str ''?data=%25'')
        (parse_failure example_platform URIError)"
    by blast
  have s1: "params_get (URLSearchParams (str ''?data=QQ'')) (str ''data'') = Some (str ''QQ'')"
    by (simp add: query_eval string_eval)
  have s2: "str ''QQ'' \<noteq> []"
    by (simp add: str_nonempty)
  have s3: "decodeURIComponent (str ''QQ'') = Inr (str ''QQ'')"
    by (simp add: string_eval)
  have s4: "atob (map (\<lambda>c. if c = 0x2D then 0x2B else if c = 0x5F then 0x2F else c) (str ''QQ'')) =
       Inr (str ''A'')"
    by (simp add: base64_eval string_eval)
  have s5: "JSON_parse (str ''A'') = Inl SyntaxError"
    by (simp add: json_eval string_eval)
  from decode_steps_and_failure [OF s1, where d = "str ''QQ''" and t = "str ''A''"
      and e = SyntaxError and pf = example_platform and ev = example_env] s2 s3 s4 s5
  have s: "halted_with example_platform example_env (str ''?data=QQ'')
        (parse_failure example_platform SyntaxError)"
    by blast
  from g1 g3 g4 g5 g6 a b h1 h3 h4 c e1 e u1 u3 u s1 s3 s4 s5 s show ?thesis
    by blast
qed

subsection \<open>The Base64 round trip\<close>

lemma unat_byte_less: "unat (b :: byte) < 256"
  using unsigned_less [of b, where 'a = nat] by simp

lemma sextet_first: fixes a b :: nat assumes "b < 256"
  shows "(a div 4) * 4 + ((a mod 4) * 16 + b div 16) div 16 = a"
proof -
  have "b div 16 < 16" using assms by simp
  then have "((a mod 4) * 16 + b div 16) div 16 = a mod 4" by simp
  then show ?thesis by simp
qed

lemma sextet_second: fixes a b c :: nat assumes "b < 256" "c < 256"
  shows "(((a mod 4) * 16 + b div 16) mod 16) * 16 + ((b mod 16) * 4 + c div 64) div 4 = b"
proof -
  have "b div 16 < 16" using assms by simp
  then have x: "((a mod 4) * 16 + b div 16) mod 16 = b div 16" by simp
  have "c div 64 < 4" using assms by simp
  then have y: "((b mod 16) * 4 + c div 64) div 4 = b mod 16" by simp
  show ?thesis unfolding x y by simp
qed

lemma sextet_third: fixes b c :: nat assumes "c < 256"
  shows "(((b mod 16) * 4 + c div 64) mod 4) * 64 + c mod 64 = c"
proof -
  have "c div 64 < 4" using assms by simp
  then have x: "((b mod 16) * 4 + c div 64) mod 4 = c div 64" by simp
  show ?thesis unfolding x by simp
qed

lemma sextet_second_tail: fixes a b :: nat assumes "b < 256"
  shows "(((a mod 4) * 16 + b div 16) mod 16) * 16 + ((b mod 16) * 4) div 4 = b"
proof -
  have "b div 16 < 16" using assms by simp
  then have x: "((a mod 4) * 16 + b div 16) mod 16 = b div 16" by simp
  show ?thesis unfolding x by simp
qed

lemma sextet_first_tail: fixes a :: nat
  shows "(a div 4) * 4 + ((a mod 4) * 16) div 16 = a"
  by simp

lemma of_nat_byte: "n = unat (b :: byte) \<Longrightarrow> of_nat n = b"
  by simp

lemma b64_bytes_sextets: "b64_bytes (b64_sextets bs) = bs"
proof (induction bs rule: b64_sextets.induct)
  case (1 a b c rest)
  have "of_nat ((unat a div 4) * 4 + ((unat a mod 4) * 16 + unat b div 16) div 16) = a"
    by (rule of_nat_byte [OF sextet_first [OF unat_byte_less]])
  moreover have "of_nat ((((unat a mod 4) * 16 + unat b div 16) mod 16) * 16
      + ((unat b mod 16) * 4 + unat c div 64) div 4) = b"
    by (rule of_nat_byte [OF sextet_second [OF unat_byte_less unat_byte_less]])
  moreover have "of_nat ((((unat b mod 16) * 4 + unat c div 64) mod 4) * 64 + unat c mod 64) = c"
    by (rule of_nat_byte [OF sextet_third [OF unat_byte_less]])
  ultimately show ?case
    using 1 by (simp only: b64_sextets.simps b64_bytes.simps)
next
  case (2 a b)
  have "of_nat ((unat a div 4) * 4 + ((unat a mod 4) * 16 + unat b div 16) div 16) = a"
    by (rule of_nat_byte [OF sextet_first [OF unat_byte_less]])
  moreover have "of_nat ((((unat a mod 4) * 16 + unat b div 16) mod 16) * 16
      + ((unat b mod 16) * 4) div 4) = b"
    by (rule of_nat_byte [OF sextet_second_tail [OF unat_byte_less]])
  ultimately show ?case
    by (simp only: b64_sextets.simps b64_bytes.simps)
next
  case (3 a)
  have "of_nat ((unat a div 4) * 4 + ((unat a mod 4) * 16) div 16) = a"
    by (rule of_nat_byte [OF sextet_first_tail])
  then show ?case
    by (simp only: b64_sextets.simps b64_bytes.simps)
next
  case 4
  then show ?case by simp
qed

lemma b64_sextets_bound: "i \<in> set (b64_sextets bs) \<Longrightarrow> i < 64"
proof (induction bs arbitrary: i rule: b64_sextets.induct)
  case (1 a b c rest)
  have "unat a < 256" "unat b < 256" "unat c < 256" by (rule unat_byte_less)+
  then have "unat a div 4 < 64" "(unat a mod 4) * 16 + unat b div 16 < 64"
    "(unat b mod 16) * 4 + unat c div 64 < 64" "unat c mod 64 < 64"
    by simp_all
  with 1 show ?case by auto
next
  case (2 a b)
  have "unat a < 256" "unat b < 256" by (rule unat_byte_less)+
  then have "unat a div 4 < 64" "(unat a mod 4) * 16 + unat b div 16 < 64"
    "(unat b mod 16) * 4 < 64"
    by simp_all
  with 2 show ?case by auto
next
  case (3 a)
  have "unat a < 256" by (rule unat_byte_less)
  then have "unat a div 4 < 64" "(unat a mod 4) * 16 < 64"
    by simp_all
  with 3 show ?case by auto
next
  case 4
  then show ?case by simp
qed

lemma length_b64_sextets:
  "length (b64_sextets bs) = 4 * (length bs div 3) + (if length bs mod 3 = 0 then 0 else length bs mod 3 + 1)"
  by (induction bs rule: b64_sextets.induct) auto

subsection \<open>ASCII text through UTF-8\<close>

lemma ascii_unit:
  fixes c :: jschar
  assumes "c < 0x80"
  shows "scalar_of_unit c = unat c" and "unat c < 0x80"
    and "\<not> is_high_surrogate c"
    and "ucast (ucast c :: byte) = c"
    and "(ucast c :: byte) < 0x80"
  using assms
  by (simp_all add: scalar_of_unit_def is_high_surrogate_def is_low_surrogate_def
      word_le_nat_alt word_less_nat_alt word_unat_eq_iff unsigned_ucast_eq take_bit_eq_mod unat_mod_distrib)

lemma code_points_ascii: "is_ascii s \<Longrightarrow> code_points s = map unat s"
  by (induction s rule: code_points.induct) (simp_all add: is_ascii_def ascii_unit)

lemma utf8_encode_ascii: "is_ascii s \<Longrightarrow> utf8_encode s = map ucast s"
proof -
  assume a: "is_ascii s"
  have "concat (map utf8_of_cp (map unat s)) = map ucast s"
    using a by (induction s) (simp_all add: is_ascii_def utf8_of_cp_def ascii_unit)
  then show ?thesis by (simp add: utf8_encode_def code_points_ascii a)
qed

lemma utf8_decode_from_ascii:
  "list_all (\<lambda>b. b < 0x80) bs \<Longrightarrow> utf8_decode_from 0 0 0x80 0xBF bs = map unat bs"
  by (induction bs) (simp_all add: word_less_nat_alt)

lemma utf8_decode_ascii:
  assumes "list_all (\<lambda>b. b < 0x80) bs"
  shows "utf8_decode bs = map ucast bs"
proof -
  have "concat (map utf16_of_cp (map unat bs)) = map ucast bs"
    using assms
    by (induction bs) (simp_all add: utf16_of_cp_def word_less_nat_alt)
  then show ?thesis by (simp add: utf8_decode_def utf8_decode_from_ascii assms)
qed

lemma ascii_round: "is_ascii s \<Longrightarrow> map ucast (map ucast s :: byte list) = s"
  by (induction s) (simp_all add: is_ascii_def ascii_unit)

subsection \<open>The alphabet\<close>

lemma all_less_64: "(\<forall>i<64. P i) = list_all P [0..<64]"
  by (auto simp: list_all_iff)

lemma b64url_char_all:
  "\<forall>i<64. b64_index (standard_char (b64url_char i)) = Some i
      \<and> b64url_char i < 0x80
      \<and> b64url_char i \<noteq> 0x25
      \<and> b64url_char i \<noteq> 0x3D
      \<and> standard_char (b64url_char i) \<noteq> 0x3D
      \<and> \<not> is_ascii_whitespace (standard_char (b64url_char i))
      \<and> percent_encode_byte (ucast (b64url_char i)) = [b64url_char i]
      \<and> (ucast (b64url_char i) :: byte) \<noteq> 0x25
      \<and> (ucast (b64url_char i) :: byte) \<noteq> 0x26
      \<and> (ucast (b64url_char i) :: byte) \<noteq> 0x2B
      \<and> (ucast (b64url_char i) :: byte) \<noteq> 0x3D
      \<and> (ucast (b64url_char i) :: byte) < 0x80
      \<and> (ucast (ucast (b64url_char i) :: byte) :: jschar) = b64url_char i"
  unfolding all_less_64
  by (simp add: upt_rec b64_index_def standard_char_def b64url_char_def percent_encode_byte_def
      is_unreserved_def is_ascii_whitespace_def)

lemmas b64url_char_facts = b64url_char_all [rule_format]

lemma to_standard: "replace_all 0x5F 0x2F (replace_all 0x2D 0x2B s) = map standard_char s"
  by (induction s) (auto simp: replace_all_def standard_char_def)

lemma b64_indices_standard:
  "\<forall>i \<in> set xs. i < 64 \<Longrightarrow> b64_indices (map (standard_char \<circ> b64url_char) xs) = Some xs"
  by (induction xs) (simp_all add: b64url_char_facts)

lemma strip_padding_pad:
  assumes "0x3D \<notin> set X" and "p \<le> 2" and "(length X + p) mod 4 = 0"
  shows "strip_padding (X @ replicate p 0x3D) = X"
proof -
  have no2: "drop n X \<noteq> [0x3D, 0x3D]" for n
    using assms(1) in_set_dropD [of "0x3D" n X] by auto
  have no1: "drop n X \<noteq> [0x3D]" for n
    using assms(1) in_set_dropD [of "0x3D" n X] by auto
  from assms(2) consider "p = 0" | "p = 1" | "p = 2" by linarith
  then show ?thesis
  proof cases
    case 1
    with assms(3) no1 no2 show ?thesis by (simp add: strip_padding_def)
  next
    case 2
    with assms(3) have ne: "X \<noteq> []" by auto
    then have len: "length X - 1 < length X" "Suc (length X) - 2 = length X - 1" by (cases X; simp)+
    have "drop (length X - 1) X @ [0x3D] \<noteq> [0x3D, 0x3D]"
      using no1 [of "length X - 1"] by auto
    with 2 assms(3) len show ?thesis
      by (simp add: strip_padding_def)
  next
    case 3
    with assms(3) show ?thesis
      by (simp add: strip_padding_def numeral_2_eq_2)
  qed
qed

lemma pad_not_whitespace: "\<not> is_ascii_whitespace 0x3D"
  by (simp add: is_ascii_whitespace_def)

lemma atob_standard:
  assumes "\<forall>i \<in> set xs. i < 64" and "p \<le> 2" and "(length xs + p) mod 4 = 0"
      and "length xs mod 4 \<noteq> 1"
  shows "atob (map standard_char (map b64url_char xs @ replicate p 0x3D)) =
           Inr (map ucast (b64_bytes xs))"
proof -
  let ?X = "map (standard_char \<circ> b64url_char) xs"
  have form: "map standard_char (map b64url_char xs @ replicate p 0x3D) = ?X @ replicate p 0x3D"
    by (simp add: standard_char_def)
  have nows: "filter (\<lambda>c. \<not> is_ascii_whitespace c) (?X @ replicate p 0x3D) = ?X @ replicate p 0x3D"
    using assms(1) by (auto simp: filter_id_conv b64url_char_facts pad_not_whitespace)
  have nopad: "0x3D \<notin> set ?X"
    using assms(1) by (auto simp: b64url_char_facts)
  have strip: "strip_padding (?X @ replicate p 0x3D) = ?X"
    by (rule strip_padding_pad [OF nopad assms(2)]) (simp add: assms(3))
  have "atob (?X @ replicate p 0x3D) = Inr (map ucast (b64_bytes xs))"
    unfolding atob_def nows strip Let_def
    using assms(4) b64_indices_standard [OF assms(1)] by simp
  then show ?thesis
    by (simp only: form)
qed

lemma base64url_encode_chars:
  "c \<in> set (base64url_encode bs) \<Longrightarrow> (\<exists>i<64. c = b64url_char i) \<or> c = 0x3D"
  by (auto simp: base64url_encode_def dest: b64_sextets_bound)

lemma base64url_encode_no_percent: "0x25 \<notin> set (base64url_encode bs)"
  using base64url_encode_chars [of "0x25" bs] by (auto simp: b64url_char_facts)

lemma sextets_length_facts:
  "((3 - length bs mod 3) mod 3) \<le> 2"
  "(length (b64_sextets bs) + (3 - length bs mod 3) mod 3) mod 4 = 0"
  "length (b64_sextets bs) mod 4 \<noteq> 1"
proof -
  define k where "k = length bs div 3"
  consider "length bs mod 3 = 0" | "length bs mod 3 = 1" | "length bs mod 3 = 2"
    by linarith
  then have "(length (b64_sextets bs) + (3 - length bs mod 3) mod 3) mod 4 = 0
      \<and> length (b64_sextets bs) mod 4 \<noteq> 1"
  proof cases
    case 1
    then have "length (b64_sextets bs) = 4 * k" by (simp add: length_b64_sextets k_def)
    with 1 show ?thesis by simp
  next
    case 2
    then have "length (b64_sextets bs) = 4 * k + 2" by (simp add: length_b64_sextets k_def)
    with 2 show ?thesis by (simp add: mod_Suc)
  next
    case 3
    then have "length (b64_sextets bs) = 4 * k + 3" by (simp add: length_b64_sextets k_def)
    with 3 show ?thesis by (simp add: mod_Suc)
  qed
  then show "(length (b64_sextets bs) + (3 - length bs mod 3) mod 3) mod 4 = 0"
    and "length (b64_sextets bs) mod 4 \<noteq> 1"
    by simp_all
  show "((3 - length bs mod 3) mod 3) \<le> 2"
    by simp
qed

lemma decode_base64url_encode:
  "decodeBase64UrlSafe (base64url_encode bs) = Inr (map ucast bs)"
proof -
  have "atob (map standard_char (base64url_encode bs)) = Inr (map ucast (b64_bytes (b64_sextets bs)))"
    unfolding base64url_encode_def
    by (rule atob_standard [OF _ sextets_length_facts]) (auto dest: b64_sextets_bound)
  then show ?thesis
    by (simp add: decodeBase64UrlSafe_is_decode_fixed decode_fixed_def to_standard
        decodeURIComponent_no_percent [OF base64url_encode_no_percent] b64_bytes_sextets)
qed

subsection \<open>The query string round trip\<close>

lemma split_on_absent: "d \<notin> set xs \<Longrightarrow> split_on d xs = [xs]"
  by (induction xs) auto

lemma percent_decode_plain: "p \<noteq> 0x25 \<Longrightarrow> percent_decode (p # bs) = p # percent_decode bs"
  by (cases bs rule: percent_decode.cases) auto

lemma percent_decode_pad:
  "percent_decode (concat (replicate p [0x25, 0x33, 0x44])) = replicate p 0x3D"
  by (induction p) (simp_all add: hex2_def hex_val_def)

lemma percent_decode_value:
  assumes "\<forall>i \<in> set xs. i < 64"
  shows "percent_decode (map (ucast \<circ> b64url_char) xs @ concat (replicate p [0x25, 0x33, 0x44])) =
           map (ucast \<circ> b64url_char) xs @ replicate p 0x3D"
  using assms
  by (induction xs) (simp_all add: percent_decode_pad percent_decode_plain b64url_char_facts)

lemma percent_encode_value:
  assumes "\<forall>i \<in> set xs. i < 64"
  shows "percent_encode (map b64url_char xs @ replicate p 0x3D) =
           map b64url_char xs @ concat (replicate p [0x25, 0x33, 0x44])"
proof -
  have ascii: "is_ascii (map b64url_char xs @ replicate p 0x3D)"
    using assms by (auto simp: is_ascii_def list_all_iff b64url_char_facts)
  have pad: "concat (map percent_encode_byte (replicate p 0x3D)) = concat (replicate p [0x25, 0x33, 0x44])"
    by (induction p) (simp_all add: percent_encode_byte_def is_unreserved_def hex_digit_def)
  have "concat (map percent_encode_byte (map (ucast \<circ> b64url_char) xs)) = map b64url_char xs"
    using assms by (induction xs) (simp_all add: b64url_char_facts)
  with pad show ?thesis
    by (simp add: percent_encode_def utf8_encode_ascii [OF ascii])
qed

lemma query_of_data:
  assumes "\<forall>i \<in> set xs. i < 64"
  shows "params_get
           (URLSearchParams (str ''?data='' @ percent_encode (map b64url_char xs @ replicate p 0x3D)))
           (str ''data'') =
         Some (map b64url_char xs @ replicate p 0x3D)"
proof -
  let ?PE = "map b64url_char xs @ concat (replicate p [0x25, 0x33, 0x44])"
  let ?V = "map (ucast \<circ> b64url_char) xs @ concat (replicate p [0x25, 0x33, 0x44]) :: byte list"
  have ascii: "is_ascii (str ''data='' @ ?PE)"
    using assms by (auto simp: is_ascii_def list_all_iff b64url_char_facts string_eval)
  have "utf8_encode (str ''data='' @ ?PE) = map ucast (str ''data='' @ ?PE)"
    by (rule utf8_encode_ascii [OF ascii])
  also have "\<dots> = [0x64, 0x61, 0x74, 0x61, 0x3D] @ ?V"
    by (simp add: string_eval map_concat)
  finally have enc: "utf8_encode (str ''data='' @ ?PE) = [0x64, 0x61, 0x74, 0x61, 0x3D] @ ?V" .
  have noamp: "0x26 \<notin> set ([0x64, 0x61, 0x74, 0x61, 0x3D] @ ?V)"
    using assms by (auto simp: b64url_char_facts)
  have noplus: "plus_to_space ?V = ?V"
    using assms by (auto simp: plus_to_space_def map_concat b64url_char_facts intro!: map_idI)
  have bytes_ascii: "list_all (\<lambda>b. b < 0x80) (map (ucast \<circ> b64url_char) xs @ replicate p (0x3D :: byte))"
    using assms by (auto simp: list_all_iff b64url_char_facts)
  have again: "map ucast (map (ucast \<circ> b64url_char) xs @ replicate p (0x3D :: byte)) =
      map b64url_char xs @ replicate p (0x3D :: jschar)"
    using assms by (induction xs) (simp_all add: b64url_char_facts)
  have val: "form_component ?V = map b64url_char xs @ replicate p 0x3D"
    by (simp only: form_component_def noplus percent_decode_value [OF assms]
        utf8_decode_ascii [OF bytes_ascii] again)
  have name: "form_component [0x64, 0x61, 0x74, 0x61] = str ''data''"
    by (simp add: form_component_def plus_to_space_def utf8_decode_def utf16_of_cp_def string_eval)
  have pair: "parse_pair ([0x64, 0x61, 0x74, 0x61, 0x3D] @ ?V) =
      (str ''data'', map b64url_char xs @ replicate p 0x3D)"
    by (simp add: parse_pair_def name val)
  have q: "str ''?data='' @ ?PE = 0x3F # (str ''data='' @ ?PE)"
    by (simp add: string_eval)
  have "URLSearchParams (0x3F # (str ''data='' @ ?PE)) =
      map parse_pair (filter (\<lambda>q. q \<noteq> []) (split_on 0x26 (utf8_encode (str ''data='' @ ?PE))))"
    by (simp add: URLSearchParams_def)
  also have "\<dots> = map parse_pair (filter (\<lambda>q. q \<noteq> [])
      (split_on 0x26 ([0x64, 0x61, 0x74, 0x61, 0x3D] @ ?V)))"
    by (simp only: enc)
  also have "\<dots> = map parse_pair (filter (\<lambda>q. q \<noteq> []) [[0x64, 0x61, 0x74, 0x61, 0x3D] @ ?V])"
    by (simp only: split_on_absent [OF noamp])
  also have "\<dots> = [parse_pair ([0x64, 0x61, 0x74, 0x61, 0x3D] @ ?V)]"
    by simp
  also have "\<dots> = [(str ''data'', map b64url_char xs @ replicate p 0x3D)]"
    by (simp only: pair)
  finally have "URLSearchParams (str ''?data='' @ ?PE) =
      [(str ''data'', map b64url_char xs @ replicate p 0x3D)]"
    by (simp only: q)
  then show ?thesis
    by (simp add: params_get_def percent_encode_value [OF assms])
qed

subsection \<open>The round trip of the payload\<close>

lemma data_parameter_value:
  "params_get (URLSearchParams (data_query t)) (str ''data'') =
     Some (base64url_encode (utf8_encode t))"
  unfolding data_query_def base64url_encode_def
  by (rule query_of_data) (auto dest: b64_sextets_bound)

lemma base64url_encode_nonempty: "bs \<noteq> [] \<Longrightarrow> base64url_encode bs \<noteq> []"
  by (cases bs rule: b64_sextets.cases) (simp_all add: base64url_encode_def)

lemma utf8_of_cp_nonempty: "utf8_of_cp n \<noteq> []"
  by (simp add: utf8_of_cp_def)

lemma utf8_encode_nonempty: "t \<noteq> [] \<Longrightarrow> utf8_encode t \<noteq> []"
  by (cases t rule: code_points.cases) (simp_all add: utf8_encode_def utf8_of_cp_nonempty)

lemma JSON_parse_empty: "JSON_parse [] = Inl SyntaxError"
  by (simp add: JSON_parse_def skip_ws_def)

lemma loaded_data_query:
  assumes "t \<noteq> []"
  shows "loaded pf (data_query t) =
     (case JSON_parse (map ucast (utf8_encode t)) of
        Inl e \<Rightarrow> \<lparr>payload = JNull, error = Some (parse_failure pf e)\<rparr>
      | Inr v \<Rightarrow> \<lparr>payload = v, error = None\<rparr>)"
proof -
  have ne: "base64url_encode (utf8_encode t) \<noteq> []"
    by (rule base64url_encode_nonempty [OF utf8_encode_nonempty [OF assms]])
  show ?thesis
    by (simp add: page_eval data_parameter_value ne decode_base64url_encode split: sum.splits)
qed

text \<open>
  C1, as the code has it. For every JSON text \<open>t\<close>, the \<open>data\<close> parameter read from
  the query string is the Base64-URL text of the UTF-8 bytes of \<open>t\<close>, and
  \<open>decodeBase64UrlSafe\<close> returns those bytes, one character per byte. When \<open>t\<close>
  consists of ASCII characters only and denotes the value \<open>v\<close> (\<open>JSON.parse\<close> of \<open>t\<close> is
  \<open>v\<close>), the page after load holds exactly \<open>v\<close> as its payload and no error.
\<close>

theorem ascii_payload_round_trip:
  "params_get (URLSearchParams (data_query t)) (str ''data'') =
     Some (base64url_encode (utf8_encode t))
   \<and> decodeBase64UrlSafe (base64url_encode (utf8_encode t)) = Inr (map ucast (utf8_encode t))
   \<and> (is_ascii t \<and> JSON_parse t = Inr v \<longrightarrow>
        decodeBase64UrlSafe (base64url_encode (utf8_encode t)) = Inr t
        \<and> loaded pf (data_query t) = \<lparr>payload = v, error = None\<rparr>)"
proof -
  have "decodeBase64UrlSafe (base64url_encode (utf8_encode t)) = Inr t
        \<and> loaded pf (data_query t) = \<lparr>payload = v, error = None\<rparr>"
    if a: "is_ascii t" and p: "JSON_parse t = Inr v"
  proof -
    have same: "map ucast (utf8_encode t) = t"
      by (simp only: utf8_encode_ascii [OF a] ascii_round [OF a])
    have "t \<noteq> []"
      using p JSON_parse_empty by auto
    from loaded_data_query [OF this, of pf] show ?thesis
      by (simp add: same p decode_base64url_encode)
  qed
  then show ?thesis
    by (simp add: data_parameter_value decode_base64url_encode)
qed

lemma example_text_ascii:
  \<open>is_ascii (str ''{"receipt_id":"R1","generated_at":"2024-01-01T00:00:00Z","problem":{"problem_name_en":"Leaf Blight"},"components":[]}'')\<close>
  by (simp add: is_ascii_def string_eval)

theorem ascii_payload_round_trip_witness:
  \<open>is_ascii (str ''{"receipt_id":"R1","generated_at":"2024-01-01T00:00:00Z","problem":{"problem_name_en":"Leaf Blight"},"components":[]}'')
   \<and> JSON_parse (str ''{"receipt_id":"R1","generated_at":"2024-01-01T00:00:00Z","problem":{"problem_name_en":"Leaf Blight"},"components":[]}'') = Inr example_payload
   \<and> loaded example_platform (data_query (str ''{"receipt_id":"R1","generated_at":"2024-01-01T00:00:00Z","problem":{"problem_name_en":"Leaf Blight"},"components":[]}'')) =
       \<lparr>payload = example_payload, error = None\<rparr>\<close>
  using example_text_ascii example_json
    ascii_payload_round_trip [where v = example_payload and pf = example_platform
      and t = \<open>str ''{"receipt_id":"R1","generated_at":"2024-01-01T00:00:00Z","problem":{"problem_name_en":"Leaf Blight"},"components":[]}''\<close>]
  by blast

text \<open>The claim as stated fails for a text with a character outside ASCII written as
  it is: the Telugu letter U+0C05 comes back as the three characters of its UTF-8
  bytes.\<close>

lemma telugu_bytes:
  "map ucast (utf8_encode telugu_text) =
     str ''{\"problem\":{\"problem_name_te\":\"'' @ [0xE0, 0xB0, 0x85] @ str ''\"}}''"
  by (simp add: telugu_text_def utf8_encode_def utf8_of_cp_def scalar_of_unit_def
      is_high_surrogate_def is_low_surrogate_def string_eval)

theorem telugu_payload_not_recovered:
  "JSON_parse telugu_text = Inr telugu_payload
   \<and> loaded example_platform (data_query telugu_text) =
       \<lparr>payload = JObj [(str ''problem'', JObj [(str ''problem_name_te'', JStr [0xE0, 0xB0, 0x85])])],
        error = None\<rparr>
   \<and> JObj [(str ''problem'', JObj [(str ''problem_name_te'', JStr [0xE0, 0xB0, 0x85])])]
       \<noteq> telugu_payload"
proof -
  have a: "JSON_parse telugu_text = Inr telugu_payload"
    by (simp add: telugu_text_def telugu_payload_def json_eval string_eval)
  have ne: "telugu_text \<noteq> []"
    by (simp add: telugu_text_def string_eval)
  have b: "JSON_parse (map ucast (utf8_encode telugu_text)) =
      Inr (JObj [(str ''problem'', JObj [(str ''problem_name_te'', JStr [0xE0, 0xB0, 0x85])])])"
    unfolding telugu_bytes by (simp add: json_eval string_eval)
  have c: "JObj [(str ''problem'', JObj [(str ''problem_name_te'', JStr [0xE0, 0xB0, 0x85])])]
       \<noteq> telugu_payload"
    by (simp add: telugu_payload_def)
  from a loaded_data_query [OF ne, of example_platform] b c show ?thesis
    by simp
qed

end
